theory Spec2Isabelle
  imports Complex_Main "HOL-Library.AList"
begin

section \<open>Numbers and vectors\<close>

text \<open>
  JavaScript numbers are modelled as mathematical reals (the rounding of double-precision
  arithmetic, NaN and the infinities are outside the model); numbers that the program
  uses as counts or array indices are integers. The conversion to single precision that
  a store into a \<open>Float32Array\<close> makes is part of the model.
  \<open>THREE.Vector3\<close> is a triple of reals, with the operations of the library that the
  viewer calls.
\<close>

datatype vec3 = Vector3 (vx: real) (vy: real) (vz: real)

definition zeroVector :: vec3 where
  "zeroVector = Vector3 0 0 0"

definition vadd :: "vec3 \<Rightarrow> vec3 \<Rightarrow> vec3" where
  "vadd a b = Vector3 (vx a + vx b) (vy a + vy b) (vz a + vz b)"

definition subVectors :: "vec3 \<Rightarrow> vec3 \<Rightarrow> vec3" where
  "subVectors a b = Vector3 (vx a - vx b) (vy a - vy b) (vz a - vz b)"

definition multiplyScalar :: "vec3 \<Rightarrow> real \<Rightarrow> vec3" where
  "multiplyScalar v s = Vector3 (vx v * s) (vy v * s) (vz v * s)"

definition divideScalar :: "vec3 \<Rightarrow> real \<Rightarrow> vec3" where
  "divideScalar v s = multiplyScalar v (1 / s)"

definition lerpVectors :: "vec3 \<Rightarrow> vec3 \<Rightarrow> real \<Rightarrow> vec3" where
  "lerpVectors v1 v2 alpha =
     Vector3 (vx v1 + (vx v2 - vx v1) * alpha)
             (vy v1 + (vy v2 - vy v1) * alpha)
             (vz v1 + (vz v2 - vz v1) * alpha)"

definition lerp :: "vec3 \<Rightarrow> vec3 \<Rightarrow> real \<Rightarrow> vec3" where
  "lerp this v alpha =
     Vector3 (vx this + (vx v - vx this) * alpha)
             (vy this + (vy v - vy this) * alpha)
             (vz this + (vz v - vz this) * alpha)"

definition vlength :: "vec3 \<Rightarrow> real" where
  "vlength v = sqrt (vx v * vx v + vy v * vy v + vz v * vz v)"

definition distanceTo :: "vec3 \<Rightarrow> vec3 \<Rightarrow> real" where
  "distanceTo a b = vlength (subVectors a b)"

text \<open>\<open>normalize\<close> divides by \<open>length() || 1\<close>: the zero vector stays zero.\<close>

definition normalize_v :: "vec3 \<Rightarrow> vec3" where
  "normalize_v v = divideScalar v (if vlength v = 0 then 1 else vlength v)"

section \<open>Geometry primitives\<close>

text \<open>
  \<open>getSpherePoints\<close> (AtomViewer.tsx and the application file hold the same function).
  The loop over \<open>i = 0 .. samples - 1\<close> pushes one point per index.
\<close>

definition goldenAngle :: real where
  "goldenAngle = pi * (3 - sqrt 5)"

definition spherePointAt :: "int \<Rightarrow> real \<Rightarrow> nat \<Rightarrow> vec3" where
  "spherePointAt samples radius i =
     (let y = 1 - (real i / real_of_int (samples - 1)) * 2;
          r = sqrt (1 - y * y);
          theta = goldenAngle * real i;
          x = cos theta * r;
          z = sin theta * r
      in multiplyScalar (Vector3 x y z) radius)"

definition getSpherePoints :: "int \<Rightarrow> real \<Rightarrow> vec3 list" where
  "getSpherePoints samples radius =
     (if samples \<le> 0 then []
      else if samples = 1 then [Vector3 0 radius 0]
      else map (spherePointAt samples radius) [0 ..< nat samples])"

text \<open>
  \<open>getRandomPointInSphere\<close> draws three numbers from \<open>Math.random\<close>, in the order
  \<open>u\<close>, \<open>v\<close>, and the one under the cube root. \<open>sphereSample\<close> is its body as a
  function of the three draws.
\<close>

definition sphereSample :: "real \<Rightarrow> real \<Rightarrow> real \<Rightarrow> real \<Rightarrow> vec3" where
  "sphereSample radius u v w =
     (let theta = 2 * pi * u;
          phi = arccos (2 * v - 1);
          r = radius * root 3 w
      in Vector3 (r * sin phi * cos theta) (r * sin phi * sin theta) (r * cos phi))"

text \<open>
  The random source is a sequence of draws and the position of the next one; every call
  of \<open>Math.random\<close> reads the draw at the position and advances it.
\<close>

type_synonym rng = "(nat \<Rightarrow> real) \<times> nat"

definition random :: "rng \<Rightarrow> real \<times> rng" where
  "random g = (fst g (snd g), (fst g, Suc (snd g)))"

definition getRandomPointInSphere :: "real \<Rightarrow> rng \<Rightarrow> vec3 \<times> rng" where
  "getRandomPointInSphere radius g =
     (let (u, g1) = random g;
          (v, g2) = random g1;
          (w, g3) = random g2
      in (sphereSample radius u v w, g3))"


section \<open>Bonds and the application's bond list\<close>

text \<open>
  A \<open>Bond\<close> is a pair of atom indices and a bond order. The indices are JavaScript
  numbers that hold integers; they can be negative when a file gives an atom number 0.
\<close>

record Bond =
  pair :: "int \<times> int"
  type :: int

text \<open>
  \<open>handleAddBond\<close>: the function that \<open>setBondingPairs\<close> applies to the current bond
  list. Sorting the two-element array with the comparator \<open>a - b\<close> puts the smaller
  index first.
\<close>

definition handleAddBond :: "int \<Rightarrow> int \<Rightarrow> int \<Rightarrow> Bond list \<Rightarrow> Bond list" where
  "handleAddBond fromIndex toIndex ty currentBonds =
     (let newPair = (if toIndex < fromIndex then (toIndex, fromIndex) else (fromIndex, toIndex));
          exists = list_ex (\<lambda>b. fst (pair b) = fst newPair \<and> snd (pair b) = snd newPair) currentBonds
      in if \<not> exists then currentBonds @ [\<lparr>pair = newPair, type = ty\<rparr>] else currentBonds)"

text \<open>The table of known molecules: signature, name and bond list.\<close>

definition mkBond :: "int \<Rightarrow> int \<Rightarrow> int \<Rightarrow> Bond" where
  "mkBond a b t = \<lparr>pair = (a, b), type = t\<rparr>"

definition knownMolecules :: "(string \<times> string \<times> Bond list) list" where
  "knownMolecules =
    [(''OHH'', ''Water'', [mkBond 0 1 1, mkBond 0 2 1]),
     (''CHHHH'', ''Methane'', [mkBond 0 1 1, mkBond 0 2 1, mkBond 0 3 1, mkBond 0 4 1]),
     (''NHHH'', ''Ammonia'', [mkBond 0 1 1, mkBond 0 2 1, mkBond 0 3 1]),
     (''COO'', ''Carbon Dioxide'', [mkBond 0 1 2, mkBond 0 2 2]),
     (''CCHHHH'', ''Ethene'',
        [mkBond 0 1 2, mkBond 0 2 1, mkBond 0 3 1, mkBond 1 4 1, mkBond 1 5 1]),
     (''OOHH'', ''Hydrogen Peroxide'', [mkBond 0 1 1, mkBond 0 2 1, mkBond 1 3 1]),
     (''HCCH'', ''Acetylene'', [mkBond 0 1 1, mkBond 1 2 3, mkBond 2 3 1]),
     (''NN'', ''Dinitrogen'', [mkBond 0 1 3]),
     (''CCHHHHHOH'', ''Ethanol'',
        [mkBond 0 1 1, mkBond 0 2 1, mkBond 0 3 1, mkBond 0 4 1, mkBond 1 5 1, mkBond 1 6 1,
         mkBond 1 7 1, mkBond 7 8 1]),
     (''CHHHCHHOH'', ''Ethanol'',
        [mkBond 0 1 1, mkBond 0 2 1, mkBond 0 3 1, mkBond 0 4 1, mkBond 4 5 1, mkBond 4 6 1,
         mkBond 4 7 1, mkBond 7 8 1])]"

subsection \<open>Strings\<close>

text \<open>
  A string is its list of characters. The white space of \<open>trim\<close>, of the regular
  expression \<open>\s\<close> and of \<open>parseInt\<close> is, among one-byte characters: tab, line
  feed, vertical tab, form feed, carriage return, space and no-break space.
\<close>

definition isWhiteSpace :: "char \<Rightarrow> bool" where
  "isWhiteSpace c = (c \<in> set [CHR 0x09, CHR 0x0A, CHR 0x0B, CHR 0x0C, CHR 0x0D, CHR 0x20, CHR 0xA0])"

definition isDigit :: "char \<Rightarrow> bool" where
  "isDigit c = (c \<in> set ''0123456789'')"

definition trim :: "string \<Rightarrow> string" where
  "trim s = rev (dropWhile isWhiteSpace (rev (dropWhile isWhiteSpace s)))"

text \<open>\<open>s.split(c)\<close> for a one-character separator: \<open>n\<close> separators give \<open>n + 1\<close> pieces.\<close>

fun splitOn :: "char \<Rightarrow> string \<Rightarrow> string list" where
  "splitOn c [] = [[]]"
| "splitOn c (x # xs) =
     (if x = c then [] # splitOn c xs
      else (case splitOn c xs of [] \<Rightarrow> [[x]] | w # ws \<Rightarrow> (x # w) # ws))"

text \<open>
  \<open>s.split(/\s+/)\<close>: every maximal run of white space separates two pieces, so a run at
  the start or at the end leaves an empty piece there. \<open>cur\<close> is the piece being read,
  reversed; \<open>inSep\<close> says that the last character read was white space.
\<close>

fun splitWhitespaceFrom :: "bool \<Rightarrow> string \<Rightarrow> string \<Rightarrow> string list" where
  "splitWhitespaceFrom inSep cur [] = [rev cur]"
| "splitWhitespaceFrom inSep cur (c # cs) =
     (if isWhiteSpace c then
        (if inSep then splitWhitespaceFrom True [] cs
         else rev cur # splitWhitespaceFrom True [] cs)
      else splitWhitespaceFrom False (c # cur) cs)"

definition splitWhitespace :: "string \<Rightarrow> string list" where
  "splitWhitespace s = splitWhitespaceFrom False [] s"

definition substring :: "nat \<Rightarrow> nat \<Rightarrow> string \<Rightarrow> string" where
  "substring a b s = take (b - a) (drop a s)"

definition startsWith :: "string \<Rightarrow> string \<Rightarrow> bool" where
  "startsWith s p = (take (length p) s = p)"

text \<open>
  \<open>parseInt(s, 10)\<close>: leading white space, an optional sign, then the longest run of
  digits; \<open>None\<close> is NaN. \<open>parseInt(undefined, 10)\<close> is NaN as well.
\<close>

definition digitsValue :: "string \<Rightarrow> int" where
  "digitsValue ds = foldl (\<lambda>acc c. acc * 10 + (int (of_char c) - 48)) 0 ds"

definition parseInt :: "string \<Rightarrow> int option" where
  "parseInt s =
     (let t = dropWhile isWhiteSpace s;
          neg = (t \<noteq> [] \<and> hd t = CHR ''-'');
          r = (if t \<noteq> [] \<and> (hd t = CHR ''-'' \<or> hd t = CHR ''+'') then tl t else t);
          ds = takeWhile isDigit r
      in if ds = [] then None
         else Some (if neg then - digitsValue ds else digitsValue ds))"

definition parseIntAt :: "string list \<Rightarrow> nat \<Rightarrow> int option" where
  "parseIntAt parts k = (if k < length parts then parseInt (parts ! k) else None)"

text \<open>An array read \<open>xs[i]\<close>: \<open>None\<close> is \<open>undefined\<close>.\<close>

definition arrayAt :: "'a list \<Rightarrow> int \<Rightarrow> 'a option" where
  "arrayAt xs i = (if 0 \<le> i \<and> i < int (length xs) then Some (xs ! nat i) else None)"

text \<open>
  \<open>isNaN(parseFloat(s))\<close>: \<open>parseFloat\<close> gives a number exactly when, after leading
  white space and an optional sign, the text starts with a digit, with a dot and a digit,
  or with \<open>Infinity\<close>.
\<close>

definition parseFloatIsNaN :: "string \<Rightarrow> bool" where
  "parseFloatIsNaN s =
     (let t = dropWhile isWhiteSpace s;
          r = (if t \<noteq> [] \<and> (hd t = CHR ''-'' \<or> hd t = CHR ''+'') then tl t else t)
      in \<not> (startsWith r ''Infinity''
             \<or> (r \<noteq> [] \<and> isDigit (hd r))
             \<or> (length r \<ge> 2 \<and> hd r = CHR ''.'' \<and> isDigit (r ! 1))))"

subsection \<open>The SDF parser\<close>

text \<open>
  The errors that the parsers throw: too few lines, unreadable counts, and too many atoms
  (with the number of atoms found).
\<close>

datatype error = InvalidFormat | CountsNotRead | TooLarge int

text \<open>
  \<open>parseSDF\<close>, as far as the \<open>bonds\<close> field of its result goes: the atom block fills
  \<open>symbols\<close> and \<open>positions\<close> only and cannot throw, and the bond block reads neither.
  The result is the thrown error or the bond list.
\<close>

definition sdfBondOfLine :: "string option \<Rightarrow> Bond list" where
  "sdfBondOfLine line =
     (case line of
        None \<Rightarrow> []
      | Some l \<Rightarrow>
          if l = [] then []
          else
            (let parts = splitWhitespace (trim l) in
             case (parseIntAt parts 0, parseIntAt parts 1, parseIntAt parts 2) of
               (Some f, Some t, Some ty) \<Rightarrow>
                 (let from = f - 1; to = t - 1 in
                  if ty \<in> set [1, 2, 3]
                  then [\<lparr>pair = (min from to, max from to), type = ty\<rparr>]
                  else [])
             | _ \<Rightarrow> []))"

definition parseSDF :: "string \<Rightarrow> error + Bond list" where
  "parseSDF sdfData =
     (let lines = splitOn CHR 0x0A sdfData in
      if length lines < 4 then Inl InvalidFormat
      else
        (let countsLine = splitWhitespace (trim (lines ! 3)) in
         case (parseIntAt countsLine 0, parseIntAt countsLine 1) of
           (Some atomCount, Some bondCount) \<Rightarrow>
             if atomCount > 100 then Inl (TooLarge atomCount)
             else
               (let bondBlockStart = 4 + atomCount in
                Inr (concat (map (\<lambda>i. sdfBondOfLine (arrayAt lines (bondBlockStart + int i)))
                                 [0 ..< nat bondCount])))
         | _ \<Rightarrow> Inl CountsNotRead))"


subsection \<open>The PDB parser\<close>

text \<open>
  \<open>parsePDB\<close>, as far as the \<open>bonds\<close> field goes. An atom line counts when its three
  coordinates parse and it has a symbol (\<open>toUpperCase\<close> and \<open>charAt(0)\<close> keep a
  non-empty text non-empty). \<open>atomMap\<close> maps a serial number (\<open>None\<close> is NaN, a
  possible key of a JavaScript \<open>Map\<close>) to the index of the line among the atom lines.
\<close>

definition isAtomLine :: "string \<Rightarrow> bool" where
  "isAtomLine line = (startsWith line ''ATOM'' \<or> startsWith line ''HETATM'')"

definition atomLineValid :: "string \<Rightarrow> bool" where
  "atomLineValid line =
     (\<not> parseFloatIsNaN (substring 30 38 line)
      \<and> \<not> parseFloatIsNaN (substring 38 46 line)
      \<and> \<not> parseFloatIsNaN (substring 46 54 line)
      \<and> (trim (substring 76 78 line) \<noteq> [] \<or> trim (substring 12 16 line) \<noteq> []))"

fun buildAtomMap :: "string list \<Rightarrow> nat \<Rightarrow> (int option \<rightharpoonup> nat) \<Rightarrow> (int option \<rightharpoonup> nat)" where
  "buildAtomMap [] index atomMap = atomMap"
| "buildAtomMap (line # rest) index atomMap =
     buildAtomMap rest (Suc index)
       (if atomLineValid line then atomMap(parseInt (substring 6 11 line) \<mapsto> index)
        else atomMap)"

text \<open>
  The CONECT records. \<open>bondSet\<close> holds the keys \<open>a-b\<close> of the bonds pushed so far; the
  indices are natural numbers, so a key is its pair. The state is the bond list and the
  set.
\<close>

fun conectTargets ::
  "(int option \<rightharpoonup> nat) \<Rightarrow> nat \<Rightarrow> int option list \<Rightarrow> Bond list \<times> (int \<times> int) set
     \<Rightarrow> Bond list \<times> (int \<times> int) set" where
  "conectTargets atomMap fromIndex [] st = st"
| "conectTargets atomMap fromIndex (toSerial # rest) (bonds, bondSet) =
     (case atomMap toSerial of
        None \<Rightarrow> conectTargets atomMap fromIndex rest (bonds, bondSet)
      | Some toIndex \<Rightarrow>
          (let p = (min (int fromIndex) (int toIndex), max (int fromIndex) (int toIndex)) in
           if p \<notin> bondSet
           then conectTargets atomMap fromIndex rest
                  (bonds @ [\<lparr>pair = p, type = 1\<rparr>], insert p bondSet)
           else conectTargets atomMap fromIndex rest (bonds, bondSet)))"

definition conectLine ::
  "(int option \<rightharpoonup> nat) \<Rightarrow> Bond list \<times> (int \<times> int) set \<Rightarrow> string
     \<Rightarrow> Bond list \<times> (int \<times> int) set" where
  "conectLine atomMap st line =
     (let parts = map parseInt (tl (splitWhitespace (trim line))) in
      case parts of
        [] \<Rightarrow> st
      | fromSerial # rest \<Rightarrow>
          (case atomMap fromSerial of
             None \<Rightarrow> st
           | Some fromIndex \<Rightarrow> conectTargets atomMap fromIndex rest st))"

text \<open>
  Without bonds from CONECT records the bonds are inferred from distances. The test
  \<open>positions[i].distanceTo(positions[j]) < maxDist\<close> on the parsed coordinates and the
  table of covalent radii is the parameter \<open>near\<close>.
\<close>

definition inferBonds :: "(nat \<Rightarrow> nat \<Rightarrow> bool) \<Rightarrow> nat \<Rightarrow> Bond list" where
  "inferBonds near n =
     concat (map (\<lambda>i. concat (map (\<lambda>j. if near i j then [\<lparr>pair = (int i, int j), type = 1\<rparr>] else [])
                                    [Suc i ..< n]))
                 [0 ..< n])"

definition parsePDB :: "(nat \<Rightarrow> nat \<Rightarrow> bool) \<Rightarrow> string \<Rightarrow> error + Bond list" where
  "parsePDB near pdbData =
     (let lines = splitOn CHR 0x0A pdbData;
          atomLines = filter isAtomLine lines
      in if length atomLines > 500 then Inl (TooLarge (int (length atomLines)))
         else
           (let atomMap = buildAtomMap atomLines 0 Map.empty;
                positionsLength = length (filter atomLineValid atomLines);
                conectLines = filter (\<lambda>line. startsWith line ''CONECT'') lines;
                bonds = (if length conectLines > 0
                         then fst (foldl (conectLine atomMap) ([], {}) conectLines)
                         else [])
            in Inr (if length bonds = 0 \<and> length atomLines > 1
                    then inferBonds near positionsLength
                    else bonds)))"


section \<open>Stores into a Float32Array\<close>

text \<open>
  The position attribute of a \<open>Points\<close> object is a \<open>Float32Array\<close>. A store into
  it converts the number to the nearest single-precision number, a tie going to the even
  significand: 24 significant bits at the exponents from \<open>-126\<close> up, and the multiples of
  \<open>2^-149\<close> below. A magnitude above the largest single-precision number would be
  stored as an infinity, which is outside this model of numbers. Reading an element
  gives the number that was stored.
\<close>

definition roundTiesToEven :: "real \<Rightarrow> int" where
  "roundTiesToEven y =
     (let f = \<lfloor>y\<rfloor>; d = y - of_int f
      in if d < 1 / 2 then f else if 1 / 2 < d then f + 1 else if even f then f else f + 1)"

definition float32Exponent :: "real \<Rightarrow> int" where
  "float32Exponent x = max (- 126) \<lfloor>log 2 \<bar>x\<bar>\<rfloor>"

definition fround :: "real \<Rightarrow> real" where
  "fround x =
     (if x = 0 then 0
      else (let ulp = 2 powr (of_int (float32Exponent x) - 23)
            in of_int (roundTiesToEven (x / ulp)) * ulp))"

definition float32Vector :: "vec3 \<Rightarrow> vec3" where
  "float32Vector p = Vector3 (fround (vx p)) (fround (vy p)) (fround (vz p))"


section \<open>Scene objects\<close>

text \<open>
  \<open>THREE.Quaternion\<close> with the library operations behind \<open>rotateX\<close>, \<open>rotateY\<close> and
  \<open>setFromUnitVectors\<close>. The threshold below which \<open>setFromUnitVectors\<close> treats its
  two arguments as opposite is a constant of the library and a parameter here.
\<close>

datatype quat = Quaternion (qx: real) (qy: real) (qz: real) (qw: real)

definition identityQuaternion :: quat where
  "identityQuaternion = Quaternion 0 0 0 1"

definition setFromAxisAngle :: "vec3 \<Rightarrow> real \<Rightarrow> quat" where
  "setFromAxisAngle axis angle =
     (let halfAngle = angle / 2; s = sin halfAngle
      in Quaternion (vx axis * s) (vy axis * s) (vz axis * s) (cos halfAngle))"

definition multiplyQuaternions :: "quat \<Rightarrow> quat \<Rightarrow> quat" where
  "multiplyQuaternions a b =
     Quaternion (qx a * qw b + qw a * qx b + qy a * qz b - qz a * qy b)
                (qy a * qw b + qw a * qy b + qz a * qx b - qx a * qz b)
                (qz a * qw b + qw a * qz b + qx a * qy b - qy a * qx b)
                (qw a * qw b - qx a * qx b - qy a * qy b - qz a * qz b)"

definition qlength :: "quat \<Rightarrow> real" where
  "qlength q = sqrt (qx q * qx q + qy q * qy q + qz q * qz q + qw q * qw q)"

definition qnormalize :: "quat \<Rightarrow> quat" where
  "qnormalize q =
     (let l = qlength q in
      if l = 0 then Quaternion 0 0 0 1
      else Quaternion (qx q * (1 / l)) (qy q * (1 / l)) (qz q * (1 / l)) (qw q * (1 / l)))"

definition dot :: "vec3 \<Rightarrow> vec3 \<Rightarrow> real" where
  "dot a b = vx a * vx b + vy a * vy b + vz a * vz b"

definition setFromUnitVectors :: "real \<Rightarrow> vec3 \<Rightarrow> vec3 \<Rightarrow> quat" where
  "setFromUnitVectors eps vFrom vTo =
     (let r = dot vFrom vTo + 1 in
      qnormalize
        (if r < eps then
           (if \<bar>vx vFrom\<bar> > \<bar>vz vFrom\<bar>
            then Quaternion (- vy vFrom) (vx vFrom) 0 0
            else Quaternion 0 (- vz vFrom) (vy vFrom) 0)
         else Quaternion (vy vFrom * vz vTo - vz vFrom * vy vTo)
                         (vz vFrom * vx vTo - vx vFrom * vz vTo)
                         (vx vFrom * vy vTo - vy vFrom * vx vTo)
                         r))"

definition rotateOnAxis :: "quat \<Rightarrow> vec3 \<Rightarrow> real \<Rightarrow> quat" where
  "rotateOnAxis q axis angle = multiplyQuaternions q (setFromAxisAngle axis angle)"

definition rotateX :: "quat \<Rightarrow> real \<Rightarrow> quat" where
  "rotateX q angle = rotateOnAxis q (Vector3 1 0 0) angle"

definition rotateY :: "quat \<Rightarrow> real \<Rightarrow> quat" where
  "rotateY q angle = rotateOnAxis q (Vector3 0 1 0) angle"

text \<open>
  Every scene object has a position, an orientation, a scale and a visibility flag. Its
  local matrix is composed from the first three; \<open>localToParent\<close> applies that matrix to
  a point given in the object's own frame.
\<close>

record Object3D =
  position :: vec3
  quaternion :: quat
  scale :: vec3
  visible :: bool

definition localToParent :: "'a Object3D_scheme \<Rightarrow> vec3 \<Rightarrow> vec3" where
  "localToParent obj v =
     (let x = qx (quaternion obj); y = qy (quaternion obj);
          z = qz (quaternion obj); w = qw (quaternion obj);
          x2 = x + x; y2 = y + y; z2 = z + z;
          xx = x * x2; xy = x * y2; xz = x * z2;
          yy = y * y2; yz = y * z2; zz = z * z2;
          wx = w * x2; wy = w * y2; wz = w * z2;
          sx = vx (scale obj); sy = vy (scale obj); sz = vz (scale obj)
      in Vector3
           ((1 - (yy + zz)) * sx * vx v + (xy - wz) * sy * vy v + (xz + wy) * sz * vz v
              + vx (position obj))
           ((xy + wz) * sx * vx v + (1 - (xx + zz)) * sy * vy v + (yz - wx) * sz * vz v
              + vy (position obj))
           ((xz - wy) * sx * vx v + (yz + wx) * sy * vy v + (1 - (xx + yy)) * sz * vz v
              + vz (position obj)))"

text \<open>The rotation that a quaternion stands for, applied to a vector.\<close>

definition applyRotation :: "quat \<Rightarrow> vec3 \<Rightarrow> vec3" where
  "applyRotation q v =
     localToParent \<lparr>position = zeroVector, quaternion = q, scale = Vector3 1 1 1, visible = True\<rparr> v"

record Mesh = Object3D +
  opacity :: real

record Points = Object3D +
  positions :: "vec3 list"
  pointsOpacity :: real

definition newObject3D :: Object3D where
  "newObject3D =
     \<lparr>position = zeroVector, quaternion = identityQuaternion, scale = Vector3 1 1 1,
      visible = True\<rparr>"

definition newMesh :: "vec3 \<Rightarrow> real \<Rightarrow> Mesh" where
  "newMesh pos op =
     \<lparr>position = pos, quaternion = identityQuaternion, scale = Vector3 1 1 1,
      visible = True, opacity = op\<rparr>"

section \<open>The atom model builders\<close>

record Atom =
  symbol :: string
  atomicMass :: real
  shells :: "int list"
  electronConfigurationSemantic :: string
  cpkHex :: "string option"

definition NUCLEUS_SCALE_FACTOR :: real where "NUCLEUS_SCALE_FACTOR = 0.3"
definition SHELL_BASE_RADIUS :: real where "SHELL_BASE_RADIUS = 2.5"
definition SHELL_SPACING :: real where "SHELL_SPACING = 1.8"
definition DOUBLE_BOND_SPACING :: real where "DOUBLE_BOND_SPACING = 0.35"
definition TRIPLE_BOND_SPACING :: real where "TRIPLE_BOND_SPACING = 0.35"
definition QUANTUM_TRAIL_LENGTH :: nat where "QUANTUM_TRAIL_LENGTH = 15"
definition ELECTRON_TARGET_THRESHOLD :: real where "ELECTRON_TARGET_THRESHOLD = 0.5"
definition ELECTRON_MOVE_SPEED :: real where "ELECTRON_MOVE_SPEED = 0.08"

definition atomScaleOf :: "Atom \<Rightarrow> real" where
  "atomScaleOf atom = max 0.5 (root 3 (atomicMass atom) * NUCLEUS_SCALE_FACTOR)"

definition newNucleus :: "real \<Rightarrow> vec3 \<Rightarrow> Mesh" where
  "newNucleus atomScale pos =
     \<lparr>position = pos, quaternion = identityQuaternion,
      scale = Vector3 atomScale atomScale atomScale, visible = True, opacity = 1\<rparr>"

subsection \<open>The Bohr model\<close>

text \<open>
  Colours are left out. \<open>electrons\<close> lists the electron meshes, each with its position
  inside its pivot; electron \<open>i\<close> is the child of pivot \<open>i\<close>. The trail is a
  \<open>Points\<close> object whose position attribute holds one sample per electron and slot.
\<close>

record ShellPath = Mesh +
  torusRadius :: real

record AnimatedObject =
  nucleus :: Mesh
  shellPaths :: "ShellPath list"
  electronPivots :: "Object3D list"
  electrons :: "Mesh list"
  electronTrails :: "Points option"

definition shellRadiusOf :: "real \<Rightarrow> nat \<Rightarrow> real" where
  "shellRadiusOf atomScale shellIndex =
     (SHELL_BASE_RADIUS + real shellIndex * SHELL_SPACING) * atomScale"

definition newShellPath :: "real \<Rightarrow> ShellPath" where
  "newShellPath shellRadius =
     \<lparr>position = zeroVector, quaternion = setFromAxisAngle (Vector3 1 0 0) (pi / 2),
      scale = Vector3 1 1 1, visible = True, opacity = 0.3, torusRadius = shellRadius\<rparr>"

definition shellElectrons :: "real \<Rightarrow> nat \<times> int \<Rightarrow> Mesh list" where
  "shellElectrons atomScale sh =
     (let numElectrons = snd sh;
          points = getSpherePoints numElectrons (shellRadiusOf atomScale (fst sh))
      in map (\<lambda>i. newMesh (points ! i) 1) [0 ..< nat numElectrons])"

text \<open>
  The first sample of an electron is its world position while its pivot hangs under the
  nucleus for a moment; it is stored into every slot of the electron.
\<close>

definition initialTrail :: "Mesh \<Rightarrow> Object3D list \<Rightarrow> Mesh list \<Rightarrow> int \<Rightarrow> real \<Rightarrow> Points" where
  "initialTrail nuc pivots els trailLength trailOpacity =
     \<lparr>position = zeroVector, quaternion = identityQuaternion, scale = Vector3 1 1 1,
      visible = True,
      positions =
        concat (map (\<lambda>(electronIndex, electron).
                       replicate (nat trailLength)
                         (float32Vector
                            (localToParent nuc
                               (localToParent (pivots ! electronIndex) (position electron)))))
                    (enumerate 0 els)),
      pointsOpacity = trailOpacity\<rparr>"

definition createAtomModel :: "Atom \<Rightarrow> vec3 \<Rightarrow> int \<Rightarrow> real \<Rightarrow> AnimatedObject" where
  "createAtomModel atom pos trailLength trailOpacity =
     (let atomScale = atomScaleOf atom;
          nuc = newNucleus atomScale pos;
          indexedShells = enumerate 0 (shells atom);
          paths = map (\<lambda>sh. newShellPath (shellRadiusOf atomScale (fst sh))) indexedShells;
          els = concat (map (shellElectrons atomScale) indexedShells);
          pivots = map (\<lambda>e. newObject3D) els
      in \<lparr>nucleus = nuc, shellPaths = paths, electronPivots = pivots, electrons = els,
          electronTrails =
            (if length els > 0 \<and> trailLength > 0
             then Some (initialTrail nuc pivots els trailLength trailOpacity)
             else None)\<rparr>)"


subsection \<open>The orbital model\<close>

definition isLetter :: "char \<Rightarrow> bool" where
  "isLetter c = (c \<in> set ''ABCDEFGHIJKLMNOPQRSTUVWXYZabcdefghijklmnopqrstuvwxyz'')"

definition charAt :: "string \<Rightarrow> nat \<Rightarrow> string" where
  "charAt s i = (if i < length s then [s ! i] else [])"

text \<open>
  \<open>replace(/\[[A-Za-z]+\]\s*/, '')\<close> removes the first bracketed run of letters and the
  white space after it.
\<close>

fun stripCore :: "string \<Rightarrow> string" where
  "stripCore [] = []"
| "stripCore (c # cs) =
     (let r = dropWhile isLetter cs in
      if c = CHR ''['' \<and> takeWhile isLetter cs \<noteq> [] \<and> r \<noteq> [] \<and> hd r = CHR '']''
      then dropWhile isWhiteSpace (tl r)
      else c # stripCore cs)"

text \<open>
  The matches of \<open>/(\d+[spdf])(\d+)/g\<close> from left to right: a match at a position is
  the run of digits there, one of the four letters, and the run of digits after it; the
  search goes on behind a match, or one character further when there is none.
\<close>

function orbitalMatches :: "string \<Rightarrow> (string \<times> int) list" where
  "orbitalMatches [] = []"
| "orbitalMatches (c # cs) =
     (if takeWhile isDigit (c # cs) \<noteq> []
         \<and> dropWhile isDigit (c # cs) \<noteq> []
         \<and> hd (dropWhile isDigit (c # cs)) \<in> set ''spdf''
         \<and> takeWhile isDigit (tl (dropWhile isDigit (c # cs))) \<noteq> []
      then (takeWhile isDigit (c # cs) @ [hd (dropWhile isDigit (c # cs))],
            digitsValue (takeWhile isDigit (tl (dropWhile isDigit (c # cs)))))
           # orbitalMatches (dropWhile isDigit (tl (dropWhile isDigit (c # cs))))
      else orbitalMatches cs)"
  by pat_completeness auto
termination
proof (relation "measure length")
  show "wf (measure length)" by simp
next
  fix c :: char and cs :: string
  have "length (dropWhile isDigit (tl (dropWhile isDigit (c # cs))))
          \<le> length (tl (dropWhile isDigit (c # cs)))"
    by (rule length_dropWhile_le)
  also have "\<dots> \<le> length (tl (c # cs))"
    using length_dropWhile_le [of isDigit "c # cs"] by simp
  finally show "(dropWhile isDigit (tl (dropWhile isDigit (c # cs))), c # cs) \<in> measure length"
    by simp
next
  fix c :: char and cs :: string
  show "(cs, c # cs) \<in> measure length" by simp
qed

definition parseElectronConfiguration :: "string \<Rightarrow> (string \<times> int) list" where
  "parseElectronConfiguration semanticConfig =
     foldl (\<lambda>config m. AList.update (fst m) (snd m) config) []
           (orbitalMatches (stripCore semanticConfig))"

datatype OrbitalShape =
    SphereShape real
  | Dumbbell char real real
  | Dz2 real real
  | Clover real real

text \<open>
  The shapes of one orbital key of the configuration. A key produced by
  \<open>parseElectronConfiguration\<close> starts with a digit, which is its principal number.
\<close>

definition principalOf :: "string \<Rightarrow> real" where
  "principalOf orbitalKey = real_of_int (the (parseInt (charAt orbitalKey 0)))"

definition orbitalShapesOf :: "real \<Rightarrow> string \<times> int \<Rightarrow> OrbitalShape list" where
  "orbitalShapesOf sc entry =
     (if snd entry = 0 then []
      else
        (let ty = charAt (fst entry) 1;
             baseRadius = 0.9 * principalOf (fst entry) * sc
         in if ty = ''s'' then [SphereShape baseRadius]
            else if ty = ''p'' then
              [Dumbbell CHR ''x'' baseRadius (baseRadius * 0.7),
               Dumbbell CHR ''y'' baseRadius (baseRadius * 0.7),
               Dumbbell CHR ''z'' baseRadius (baseRadius * 0.7)]
            else if ty = ''d'' then
              [Dz2 baseRadius (baseRadius * 0.5), Clover baseRadius (baseRadius * 0.5)]
            else if ty = ''f'' then [SphereShape (baseRadius * 1.8)]
            else []))"

record OrbitalGroup = Object3D +
  children :: "OrbitalShape list"

definition createOrbitalShapes :: "(string \<times> int) list \<Rightarrow> real \<Rightarrow> OrbitalGroup" where
  "createOrbitalShapes config sc =
     \<lparr>position = zeroVector, quaternion = identityQuaternion, scale = Vector3 1 1 1,
      visible = True, children = concat (map (orbitalShapesOf sc) config)\<rparr>"

definition getRandomPointInOrbital :: "string \<Rightarrow> real \<Rightarrow> rng \<Rightarrow> vec3 \<times> rng" where
  "getRandomPointInOrbital orbitalKey sc g =
     (let ty = charAt orbitalKey 1;
          baseRadius = 0.9 * principalOf orbitalKey * sc
      in if ty = ''s'' then getRandomPointInSphere baseRadius g
         else if ty = ''p'' then
           (let lobeSize = baseRadius * 0.7;
                (r1, g1) = random g;
                axisIndex = \<lfloor>r1 * 3\<rfloor>;
                (r2, g2) = random g1;
                direction = (if r2 < 0.5 then 1 else - 1);
                (pointInLobe, g3) = getRandomPointInSphere lobeSize g2
            in (if axisIndex = 0
                then Vector3 (vx pointInLobe + direction * baseRadius) (vy pointInLobe) (vz pointInLobe)
                else if axisIndex = 1
                then Vector3 (vx pointInLobe) (vy pointInLobe + direction * baseRadius) (vz pointInLobe)
                else Vector3 (vx pointInLobe) (vy pointInLobe) (vz pointInLobe + direction * baseRadius),
                g3))
         else if ty = ''d'' then getRandomPointInSphere (baseRadius * 1.5) g
         else if ty = ''f'' then getRandomPointInSphere (baseRadius * 1.8) g
         else (zeroVector, g))"

record ElectronAnimationState =
  orbitalKey :: string
  currentPosition :: vec3
  targetPosition :: vec3

record Cloud = Points +
  electronAnimations :: "ElectronAnimationState list"

record QuantumAnimatedObject =
  qNucleus :: Mesh
  orbitals :: OrbitalGroup
  electronCloud :: "Cloud option"

fun newElectronAnimations ::
  "real \<Rightarrow> string list \<Rightarrow> rng \<Rightarrow> ElectronAnimationState list \<times> rng" where
  "newElectronAnimations atomScale [] g = ([], g)"
| "newElectronAnimations atomScale (k # ks) g =
     (let (startPos, g1) = getRandomPointInOrbital k atomScale g;
          (target, g2) = getRandomPointInOrbital k atomScale g1;
          (rest, g3) = newElectronAnimations atomScale ks g2
      in (\<lparr>orbitalKey = k, currentPosition = startPos, targetPosition = target\<rparr> # rest, g3))"

definition createQuantumAtomModel :: "Atom \<Rightarrow> vec3 \<Rightarrow> rng \<Rightarrow> QuantumAnimatedObject \<times> rng" where
  "createQuantumAtomModel atom pos g =
     (let atomScale = atomScaleOf atom;
          valenceConfig = parseElectronConfiguration (electronConfigurationSemantic atom);
          valenceElectronsList = concat (map (\<lambda>entry. replicate (nat (snd entry)) (fst entry)) valenceConfig)
      in if length valenceElectronsList > 0 then
           (let (anims, g1) = newElectronAnimations atomScale valenceElectronsList g
            in (\<lparr>qNucleus = newNucleus atomScale pos,
                  orbitals = createOrbitalShapes valenceConfig atomScale,
                  electronCloud = Some
                    \<lparr>position = zeroVector, quaternion = identityQuaternion,
                     scale = Vector3 1 1 1, visible = True,
                     positions =
                       concat (map (\<lambda>anim. replicate QUANTUM_TRAIL_LENGTH
                                                  (float32Vector (currentPosition anim)))
                                   anims),
                     pointsOpacity = 1,
                     electronAnimations = anims\<rparr>\<rparr>, g1))
         else (\<lparr>qNucleus = newNucleus atomScale pos,
                 orbitals = createOrbitalShapes valenceConfig atomScale,
                 electronCloud = None\<rparr>, g))"

section \<open>The scene and its rebuild\<close>

datatype Mode = Bohr | Quantum

record BondGroup = Object3D +
  bondPair :: "int \<times> int"
  cylinders :: "Mesh list"

record Scene =
  animatedObjects :: "AnimatedObject list"
  quantumObjects :: "QuantumAnimatedObject list"
  bonds :: "BondGroup list"

definition newBondGroup :: "Bond \<Rightarrow> BondGroup" where
  "newBondGroup bondInfo =
     \<lparr>position = zeroVector, quaternion = identityQuaternion, scale = Vector3 1 1 1,
      visible = False, bondPair = pair bondInfo,
      cylinders =
        (if type bondInfo = 3 then
           [newMesh (Vector3 (- TRIPLE_BOND_SPACING) 0 0) 0, newMesh zeroVector 0,
            newMesh (Vector3 TRIPLE_BOND_SPACING 0 0) 0]
         else if type bondInfo = 2 then
           [newMesh (Vector3 (- DOUBLE_BOND_SPACING / 2) 0 0) 0,
            newMesh (Vector3 (DOUBLE_BOND_SPACING / 2) 0 0) 0]
         else [newMesh zeroVector 0])\<rparr>"

definition positionOfAtom :: "vec3 list \<Rightarrow> nat \<Rightarrow> vec3" where
  "positionOfAtom atomPositions index =
     (case arrayAt atomPositions (int index) of Some p \<Rightarrow> p | None \<Rightarrow> zeroVector)"

fun createQuantumAtomModels ::
  "vec3 list \<Rightarrow> (nat \<times> Atom) list \<Rightarrow> rng \<Rightarrow> QuantumAnimatedObject list \<times> rng" where
  "createQuantumAtomModels atomPositions [] g = ([], g)"
| "createQuantumAtomModels atomPositions (ia # rest) g =
     (let (newObject, g1) = createQuantumAtomModel (snd ia) (positionOfAtom atomPositions (fst ia)) g;
          (others, g2) = createQuantumAtomModels atomPositions rest g1
      in (newObject # others, g2))"

definition createBondGroups :: "nat \<Rightarrow> Bond list \<Rightarrow> BondGroup list" where
  "createBondGroups atomsLength bondingPairs =
     (if length bondingPairs > 0 \<and> atomsLength > 1
      then map newBondGroup
             (filter (\<lambda>bondInfo. fst (pair bondInfo) < int atomsLength
                                \<and> snd (pair bondInfo) < int atomsLength)
                     bondingPairs)
      else [])"

text \<open>
  The body of the rebuild effect: the old models are disposed of and the three lists
  start empty; then one model per atom in the variant of the mode, then the bond groups.
\<close>

definition rebuild ::
  "Atom list \<Rightarrow> vec3 list \<Rightarrow> Bond list \<Rightarrow> Mode \<Rightarrow> int \<Rightarrow> real \<Rightarrow> rng \<Rightarrow> Scene \<times> rng" where
  "rebuild atoms atomPositions bondingPairs visualizationMode trailLength trailOpacity g =
     (if visualizationMode = Bohr then
        (\<lparr>animatedObjects =
             map (\<lambda>ia. createAtomModel (snd ia) (positionOfAtom atomPositions (fst ia))
                                       trailLength trailOpacity)
                 (enumerate 0 atoms),
          quantumObjects = [],
          bonds = createBondGroups (length atoms) bondingPairs\<rparr>, g)
      else
        (let (objs, g1) = createQuantumAtomModels atomPositions (enumerate 0 atoms) g
         in (\<lparr>animatedObjects = [], quantumObjects = objs,
               bonds = createBondGroups (length atoms) bondingPairs\<rparr>, g1)))"


section \<open>The animation loop\<close>

record AnimationState =
  speed :: real
  bondingProgress :: real

text \<open>The effect that copies the controls into the animation state.\<close>

definition updateAnimationState :: "real \<Rightarrow> real \<Rightarrow> Mode \<Rightarrow> AnimationState" where
  "updateAnimationState electronSpeed bp visualizationMode =
     \<lparr>speed = (if visualizationMode = Bohr then electronSpeed else 0), bondingProgress = bp\<rparr>"

subsection \<open>Trails\<close>

text \<open>
  The position attribute of a \<open>Points\<close> object is the list of its samples.
  \<open>setXYZ\<close> stores three numbers into the array; outside the array it writes nothing,
  as list update does. The loop \<open>for (i = len - 1; i > 0; i--)\<close> reads sample \<open>i - 1\<close>
  and stores it into slot \<open>i\<close>.
\<close>

definition setXYZ :: "vec3 list \<Rightarrow> nat \<Rightarrow> real \<Rightarrow> real \<Rightarrow> real \<Rightarrow> vec3 list" where
  "setXYZ ps index x y z = ps[index := Vector3 (fround x) (fround y) (fround z)]"

fun shiftTrail :: "nat \<Rightarrow> nat \<Rightarrow> vec3 list \<Rightarrow> vec3 list" where
  "shiftTrail trailStartIndex 0 ps = ps"
| "shiftTrail trailStartIndex (Suc j) ps =
     shiftTrail trailStartIndex j
       (setXYZ ps (trailStartIndex + Suc j)
          (vx (ps ! (trailStartIndex + Suc j - 1)))
          (vy (ps ! (trailStartIndex + Suc j - 1)))
          (vz (ps ! (trailStartIndex + Suc j - 1))))"

definition pushSample :: "nat \<Rightarrow> nat \<Rightarrow> vec3 \<Rightarrow> vec3 list \<Rightarrow> vec3 list" where
  "pushSample trailLen electronIndex p ps =
     (let trailStartIndex = electronIndex * trailLen
      in setXYZ (shiftTrail trailStartIndex (trailLen - 1) ps) trailStartIndex (vx p) (vy p) (vz p))"

text \<open>
  \<open>getWorldPosition\<close> of an electron: its pivot is a child of the model group, which
  like the scene is never moved, so the world position is the electron's position
  seen through the pivot.
\<close>

definition electronWorldPosition :: "AnimatedObject \<Rightarrow> nat \<Rightarrow> vec3" where
  "electronWorldPosition obj electronIndex =
     localToParent (electronPivots obj ! electronIndex) (position (electrons obj ! electronIndex))"

text \<open>
  The attribute holds \<open>electrons.length * trailLength\<close> samples from its creation on, so
  the quotient \<open>positions.count / obj.electrons.length\<close> is exact.
\<close>

definition updateElectronTrails :: "AnimatedObject \<Rightarrow> AnimatedObject" where
  "updateElectronTrails obj =
     (case electronTrails obj of
        None \<Rightarrow> obj
      | Some trails \<Rightarrow>
          if length (electrons obj) = 0 then obj
          else
            (let trailLen = length (positions trails) div length (electrons obj)
             in obj\<lparr>electronTrails := Some (trails\<lparr>positions :=
                      foldl (\<lambda>ps electronIndex.
                               pushSample trailLen electronIndex
                                 (electronWorldPosition obj electronIndex) ps)
                            (positions trails) [0 ..< length (electrons obj)]\<rparr>)\<rparr>))"

subsection \<open>The Bohr branch\<close>

definition bondPartnersPositions :: "AnimatedObject list \<Rightarrow> Bond list \<Rightarrow> nat \<Rightarrow> vec3 list" where
  "bondPartnersPositions objs bondingPairs atomIndex =
     concat (map (\<lambda>bond.
                    (let partnerIndex =
                           (if fst (pair bond) = int atomIndex then snd (pair bond)
                            else if snd (pair bond) = int atomIndex then fst (pair bond)
                            else - 1)
                     in if partnerIndex \<noteq> - 1 then
                          (case arrayAt objs partnerIndex of
                             Some partner \<Rightarrow> [position (nucleus partner)]
                           | None \<Rightarrow> [])
                        else []))
                 bondingPairs)"

definition targetPositionOf ::
  "AnimatedObject list \<Rightarrow> Bond list \<Rightarrow> real \<Rightarrow> nat \<Rightarrow> AnimatedObject \<Rightarrow> vec3" where
  "targetPositionOf objs bondingPairs bp atomIndex obj =
     (if bp > 0 then
        (let ps = bondPartnersPositions objs bondingPairs atomIndex in
         if length ps > 0
         then divideScalar (foldl vadd zeroVector ps) (real (length ps))
         else position (nucleus obj))
      else position (nucleus obj))"

definition updatePivot ::
  "vec3 \<Rightarrow> vec3 \<Rightarrow> real \<Rightarrow> real \<Rightarrow> real \<Rightarrow> nat \<times> Object3D \<Rightarrow> Object3D" where
  "updatePivot nucleusPosition target bp sp delta ip =
     (let i = fst ip; pivot = snd ip;
          orbitalCenter = lerpVectors nucleusPosition target bp;
          speedFactor = sp * 21.85 / 2.5;
          rotationX = delta * speedFactor * (0.5 + real (i mod 5) * 0.1);
          rotationY = delta * speedFactor * (0.5 + real (i mod 7) * 0.1)
      in pivot\<lparr>position := orbitalCenter,
               quaternion := rotateX (rotateY (quaternion pivot) rotationY) rotationX\<rparr>)"

definition animateAtom ::
  "AnimatedObject list \<Rightarrow> Bond list \<Rightarrow> AnimationState \<Rightarrow> real \<Rightarrow> nat \<times> AnimatedObject
     \<Rightarrow> AnimatedObject" where
  "animateAtom objs bondingPairs st delta io =
     (let atomIndex = fst io; obj = snd io;
          target = targetPositionOf objs bondingPairs (bondingProgress st) atomIndex obj
      in obj\<lparr>shellPaths :=
                map (\<lambda>shell. shell\<lparr>position := position (nucleus obj),
                                    opacity := 0.3 * (1 - bondingProgress st)\<rparr>)
                    (shellPaths obj),
              electronPivots :=
                map (updatePivot (position (nucleus obj)) target (bondingProgress st)
                                 (speed st) delta)
                    (enumerate 0 (electronPivots obj))\<rparr>)"

subsection \<open>The Quantum branch\<close>

definition stepElectron ::
  "real \<Rightarrow> ElectronAnimationState \<Rightarrow> rng \<Rightarrow> ElectronAnimationState \<times> rng" where
  "stepElectron atomScale anim g =
     (let (target, g1) =
            (if distanceTo (currentPosition anim) (targetPosition anim) < ELECTRON_TARGET_THRESHOLD
             then getRandomPointInOrbital (orbitalKey anim) atomScale g
             else (targetPosition anim, g))
      in (anim\<lparr>targetPosition := target,
                currentPosition := lerp (currentPosition anim) target ELECTRON_MOVE_SPEED\<rparr>, g1))"

fun animateElectrons ::
  "real \<Rightarrow> nat \<Rightarrow> ElectronAnimationState list \<Rightarrow> vec3 list \<Rightarrow> rng
     \<Rightarrow> ElectronAnimationState list \<times> vec3 list \<times> rng" where
  "animateElectrons atomScale electronIndex [] ps g = ([], ps, g)"
| "animateElectrons atomScale electronIndex (anim # rest) ps g =
     (let (anim1, g1) = stepElectron atomScale anim g;
          ps1 = pushSample QUANTUM_TRAIL_LENGTH electronIndex (currentPosition anim1) ps;
          (rest1, ps2, g2) = animateElectrons atomScale (Suc electronIndex) rest ps1 g1
      in (anim1 # rest1, ps2, g2))"

definition animateQuantumObject :: "QuantumAnimatedObject \<Rightarrow> rng \<Rightarrow> QuantumAnimatedObject \<times> rng" where
  "animateQuantumObject obj g =
     (let obj1 = obj\<lparr>orbitals := (orbitals obj)\<lparr>position := position (qNucleus obj)\<rparr>\<rparr> in
      case electronCloud obj of
        None \<Rightarrow> (obj1, g)
      | Some cloud \<Rightarrow>
          (let atomScale = vx (scale (qNucleus obj));
               (anims, ps, g1) =
                 animateElectrons atomScale 0 (electronAnimations cloud) (positions cloud) g
           in (obj1\<lparr>electronCloud :=
                       Some (cloud\<lparr>position := position (qNucleus obj), positions := ps,
                                   electronAnimations := anims\<rparr>)\<rparr>, g1)))"

fun animateQuantumObjects ::
  "QuantumAnimatedObject list \<Rightarrow> rng \<Rightarrow> QuantumAnimatedObject list \<times> rng" where
  "animateQuantumObjects [] g = ([], g)"
| "animateQuantumObjects (obj # rest) g =
     (let (obj1, g1) = animateQuantumObject obj g;
          (rest1, g2) = animateQuantumObjects rest g1
      in (obj1 # rest1, g2))"

subsection \<open>Bond poses\<close>

definition bondUpVector :: vec3 where
  "bondUpVector = Vector3 0 1 0"

definition updateBond :: "real \<Rightarrow> Mesh list \<Rightarrow> real \<Rightarrow> BondGroup \<Rightarrow> BondGroup" where
  "updateBond eps nuclei bp bondGroup =
     (let faded = bondGroup\<lparr>cylinders := map (\<lambda>mesh. mesh\<lparr>opacity := bp\<rparr>) (cylinders bondGroup)\<rparr>
      in case (arrayAt nuclei (fst (bondPair bondGroup)), arrayAt nuclei (snd (bondPair bondGroup))) of
           (Some a, Some b) \<Rightarrow>
             (let posA = position a; posB = position b;
                  distance = distanceTo posA posB;
                  bondDirection = normalize_v (subVectors posB posA)
              in faded\<lparr>position := lerp posA posB 0.5,
                       quaternion := setFromUnitVectors eps bondUpVector bondDirection,
                       scale := Vector3 1 distance 1,
                       visible := True\<rparr>)
         | _ \<Rightarrow> faded)"

subsection \<open>One tick\<close>

text \<open>
  \<open>animate\<close> once the renderer exists. \<open>visualizationMode\<close> and \<open>bondingPairs\<close> are
  the values that the closure holds; the animation state, the scene and the random source
  are read when the tick runs. Drawing the frame changes none of them.
\<close>

definition animate ::
  "real \<Rightarrow> Mode \<Rightarrow> Bond list \<Rightarrow> AnimationState \<Rightarrow> real \<Rightarrow> Scene \<times> rng \<Rightarrow> Scene \<times> rng" where
  "animate eps visualizationMode bondingPairs st delta sg =
     (let scene = fst sg; g = snd sg;
          nuclei = (if visualizationMode = Bohr
                    then map nucleus (animatedObjects scene)
                    else map qNucleus (quantumObjects scene))
      in if length nuclei = 0 then (scene, g)
         else
           (let (scene1, g1) =
                  (if visualizationMode = Bohr then
                     (scene\<lparr>animatedObjects :=
                              map updateElectronTrails
                                (map (animateAtom (animatedObjects scene) bondingPairs st delta)
                                     (enumerate 0 (animatedObjects scene)))\<rparr>, g)
                   else
                     (let (objs, g') = animateQuantumObjects (quantumObjects scene) g
                      in (scene\<lparr>quantumObjects := objs\<rparr>, g')));
                scene2 =
                  (if length (bonds scene1) > 0 \<and> length nuclei > 1
                   then scene1\<lparr>bonds := map (updateBond eps nuclei (bondingProgress st)) (bonds scene1)\<rparr>
                   else scene1)
            in (scene2, g1)))"

section \<open>Effects and their dependencies\<close>

text \<open>
  The properties of the viewer. An array or a function is compared by identity when React
  decides whether an effect runs again, so each one is the token of its reference here;
  numbers and the mode are compared by value.
\<close>

record AtomViewerProps =
  atomsRef :: nat
  atomPositionsRef :: nat
  onAtomPositionChangeRef :: nat
  bondingPairsRef :: nat
  bondingProgressProp :: real
  electronSpeedProp :: real
  setIsLoadingRef :: nat
  onAtomRightClickRef :: nat
  visualizationModeProp :: Mode
  trailLengthProp :: int
  trailOpacityProp :: real

text \<open>The dependency array of the rebuild effect.\<close>

definition rebuildDeps ::
  "AtomViewerProps \<Rightarrow> nat \<times> nat \<times> nat \<times> nat \<times> nat \<times> Mode \<times> int \<times> real" where
  "rebuildDeps p =
     (atomsRef p, atomPositionsRef p, bondingPairsRef p, setIsLoadingRef p,
      onAtomPositionChangeRef p, visualizationModeProp p, trailLengthProp p, trailOpacityProp p)"

text \<open>After a render the effect runs again when a dependency differs from the one before.\<close>

definition rebuildRuns :: "AtomViewerProps \<Rightarrow> AtomViewerProps \<Rightarrow> bool" where
  "rebuildRuns before after = (rebuildDeps before \<noteq> rebuildDeps after)"

text \<open>The effect that sets the opacity of the trail materials in place.\<close>

definition applyTrailOpacity :: "Mode \<Rightarrow> real \<Rightarrow> Scene \<Rightarrow> Scene" where
  "applyTrailOpacity visualizationMode trailOpacity scene =
     (if visualizationMode = Bohr then
        scene\<lparr>animatedObjects :=
                map (\<lambda>obj. case electronTrails obj of
                              None \<Rightarrow> obj
                            | Some trails \<Rightarrow>
                                obj\<lparr>electronTrails := Some (trails\<lparr>pointsOpacity := trailOpacity\<rparr>)\<rparr>)
                    (animatedObjects scene)\<rparr>
      else scene)"


section \<open>The running viewer\<close>

text \<open>
  One render of the component: its properties, and the arrays behind three of the
  references.
\<close>

record Render =
  props :: AtomViewerProps
  atomsValue :: "Atom list"
  atomPositionsValue :: "vec3 list"
  bondingPairsValue :: "Bond list"

text \<open>
  The effect that sets up the renderer defines \<open>animate\<close> and calls it. \<open>animate\<close> asks
  for its next frame itself, and it is a closure over \<open>visualizationMode\<close> and
  \<open>bondingPairs\<close> of the render in which that effect ran. The cleanup of the effect
  removes two listeners and the canvas and disposes of the controls and the renderer;
  it cancels no frame request, so a loop that was started keeps running with the mode and
  the bond list that it captured.
\<close>

record Loop =
  loopMode :: Mode
  loopBondingPairs :: "Bond list"

text \<open>
  What the effects and the loops share through references: the loops started so far,
  oldest first, the animation state, and the three lists of models together with the
  random source.
\<close>

record Viewer =
  loops :: "Loop list"
  animationState :: AnimationState
  sceneAndSource :: "Scene \<times> rng"

text \<open>
  Ticks one after the other, each with the closure of its loop and with the animation
  state and the elapsed time that it finds.
\<close>

fun runTicks ::
  "real \<Rightarrow> (Loop \<times> AnimationState \<times> real) list \<Rightarrow> Scene \<times> rng \<Rightarrow> Scene \<times> rng" where
  "runTicks eps [] sg = sg"
| "runTicks eps (tick # rest) sg =
     runTicks eps rest
       (animate eps (loopMode (fst tick)) (loopBondingPairs (fst tick))
                (fst (snd tick)) (snd (snd tick)) sg)"

text \<open>
  One display frame: the pending frame callbacks are called in the order in which they
  were requested, so every loop ticks once, oldest first. Each loop has a clock of its
  own; \<open>deltas i\<close> is the time that the clock of loop \<open>i\<close> reports.
\<close>

definition frame :: "real \<Rightarrow> (nat \<Rightarrow> real) \<Rightarrow> Viewer \<Rightarrow> Viewer" where
  "frame eps deltas v =
     v\<lparr>sceneAndSource :=
         runTicks eps
           (map (\<lambda>il. (snd il, animationState v, deltas (fst il))) (enumerate 0 (loops v)))
           (sceneAndSource v)\<rparr>"

text \<open>The dependency arrays of the three other effects.\<close>

definition animationStateDeps :: "AtomViewerProps \<Rightarrow> real \<times> real \<times> Mode" where
  "animationStateDeps p = (electronSpeedProp p, bondingProgressProp p, visualizationModeProp p)"

definition initDeps :: "AtomViewerProps \<Rightarrow> nat \<times> nat" where
  "initDeps p = (onAtomRightClickRef p, bondingPairsRef p)"

definition trailOpacityDeps :: "AtomViewerProps \<Rightarrow> real \<times> Mode" where
  "trailOpacityDeps p = (trailOpacityProp p, visualizationModeProp p)"

definition initRuns :: "AtomViewerProps \<Rightarrow> AtomViewerProps \<Rightarrow> bool" where
  "initRuns before after = (initDeps before \<noteq> initDeps after)"

text \<open>The bodies of the four effects, in the order in which the component declares them.\<close>

definition animationStateEffect :: "Render \<Rightarrow> Viewer \<Rightarrow> Viewer" where
  "animationStateEffect r v =
     v\<lparr>animationState :=
         updateAnimationState (electronSpeedProp (props r)) (bondingProgressProp (props r))
           (visualizationModeProp (props r))\<rparr>"

text \<open>
  The set-up effect ends with a first call of \<open>animate\<close>; the clock of the new loop is
  started by that call and reports the time 0.
\<close>

definition startLoop :: "real \<Rightarrow> Render \<Rightarrow> Viewer \<Rightarrow> Viewer" where
  "startLoop eps r v =
     v\<lparr>loops := loops v @ [\<lparr>loopMode = visualizationModeProp (props r),
                             loopBondingPairs = bondingPairsValue r\<rparr>],
       sceneAndSource :=
         animate eps (visualizationModeProp (props r)) (bondingPairsValue r)
                 (animationState v) 0 (sceneAndSource v)\<rparr>"

definition rebuildEffect :: "Render \<Rightarrow> Viewer \<Rightarrow> Viewer" where
  "rebuildEffect r v =
     v\<lparr>sceneAndSource :=
         rebuild (atomsValue r) (atomPositionsValue r) (bondingPairsValue r)
                 (visualizationModeProp (props r)) (trailLengthProp (props r))
                 (trailOpacityProp (props r)) (snd (sceneAndSource v))\<rparr>"

definition trailOpacityEffect :: "Render \<Rightarrow> Viewer \<Rightarrow> Viewer" where
  "trailOpacityEffect r v =
     v\<lparr>sceneAndSource :=
         (applyTrailOpacity (visualizationModeProp (props r)) (trailOpacityProp (props r))
            (fst (sceneAndSource v)),
          snd (sceneAndSource v))\<rparr>"

text \<open>
  The first render runs every effect. The rebuild effect puts its body on a timer of
  50 ms, so that body runs after the other effects; \<open>mount\<close> and \<open>rerender\<close> give the
  viewer once it has run, with no frame in between. The set-up effect has filled the
  references that the rebuild effect asks for.
\<close>

definition emptyScene :: Scene where
  "emptyScene = \<lparr>animatedObjects = [], quantumObjects = [], bonds = []\<rparr>"

definition mount :: "real \<Rightarrow> Render \<Rightarrow> rng \<Rightarrow> Viewer" where
  "mount eps r g =
     rebuildEffect r
       (trailOpacityEffect r
          (startLoop eps r
             (animationStateEffect r
                \<lparr>loops = [],
                 animationState = \<lparr>speed = electronSpeedProp (props r),
                                    bondingProgress = bondingProgressProp (props r)\<rparr>,
                 sceneAndSource = (emptyScene, g)\<rparr>)))"

text \<open>A later render runs the effects of which a dependency has changed.\<close>

definition rerender :: "real \<Rightarrow> Render \<Rightarrow> Render \<Rightarrow> Viewer \<Rightarrow> Viewer" where
  "rerender eps before after v =
     (let v1 = (if animationStateDeps (props before) \<noteq> animationStateDeps (props after)
                then animationStateEffect after v else v);
          v2 = (if initRuns (props before) (props after) then startLoop eps after v1 else v1);
          v3 = (if trailOpacityDeps (props before) \<noteq> trailOpacityDeps (props after)
                then trailOpacityEffect after v2 else v2)
      in if rebuildRuns (props before) (props after) then rebuildEffect after v3 else v3)"


section \<open>Notions of the specification\<close>

text \<open>
  The point of index \<open>i\<close> on the golden-angle spiral, in the words of the specification.
\<close>

definition spec_goldenAnglePoint :: "int \<Rightarrow> real \<Rightarrow> nat \<Rightarrow> vec3" where
  "spec_goldenAnglePoint count radius i =
     (let y = 1 - 2 * real i / real_of_int (count - 1);
          r = sqrt (1 - y\<^sup>2);
          theta = real i * (pi * (3 - sqrt 5))
      in Vector3 (radius * (cos theta * r)) (radius * y) (radius * (sin theta * r)))"

text \<open>The point at distance \<open>rho\<close> with the angular coordinates \<open>theta\<close> and \<open>phi\<close>.\<close>

definition spec_sphericalPoint :: "real \<Rightarrow> real \<Rightarrow> real \<Rightarrow> vec3" where
  "spec_sphericalPoint rho theta phi =
     Vector3 (rho * sin phi * cos theta) (rho * sin phi * sin theta) (rho * cos phi)"

text \<open>A bond whose pair is stored in ascending order.\<close>

definition ascending :: "Bond \<Rightarrow> bool" where
  "ascending b = (fst (pair b) \<le> snd (pair b))"

text \<open>
  The bond partners of an atom: for every bond of the list that the atom takes part in,
  the index at the other end. Their nucleus positions are those of the partners that
  have a model, and the centroid of a list of points is their mean.
\<close>

definition spec_bondPartners :: "Bond list \<Rightarrow> nat \<Rightarrow> int list" where
  "spec_bondPartners bondingPairs atomIndex =
     concat (map (\<lambda>b. if fst (pair b) = int atomIndex then [snd (pair b)]
                       else if snd (pair b) = int atomIndex then [fst (pair b)]
                       else [])
                 bondingPairs)"

definition spec_partnerPositions :: "AnimatedObject list \<Rightarrow> Bond list \<Rightarrow> nat \<Rightarrow> vec3 list" where
  "spec_partnerPositions objs bondingPairs atomIndex =
     map (\<lambda>p. position (nucleus (objs ! nat p)))
         (filter (\<lambda>p. 0 \<le> p \<and> p < int (length objs)) (spec_bondPartners bondingPairs atomIndex))"

definition spec_centroid :: "vec3 list \<Rightarrow> vec3" where
  "spec_centroid ps =
     Vector3 (sum_list (map vx ps) / real (length ps))
             (sum_list (map vy ps) / real (length ps))
             (sum_list (map vz ps) / real (length ps))"

text \<open>The midpoint of two points.\<close>

definition spec_midpoint :: "vec3 \<Rightarrow> vec3 \<Rightarrow> vec3" where
  "spec_midpoint a b = Vector3 ((vx a + vx b) / 2) ((vy a + vy b) / 2) ((vz a + vz b) / 2)"

text \<open>The nuclei that a tick works with: those of the models of its mode.\<close>

definition nucleiOf :: "Mode \<Rightarrow> Scene \<Rightarrow> Mesh list" where
  "nucleiOf visualizationMode scene =
     (if visualizationMode = Bohr then map nucleus (animatedObjects scene)
      else map qNucleus (quantumObjects scene))"

text \<open>
  Every trail buffer holds a fixed number of samples per electron: \<open>len\<close> in the Bohr
  model, the constant trail length in the orbital model; and every electron of the Bohr
  model has its pivot.
\<close>

definition trailsWellFormed :: "nat \<Rightarrow> Scene \<Rightarrow> bool" where
  "trailsWellFormed len scene =
     ((\<forall>obj \<in> set (animatedObjects scene).
         length (electronPivots obj) = length (electrons obj)
         \<and> (\<forall>trails. electronTrails obj = Some trails \<longrightarrow>
               length (positions trails) = length (electrons obj) * len))
      \<and> (\<forall>obj \<in> set (quantumObjects scene).
           \<forall>cloud. electronCloud obj = Some cloud \<longrightarrow>
             length (positions cloud) = length (electronAnimations cloud) * QUANTUM_TRAIL_LENGTH))"

text \<open>Every sample in a trail buffer is a single-precision number in each coordinate.\<close>

definition samplesAreFloat32 :: "Scene \<Rightarrow> bool" where
  "samplesAreFloat32 scene =
     ((\<forall>obj \<in> set (animatedObjects scene).
         \<forall>trails. electronTrails obj = Some trails \<longrightarrow>
           (\<forall>p \<in> set (positions trails). float32Vector p = p))
      \<and> (\<forall>obj \<in> set (quantumObjects scene).
           \<forall>cloud. electronCloud obj = Some cloud \<longrightarrow>
             (\<forall>p \<in> set (positions cloud). float32Vector p = p)))"

section \<open>Example inputs\<close>

definition hydrogen :: Atom where
  "hydrogen =
     \<lparr>symbol = ''H'', atomicMass = 1, shells = [1], electronConfigurationSemantic = ''1s1'',
      cpkHex = Some ''ffffff''\<rparr>"

definition zeroDraws :: rng where
  "zeroDraws = (\<lambda>i. 0, 0)"

text \<open>
  Two hydrogen atoms two units apart with a single bond between them, in each of the two
  modes; and the same atoms with a bond whose first atom number was 0 in the file, so
  that its first index is \<open>-1\<close>.
\<close>

definition twoHydrogens :: "Mode \<Rightarrow> Scene \<times> rng" where
  "twoHydrogens visualizationMode =
     rebuild [hydrogen, hydrogen] [Vector3 0 0 0, Vector3 2 0 0] [mkBond 0 1 1]
       visualizationMode 2 1 zeroDraws"

definition danglingBond :: "Scene \<times> rng" where
  "danglingBond =
     rebuild [hydrogen, hydrogen] [Vector3 0 0 0, Vector3 2 0 0] [mkBond (- 1) 0 1]
       Bohr 2 1 zeroDraws"

text \<open>
  Renders of the two hydrogen atoms with the bonding progress at 1 and the electrons at
  rest: without a bond and with the bond between the two atoms, in each mode. The bond
  list with the bond is a new array.
\<close>

definition unbondedInBohr :: Render where
  "unbondedInBohr =
     \<lparr>props = \<lparr>atomsRef = 0, atomPositionsRef = 0, onAtomPositionChangeRef = 0,
               bondingPairsRef = 0, bondingProgressProp = 1, electronSpeedProp = 0,
               setIsLoadingRef = 0, onAtomRightClickRef = 0, visualizationModeProp = Bohr,
               trailLengthProp = 2, trailOpacityProp = 1\<rparr>,
      atomsValue = [hydrogen, hydrogen],
      atomPositionsValue = [Vector3 0 0 0, Vector3 2 0 0],
      bondingPairsValue = []\<rparr>"

definition unbondedInQuantum :: Render where
  "unbondedInQuantum =
     unbondedInBohr\<lparr>props := (props unbondedInBohr)\<lparr>visualizationModeProp := Quantum\<rparr>\<rparr>"

definition bondedInQuantum :: Render where
  "bondedInQuantum =
     unbondedInQuantum\<lparr>props := (props unbondedInQuantum)\<lparr>bondingPairsRef := 1\<rparr>,
                       bondingPairsValue := [mkBond 0 1 1]\<rparr>"

definition bondedInBohr :: Render where
  "bondedInBohr =
     bondedInQuantum\<lparr>props := (props bondedInQuantum)\<lparr>visualizationModeProp := Bohr\<rparr>\<rparr>"

text \<open>
  The viewer that shows the unbonded atoms in the Bohr mode, is switched to the Quantum
  mode, gets the bond there, and is switched back to the Bohr mode.
\<close>

definition bondAddedInQuantum :: Viewer where
  "bondAddedInQuantum =
     rerender (1 / 1000000) bondedInQuantum bondedInBohr
       (rerender (1 / 1000000) unbondedInQuantum bondedInQuantum
          (rerender (1 / 1000000) unbondedInBohr unbondedInQuantum
             (mount (1 / 1000000) unbondedInBohr zeroDraws)))"

text \<open>
  The viewer that shows the bonded atoms in the Bohr mode and is switched to the Quantum
  mode.
\<close>

definition switchedToQuantum :: Viewer where
  "switchedToQuantum =
     rerender (1 / 1000000) bondedInBohr bondedInQuantum
       (mount (1 / 1000000) bondedInBohr zeroDraws)"

text \<open>
  One hydrogen atom at \<open>(0.1, 0, 0)\<close>: one tenth is not a single-precision number.
\<close>

definition offGridHydrogen :: "Scene \<times> rng" where
  "offGridHydrogen = rebuild [hydrogen] [Vector3 (1 / 10) 0 0] [] Bohr 2 1 zeroDraws"

section \<open>Lengths of vectors\<close>

lemma sin_cos_sq: "cos t * cos t + sin t * sin t = (1::real)"
  using sin_cos_squared_add2 [of t] by (simp add: power2_eq_square)

lemma vlength_multiplyScalar: "vlength (multiplyScalar v s) = \<bar>s\<bar> * vlength v"
proof -
  have "vx v * s * (vx v * s) + vy v * s * (vy v * s) + vz v * s * (vz v * s)
      = s\<^sup>2 * (vx v * vx v + vy v * vy v + vz v * vz v)"
    by (simp only: power2_eq_square algebra_simps)
  then show ?thesis
    by (simp add: vlength_def multiplyScalar_def real_sqrt_mult)
qed

lemma vlength_ring_point:
  assumes "y * y \<le> 1"
  shows "vlength (Vector3 (cos t * sqrt (1 - y * y)) y (sin t * sqrt (1 - y * y))) = 1"
proof -
  define q where "q = sqrt (1 - y * y)"
  have s: "q * q = 1 - y * y" using assms by (simp add: q_def)
  have "cos t * q * (cos t * q) + y * y + sin t * q * (sin t * q)
     = (cos t * cos t + sin t * sin t) * (q * q) + y * y"
    by (simp only: algebra_simps)
  also have "\<dots> = 1" unfolding sin_cos_sq s by simp
  finally show ?thesis by (simp add: vlength_def q_def)
qed

lemma vlength_spherical:
  "vlength (Vector3 (r * sin p * cos t) (r * sin p * sin t) (r * cos p)) = \<bar>r\<bar>"
proof -
  have "r * sin p * cos t * (r * sin p * cos t) + r * sin p * sin t * (r * sin p * sin t)
          + r * cos p * (r * cos p)
    = r\<^sup>2 * ((sin p * sin p) * (cos t * cos t + sin t * sin t) + cos p * cos p)"
    by (simp only: power2_eq_square algebra_simps)
  also have "\<dots> = r\<^sup>2"
    unfolding sin_cos_sq using sin_cos_sq [of p] by (simp add: add.commute)
  finally show ?thesis by (simp add: vlength_def)
qed

lemma spiral_height_bounded:
  assumes "1 < samples" "i < nat samples"
  shows "(1 - (real i / real_of_int (samples - 1)) * 2) * (1 - (real i / real_of_int (samples - 1)) * 2) \<le> 1"
proof -
  define t where "t = real i / real_of_int (samples - 1)"
  have "0 \<le> t" using assms by (simp add: t_def)
  moreover have "t \<le> 1" using assms by (simp add: t_def)
  ultimately have "\<bar>1 - t * 2\<bar> \<le> 1" by simp
  then have "(1 - t * 2) * (1 - t * 2) \<le> 1 * 1"
    by (metis abs_le_square_iff abs_one power2_eq_square)
  then show ?thesis by (simp add: t_def)
qed

lemma vlength_spherePointAt:
  assumes "1 < samples" "i < nat samples"
  shows "vlength (spherePointAt samples radius i) = \<bar>radius\<bar>"
  using vlength_ring_point [OF spiral_height_bounded [OF assms]]
  by (simp add: spherePointAt_def Let_def vlength_multiplyScalar)

lemma spherePointAt_spec:
  "spherePointAt samples radius i = spec_goldenAnglePoint samples radius i"
  by (simp add: spherePointAt_def spec_goldenAnglePoint_def Let_def multiplyScalar_def
      goldenAngle_def power2_eq_square mult.commute)

lemma length_getSpherePoints: "length (getSpherePoints samples radius) = nat samples"
  by (simp add: getSpherePoints_def)

lemma vlength_getSpherePoints:
  assumes "p \<in> set (getSpherePoints samples radius)"
  shows "vlength p = \<bar>radius\<bar>"
proof (cases "samples \<le> 1")
  case True
  with assms show ?thesis
    by (auto simp: getSpherePoints_def vlength_def split: if_splits)
next
  case False
  with assms obtain i where "i < nat samples" "p = spherePointAt samples radius i"
    by (auto simp: getSpherePoints_def)
  with False show ?thesis by (simp add: vlength_spherePointAt)
qed

text \<open>
  Claim C3. For every count \<open>\<ge> 0\<close> and every radius, \<open>getSpherePoints\<close> returns exactly
  \<open>count\<close> points: none for count 0, the single point \<open>(0, radius, 0)\<close> for count 1,
  and otherwise at each index the golden-angle point of the specification. Being a
  function of its two arguments, it returns the same points whenever it is called with
  them. Every returned point lies at distance \<open>\<bar>radius\<bar>\<close> from the origin, that is at
  distance \<open>radius\<close> for the radius of a sphere, which is not negative.
\<close>

theorem getSpherePoints_golden_angle:
  "0 \<le> count \<Longrightarrow>
     length (getSpherePoints count radius) = nat count
   \<and> (count = 0 \<longrightarrow> getSpherePoints count radius = [])
   \<and> (count = 1 \<longrightarrow> getSpherePoints count radius = [Vector3 0 radius 0])
   \<and> (1 < count \<longrightarrow>
        (\<forall>i < nat count. getSpherePoints count radius ! i = spec_goldenAnglePoint count radius i))
   \<and> (\<forall>p \<in> set (getSpherePoints count radius). vlength p = \<bar>radius\<bar>)
   \<and> (0 \<le> radius \<longrightarrow> (\<forall>p \<in> set (getSpherePoints count radius). vlength p = radius))"
  using vlength_getSpherePoints [of _ count radius]
  by (simp add: length_getSpherePoints)
     (simp add: getSpherePoints_def spherePointAt_spec)

theorem getSpherePoints_golden_angle_witness:
  "(0::int) \<le> 2 \<and> (0::real) \<le> 3 \<and> length (getSpherePoints 2 3) = 2
   \<and> getSpherePoints 2 3 ! 1 = spec_goldenAnglePoint 2 3 1
   \<and> vlength (getSpherePoints 2 3 ! 1) = 3"
proof -
  have "getSpherePoints 2 3 ! 1 \<in> set (getSpherePoints 2 3)"
    by (rule nth_mem) (simp add: length_getSpherePoints)
  then show ?thesis
    using getSpherePoints_golden_angle [of 2 3] by simp
qed

lemma root3_le_one: "0 \<le> w \<Longrightarrow> w \<le> 1 \<Longrightarrow> root 3 w \<le> 1"
  using real_root_le_iff [of 3 w 1] by simp

text \<open>
  Claim C8. For every radius \<open>r \<ge> 0\<close> and all three draws \<open>u\<close>, \<open>v\<close>, \<open>w\<close> in
  \<open>[0, 1]\<close>, taken in this order from the random source, the point returned by
  \<open>getRandomPointInSphere\<close> has the angular coordinates \<open>2\<pi>u\<close> and
  \<open>acos(2v - 1)\<close>, its distance from the origin is \<open>r * cbrt(w)\<close>, and that is at
  most \<open>r\<close>.
\<close>

theorem getRandomPointInSphere_within_radius:
  assumes "0 \<le> radius"
    and "0 \<le> u \<and> u \<le> 1" and "0 \<le> v \<and> v \<le> 1" and "0 \<le> w \<and> w \<le> 1"
    and "draws k = u" and "draws (k + 1) = v" and "draws (k + 2) = w"
  shows "fst (getRandomPointInSphere radius (draws, k))
           = spec_sphericalPoint (radius * root 3 w) (2 * pi * u) (arccos (2 * v - 1))
       \<and> vlength (fst (getRandomPointInSphere radius (draws, k))) = radius * root 3 w
       \<and> vlength (fst (getRandomPointInSphere radius (draws, k))) \<le> radius"
proof -
  have p: "fst (getRandomPointInSphere radius (draws, k))
           = spec_sphericalPoint (radius * root 3 w) (2 * pi * u) (arccos (2 * v - 1))"
    using assms(5-7)
    by (simp add: getRandomPointInSphere_def random_def sphereSample_def
        spec_sphericalPoint_def Let_def)
  have nonneg: "0 \<le> radius * root 3 w" using assms(1,4) by simp
  have len: "vlength (fst (getRandomPointInSphere radius (draws, k))) = radius * root 3 w"
    unfolding p spec_sphericalPoint_def vlength_spherical using nonneg by simp
  have "radius * root 3 w \<le> radius * 1"
    using assms(1,4) root3_le_one [of w] by (intro mult_left_mono) auto
  with p len show ?thesis by simp
qed

theorem getRandomPointInSphere_within_radius_witness:
  "vlength (fst (getRandomPointInSphere 2 ((\<lambda>i. if i = 0 then 0 else if i = 1 then 1 / 2 else 1), 0))) = 2 * root 3 1
   \<and> vlength (fst (getRandomPointInSphere 2 ((\<lambda>i. if i = 0 then 0 else if i = 1 then 1 / 2 else 1), 0))) \<le> 2"
proof -
  have "(0::real) \<le> 2" and "(0::real) \<le> 0 \<and> (0::real) \<le> 1"
    and "(0::real) \<le> 1 / 2 \<and> (1::real) / 2 \<le> 1" and "(0::real) \<le> 1 \<and> (1::real) \<le> 1"
    by simp_all
  from getRandomPointInSphere_within_radius
         [of 2 0 "1 / 2" 1 "\<lambda>i. if i = 0 then 0 else if i = 1 then 1 / 2 else 1" 0, OF this]
  have "vlength (fst (getRandomPointInSphere 2 ((\<lambda>i. if i = 0 then 0 else if i = 1 then 1 / 2 else 1), 0))) = 2 * root 3 1
   \<and> vlength (fst (getRandomPointInSphere 2 ((\<lambda>i. if i = 0 then 0 else if i = 1 then 1 / 2 else 1), 0))) \<le> 2"
    by (rule conjunct2) simp_all
  then show ?thesis .
qed

section \<open>Bond pairs are stored in ascending order\<close>

lemma ascending_sdfBondOfLine: "b \<in> set (sdfBondOfLine line) \<Longrightarrow> ascending b"
  by (auto simp: sdfBondOfLine_def ascending_def Let_def
      split: option.splits if_splits)

lemma ascending_parseSDF:
  assumes "parseSDF sdfData = Inr bs" and "b \<in> set bs"
  shows "ascending b"
  using assms
  by (auto simp: parseSDF_def Let_def split: if_splits option.splits
      dest: ascending_sdfBondOfLine)

lemma ascending_conectTargets:
  assumes "\<forall>b \<in> set (fst st). ascending b"
  shows "\<forall>b \<in> set (fst (conectTargets atomMap fromIndex targets st)). ascending b"
  using assms
proof (induction atomMap fromIndex targets st rule: conectTargets.induct)
  case (1 atomMap fromIndex st)
  then show ?case by simp
next
  case (2 atomMap fromIndex toSerial rest bonds bondSet)
  then show ?case
    by (auto simp: Let_def ascending_def split: option.splits)
qed

lemma ascending_conectLine:
  assumes "\<forall>b \<in> set (fst st). ascending b"
  shows "\<forall>b \<in> set (fst (conectLine atomMap st line)). ascending b"
  using assms ascending_conectTargets [OF assms]
  by (simp add: conectLine_def Let_def split: list.splits option.splits)

lemma ascending_conectLines:
  assumes "\<forall>b \<in> set (fst st). ascending b"
  shows "\<forall>b \<in> set (fst (foldl (conectLine atomMap) st ls)). ascending b"
  using assms
proof (induction ls arbitrary: st)
  case Nil
  then show ?case by simp
next
  case (Cons l ls)
  show ?case
    using Cons.IH [OF ascending_conectLine [OF Cons.prems]] by simp
qed

lemma ascending_inferBonds: "b \<in> set (inferBonds near n) \<Longrightarrow> ascending b"
  by (auto simp: inferBonds_def ascending_def split: if_splits)

lemma ascending_parsePDB:
  assumes "parsePDB near pdbData = Inr bs" and "b \<in> set bs"
  shows "ascending b"
proof -
  have e: "\<forall>b \<in> set (fst (([], {}) :: Bond list \<times> (int \<times> int) set)). ascending b" by simp
  show ?thesis
    using assms ascending_conectLines [OF e] ascending_inferBonds
    by (auto simp: parsePDB_def Let_def split: if_splits)
qed

lemma ascending_handleAddBond:
  assumes "b \<in> set (handleAddBond fromIndex toIndex ty currentBonds)"
    and "b \<notin> set currentBonds"
  shows "ascending b"
  using assms by (auto simp: handleAddBond_def ascending_def Let_def split: if_splits)

lemma handleAddBond_existing:
  assumes "\<forall>b \<in> set currentBonds. ascending b"
    and "b \<in> set currentBonds"
    and "pair b = (fromIndex, toIndex) \<or> pair b = (toIndex, fromIndex)"
  shows "handleAddBond fromIndex toIndex ty currentBonds = currentBonds"
proof -
  have "ascending b" using assms(1,2) by simp
  with assms(3) have "pair b = (if toIndex < fromIndex then (toIndex, fromIndex) else (fromIndex, toIndex))"
    by (auto simp: ascending_def)
  then have "fst (pair b) = fst (if toIndex < fromIndex then (toIndex, fromIndex) else (fromIndex, toIndex))
         \<and> snd (pair b) = snd (if toIndex < fromIndex then (toIndex, fromIndex) else (fromIndex, toIndex))"
    by simp
  with assms(2) have "list_ex (\<lambda>b. fst (pair b) = fst (if toIndex < fromIndex then (toIndex, fromIndex) else (fromIndex, toIndex))
         \<and> snd (pair b) = snd (if toIndex < fromIndex then (toIndex, fromIndex) else (fromIndex, toIndex))) currentBonds"
    unfolding list_ex_iff by blast
  then show ?thesis
    by (simp add: handleAddBond_def Let_def)
qed

lemma ascending_knownMolecules:
  "\<forall>entry \<in> set knownMolecules. \<forall>b \<in> set (snd (snd entry)). ascending b"
  by (simp add: knownMolecules_def mkBond_def ascending_def)

text \<open>
  Claim C9. A bond that \<open>handleAddBond\<close> adds, every bond that \<open>parseSDF\<close> returns,
  every bond that \<open>parsePDB\<close> returns (from CONECT records or inferred from distances)
  and every bond of the table of known molecules has its pair in ascending order; and
  when the bond list holds its pairs in ascending order and already has a bond between
  the two atoms, \<open>handleAddBond\<close> returns the list unchanged, in either order of the
  two arguments and for every requested bond order.
\<close>

theorem bond_pairs_ascending:
  "(\<forall>b \<in> set (handleAddBond fromIndex toIndex ty currentBonds). b \<notin> set currentBonds \<longrightarrow> ascending b)
   \<and> (\<forall>bs. parseSDF sdfData = Inr bs \<longrightarrow> (\<forall>b \<in> set bs. ascending b))
   \<and> (\<forall>bs. parsePDB near pdbData = Inr bs \<longrightarrow> (\<forall>b \<in> set bs. ascending b))
   \<and> (\<forall>entry \<in> set knownMolecules. \<forall>b \<in> set (snd (snd entry)). ascending b)
   \<and> ((\<forall>b \<in> set currentBonds. ascending b)
        \<and> (\<exists>b \<in> set currentBonds. pair b = (fromIndex, toIndex) \<or> pair b = (toIndex, fromIndex))
       \<longrightarrow> handleAddBond fromIndex toIndex ty currentBonds = currentBonds
           \<and> handleAddBond toIndex fromIndex ty currentBonds = currentBonds)"
  using ascending_handleAddBond ascending_parseSDF ascending_parsePDB
    ascending_knownMolecules handleAddBond_existing
  by (intro conjI; blast)


theorem bond_pairs_ascending_witness:
  "parseSDF ''n\<newline>p\<newline>c\<newline>  2  1  0\<newline>0.0 0.0 0.0 C\<newline>1.0 0.0 0.0 O\<newline>  2  1  2''
     = Inr [mkBond 0 1 2]
   \<and> ascending (mkBond 0 1 2)
   \<and> parsePDB (\<lambda>i j. True)
        ''HETATM    1  O   HOH A   1       0.000   0.000   0.000  1.00  0.00           O\<newline>HETATM    2  H   HOH A   1       0.957   0.000   0.000  1.00  0.00           H\<newline>CONECT    2    1\<newline>END''
     = Inr [mkBond 0 1 1]
   \<and> ascending (mkBond 0 1 1)
   \<and> handleAddBond 2 0 3 [mkBond 0 1 1] = [mkBond 0 1 1, mkBond 0 2 3]
   \<and> ascending (mkBond 0 2 3)
   \<and> handleAddBond 1 0 2 [mkBond 0 1 1] = [mkBond 0 1 1]
   \<and> handleAddBond 0 1 2 [mkBond 0 1 1] = [mkBond 0 1 1]"
proof -
  let ?sdf = "''n\<newline>p\<newline>c\<newline>  2  1  0\<newline>0.0 0.0 0.0 C\<newline>1.0 0.0 0.0 O\<newline>  2  1  2''"
  let ?pdb = "''HETATM    1  O   HOH A   1       0.000   0.000   0.000  1.00  0.00           O\<newline>HETATM    2  H   HOH A   1       0.957   0.000   0.000  1.00  0.00           H\<newline>CONECT    2    1\<newline>END''"
  have sdf: "parseSDF ?sdf = Inr [mkBond 0 1 2]"
    by code_simp
  have pdb: "parsePDB (\<lambda>i j. True) ?pdb = Inr [mkBond 0 1 1]"
    by code_simp
  have add: "handleAddBond 2 0 3 [mkBond 0 1 1] = [mkBond 0 1 1, mkBond 0 2 3]"
    by (simp add: handleAddBond_def mkBond_def)
  have old: "\<forall>b \<in> set [mkBond 0 1 1]. ascending b"
    by (simp add: ascending_def mkBond_def)
  have shared: "\<exists>b \<in> set [mkBond 0 1 1]. pair b = (1, 0) \<or> pair b = (0, 1)"
    by (simp add: mkBond_def)
  have new: "mkBond 0 2 3 \<notin> set [mkBond 0 1 1]"
    by (simp add: mkBond_def)
  note parsers = bond_pairs_ascending [of 2 0 3 "[mkBond 0 1 1]" ?sdf "\<lambda>i j. True" ?pdb]
  note existing = bond_pairs_ascending [of 1 0 2 "[mkBond 0 1 1]" ?sdf "\<lambda>i j. True" ?pdb]
  have a1: "ascending (mkBond 0 1 2)" using parsers sdf by simp
  have a2: "ascending (mkBond 0 1 1)" using parsers pdb by simp
  have a3: "ascending (mkBond 0 2 3)" using parsers add new by simp
  have e: "handleAddBond 1 0 2 [mkBond 0 1 1] = [mkBond 0 1 1]
           \<and> handleAddBond 0 1 2 [mkBond 0 1 1] = [mkBond 0 1 1]"
    using existing old shared by blast
  from sdf pdb add a1 a2 a3 e show ?thesis by blast
qed

section \<open>The rebuild\<close>

lemma bonds_rebuild:
  "bonds (fst (rebuild atoms atomPositions bondingPairs visualizationMode trailLength trailOpacity g))
     = createBondGroups (length atoms) bondingPairs"
  by (simp add: rebuild_def case_prod_beta Let_def)

lemma length_createQuantumAtomModels:
  "length (fst (createQuantumAtomModels atomPositions ias g)) = length ias"
  by (induction ias arbitrary: g) (simp_all add: case_prod_beta Let_def)

lemma models_rebuild:
  "length (animatedObjects (fst (rebuild atoms atomPositions bondingPairs Bohr trailLength trailOpacity g)))
     = length atoms
   \<and> length (quantumObjects (fst (rebuild atoms atomPositions bondingPairs Quantum trailLength trailOpacity g)))
     = length atoms"
  using length_createQuantumAtomModels [of atomPositions "enumerate 0 atoms" g]
  by (simp add: rebuild_def case_prod_beta Let_def)

lemma bondPair_newBondGroup: "bondPair (newBondGroup b) = pair b"
  by (simp add: newBondGroup_def)

text \<open>
  Claim C6, as amended. During a rebuild a bond group is constructed for a bond of the
  list exactly when there are at least two atoms and both of its indices are below the
  number of atoms; with fewer than two atoms no bond group is constructed. A bond with an
  index at or above the number of atoms is dropped; the rebuild has no failing case, and
  it still builds one model for every atom and the groups of the other bonds.
\<close>

theorem rebuild_bond_groups:
  "map bondPair (bonds (fst (rebuild atoms atomPositions bondingPairs visualizationMode trailLength trailOpacity g)))
     = map pair (filter (\<lambda>b. 1 < length atoms \<and> fst (pair b) < int (length atoms)
                              \<and> snd (pair b) < int (length atoms)) bondingPairs)
   \<and> (\<forall>b \<in> set bondingPairs.
        (\<exists>grp \<in> set (bonds (fst (rebuild atoms atomPositions bondingPairs visualizationMode trailLength trailOpacity g))).
           bondPair grp = pair b)
        \<longleftrightarrow> (1 < length atoms \<and> fst (pair b) < int (length atoms) \<and> snd (pair b) < int (length atoms)))
   \<and> (\<forall>b \<in> set bondingPairs.
        int (length atoms) \<le> fst (pair b) \<or> int (length atoms) \<le> snd (pair b) \<longrightarrow>
        (\<forall>grp \<in> set (bonds (fst (rebuild atoms atomPositions bondingPairs visualizationMode trailLength trailOpacity g))).
           bondPair grp \<noteq> pair b))
   \<and> length (animatedObjects (fst (rebuild atoms atomPositions bondingPairs Bohr trailLength trailOpacity g)))
       = length atoms
   \<and> length (quantumObjects (fst (rebuild atoms atomPositions bondingPairs Quantum trailLength trailOpacity g)))
       = length atoms"
proof -
  let ?ok = "\<lambda>b. 1 < length atoms \<and> fst (pair b) < int (length atoms) \<and> snd (pair b) < int (length atoms)"
  let ?groups = "bonds (fst (rebuild atoms atomPositions bondingPairs visualizationMode trailLength trailOpacity g))"
  have g: "?groups = map newBondGroup (filter ?ok bondingPairs)"
    by (auto simp: bonds_rebuild createBondGroups_def)
  have m: "map bondPair ?groups = map pair (filter ?ok bondingPairs)"
    unfolding g by (simp add: bondPair_newBondGroup o_def)
  have s: "bondPair ` set ?groups = pair ` {b \<in> set bondingPairs. ?ok b}"
    using arg_cong [OF m, of set] by simp
  have iff: "\<forall>b \<in> set bondingPairs. (\<exists>grp \<in> set ?groups. bondPair grp = pair b) \<longleftrightarrow> ?ok b"
  proof
    fix b assume b: "b \<in> set bondingPairs"
    have "(\<exists>grp \<in> set ?groups. bondPair grp = pair b) \<longleftrightarrow> pair b \<in> bondPair ` set ?groups"
      by force
    also have "\<dots> \<longleftrightarrow> pair b \<in> pair ` {b \<in> set bondingPairs. ?ok b}"
      by (simp only: s)
    also have "\<dots> \<longleftrightarrow> ?ok b"
      using b by force
    finally show "(\<exists>grp \<in> set ?groups. bondPair grp = pair b) \<longleftrightarrow> ?ok b" .
  qed
  have dropped: "\<forall>b \<in> set bondingPairs.
        int (length atoms) \<le> fst (pair b) \<or> int (length atoms) \<le> snd (pair b) \<longrightarrow>
        (\<forall>grp \<in> set ?groups. bondPair grp \<noteq> pair b)"
    using iff by (metis not_le)
  from m iff dropped models_rebuild [of atoms atomPositions bondingPairs trailLength trailOpacity g]
  show ?thesis by blast
qed

text \<open>
  With one atom and a bond from the atom to itself both indices are below the number of
  atoms, and no bond group is constructed.
\<close>

theorem rebuild_single_atom_counterexample:
  "fst (pair (mkBond 0 0 1)) < int (length [\<lparr>symbol = ''H'', atomicMass = 1, shells = [1],
        electronConfigurationSemantic = ''1s1'', cpkHex = None\<rparr>])
   \<and> snd (pair (mkBond 0 0 1)) < int (length [\<lparr>symbol = ''H'', atomicMass = 1, shells = [1],
        electronConfigurationSemantic = ''1s1'', cpkHex = None\<rparr>])
   \<and> bonds (fst (rebuild [\<lparr>symbol = ''H'', atomicMass = 1, shells = [1],
        electronConfigurationSemantic = ''1s1'', cpkHex = None\<rparr>] [zeroVector] [mkBond 0 0 1] Bohr 15 1
        (\<lambda>i. 0, 0))) = []"
  by (simp add: bonds_rebuild createBondGroups_def mkBond_def)

theorem rebuild_bond_groups_witness:
  "map bondPair (bonds (fst (rebuild
      [\<lparr>symbol = ''O'', atomicMass = 16, shells = [2, 6], electronConfigurationSemantic = ''[He] 2s2 2p4'', cpkHex = None\<rparr>,
       \<lparr>symbol = ''H'', atomicMass = 1, shells = [1], electronConfigurationSemantic = ''1s1'', cpkHex = None\<rparr>,
       \<lparr>symbol = ''H'', atomicMass = 1, shells = [1], electronConfigurationSemantic = ''1s1'', cpkHex = None\<rparr>]
      [] [mkBond 0 1 1, mkBond 0 5 1, mkBond 0 2 1] Bohr 15 1 (\<lambda>i. 0, 0))))
    = [(0, 1), (0, 2)]"
  using rebuild_bond_groups [of
      "[\<lparr>symbol = ''O'', atomicMass = 16, shells = [2, 6], electronConfigurationSemantic = ''[He] 2s2 2p4'', cpkHex = None\<rparr>,
       \<lparr>symbol = ''H'', atomicMass = 1, shells = [1], electronConfigurationSemantic = ''1s1'', cpkHex = None\<rparr>,
       \<lparr>symbol = ''H'', atomicMass = 1, shells = [1], electronConfigurationSemantic = ''1s1'', cpkHex = None\<rparr>]"
      "[]" "[mkBond 0 1 1, mkBond 0 5 1, mkBond 0 2 1]" Bohr 15 1 "(\<lambda>i. 0, 0)"]
  by (simp add: mkBond_def)

section \<open>Shells and orbitals without electrons\<close>

lemma shellElectrons_zero: "shellElectrons atomScale (i, 0) = []"
  by (simp add: shellElectrons_def)

lemma length_shellElectrons: "length (shellElectrons atomScale sh) = nat (snd sh)"
  by (simp add: shellElectrons_def Let_def)

lemma length_concat_shellElectrons:
  "length (concat (map (shellElectrons atomScale) (enumerate n xs))) = sum_list (map nat xs)"
  by (induction xs arbitrary: n) (simp_all add: length_shellElectrons)

lemma electrons_createAtomModel:
  "electrons (createAtomModel atom pos trailLength trailOpacity)
     = concat (map (shellElectrons (atomScaleOf atom)) (enumerate 0 (shells atom)))"
  by (simp add: createAtomModel_def Let_def)

lemma length_electronPivots_createAtomModel:
  "length (electronPivots (createAtomModel atom pos trailLength trailOpacity))
     = length (electrons (createAtomModel atom pos trailLength trailOpacity))"
  by (simp add: createAtomModel_def Let_def)

lemma orbitalShapesOf_zero: "orbitalShapesOf sc (k, 0) = []"
  by (simp add: orbitalShapesOf_def)

text \<open>
  Claim C7, as amended. A shell entry with zero electrons produces no electron and no
  electron pivot in the Bohr model: the model has as many pivots and electrons as the
  shell counts add up to, and a zero entry in the shell list contributes nothing to
  them. The model still has one ring path for every shell entry. An orbital key mapped
  to zero electrons produces no lobe shape in the orbital model. Neither builder has a
  failing case.
\<close>

theorem zero_electrons_no_electron_geometry:
  "length (shellPaths (createAtomModel atom pos trailLength trailOpacity)) = length (shells atom)
   \<and> length (electrons (createAtomModel atom pos trailLength trailOpacity))
       = sum_list (map nat (shells atom))
   \<and> length (electronPivots (createAtomModel atom pos trailLength trailOpacity))
       = sum_list (map nat (shells atom))
   \<and> (shells atom = xs @ 0 # ys \<longrightarrow>
        electrons (createAtomModel atom pos trailLength trailOpacity)
          = concat (map (shellElectrons (atomScaleOf atom)) (enumerate 0 xs))
            @ concat (map (shellElectrons (atomScaleOf atom)) (enumerate (Suc (length xs)) ys)))
   \<and> children (createOrbitalShapes (config1 @ (k, 0) # config2) sc)
       = children (createOrbitalShapes (config1 @ config2) sc)"
proof -
  have paths: "length (shellPaths (createAtomModel atom pos trailLength trailOpacity)) = length (shells atom)"
    by (simp add: createAtomModel_def Let_def)
  have els: "length (electrons (createAtomModel atom pos trailLength trailOpacity))
       = sum_list (map nat (shells atom))"
    by (simp add: electrons_createAtomModel length_concat_shellElectrons)
  have split: "shells atom = xs @ 0 # ys \<longrightarrow>
        electrons (createAtomModel atom pos trailLength trailOpacity)
          = concat (map (shellElectrons (atomScaleOf atom)) (enumerate 0 xs))
            @ concat (map (shellElectrons (atomScaleOf atom)) (enumerate (Suc (length xs)) ys))"
    by (simp add: electrons_createAtomModel enumerate_append_eq shellElectrons_zero)
  have orb: "children (createOrbitalShapes (config1 @ (k, 0) # config2) sc)
       = children (createOrbitalShapes (config1 @ config2) sc)"
    by (simp add: createOrbitalShapes_def orbitalShapesOf_zero)
  from paths els split orb length_electronPivots_createAtomModel [of atom pos trailLength trailOpacity]
  show ?thesis by simp
qed

theorem zero_electrons_no_electron_geometry_witness:
  "shells \<lparr>symbol = ''X'', atomicMass = 1, shells = [2, 0, 1],
            electronConfigurationSemantic = ''1s2 2s0 2p1'', cpkHex = None\<rparr> = [2] @ 0 # [1]
   \<and> length (shellPaths (createAtomModel \<lparr>symbol = ''X'', atomicMass = 1, shells = [2, 0, 1],
            electronConfigurationSemantic = ''1s2 2s0 2p1'', cpkHex = None\<rparr> zeroVector 15 1)) = 3
   \<and> length (electronPivots (createAtomModel \<lparr>symbol = ''X'', atomicMass = 1, shells = [2, 0, 1],
            electronConfigurationSemantic = ''1s2 2s0 2p1'', cpkHex = None\<rparr> zeroVector 15 1)) = 3
   \<and> electrons (createAtomModel \<lparr>symbol = ''X'', atomicMass = 1, shells = [2, 0, 1],
            electronConfigurationSemantic = ''1s2 2s0 2p1'', cpkHex = None\<rparr> zeroVector 15 1)
       = shellElectrons (1 / 2) (0, 2) @ shellElectrons (1 / 2) (Suc (Suc 0), 1)
   \<and> children (createOrbitalShapes [(''1s'', 2), (''2s'', 0), (''2p'', 1)] 1)
       = children (createOrbitalShapes [(''1s'', 2), (''2p'', 1)] 1)"
  using zero_electrons_no_electron_geometry
    [of "\<lparr>symbol = ''X'', atomicMass = 1, shells = [2, 0, 1],
            electronConfigurationSemantic = ''1s2 2s0 2p1'', cpkHex = None\<rparr>" zeroVector 15 1
        "[2]" "[1]" "[(''1s'', 2)]" "''2s''" "[(''2p'', 1)]" 1]
  by (simp add: atomScaleOf_def NUCLEUS_SCALE_FACTOR_def)

text \<open>
  For an atom whose only shell entry is zero the Bohr model has one ring path.
\<close>

theorem zero_electron_shell_ring_counterexample:
  "shells \<lparr>symbol = ''X'', atomicMass = 1, shells = [0],
            electronConfigurationSemantic = '''', cpkHex = None\<rparr> ! 0 = 0
   \<and> length (shellPaths (createAtomModel \<lparr>symbol = ''X'', atomicMass = 1, shells = [0],
            electronConfigurationSemantic = '''', cpkHex = None\<rparr> zeroVector 15 1)) = 1"
  by (simp add: createAtomModel_def Let_def)

section \<open>The dependencies of the rebuild effect\<close>

text \<open>
  Claim C5 says that a change of the trail opacity alone never triggers a rebuild. The
  dependency array of the rebuild effect holds the trail opacity: between two renders
  that differ in the trail opacity alone the effect runs again, and between two renders
  that differ in the bonding progress alone it does not.
\<close>

theorem rebuild_runs_on_trail_opacity:
  "rebuildRuns
     \<lparr>atomsRef = 1, atomPositionsRef = 2, onAtomPositionChangeRef = 3, bondingPairsRef = 4,
      bondingProgressProp = 0, electronSpeedProp = 1 / 5, setIsLoadingRef = 5,
      onAtomRightClickRef = 6, visualizationModeProp = Bohr, trailLengthProp = 15,
      trailOpacityProp = 1\<rparr>
     \<lparr>atomsRef = 1, atomPositionsRef = 2, onAtomPositionChangeRef = 3, bondingPairsRef = 4,
      bondingProgressProp = 0, electronSpeedProp = 1 / 5, setIsLoadingRef = 5,
      onAtomRightClickRef = 6, visualizationModeProp = Bohr, trailLengthProp = 15,
      trailOpacityProp = 1 / 2\<rparr>
   \<and> \<not> rebuildRuns
     \<lparr>atomsRef = 1, atomPositionsRef = 2, onAtomPositionChangeRef = 3, bondingPairsRef = 4,
      bondingProgressProp = 0, electronSpeedProp = 1 / 5, setIsLoadingRef = 5,
      onAtomRightClickRef = 6, visualizationModeProp = Bohr, trailLengthProp = 15,
      trailOpacityProp = 1\<rparr>
     \<lparr>atomsRef = 1, atomPositionsRef = 2, onAtomPositionChangeRef = 3, bondingPairsRef = 4,
      bondingProgressProp = 1 / 2, electronSpeedProp = 1 / 5, setIsLoadingRef = 5,
      onAtomRightClickRef = 6, visualizationModeProp = Bohr, trailLengthProp = 15,
      trailOpacityProp = 1\<rparr>"
  by (simp add: rebuildRuns_def rebuildDeps_def)

section \<open>The Bohr branch of a tick\<close>

lemma electronPivots_updateElectronTrails:
  "electronPivots (updateElectronTrails obj) = electronPivots obj"
  by (simp add: updateElectronTrails_def Let_def split: option.splits)

lemma nucleus_updateElectronTrails: "nucleus (updateElectronTrails obj) = nucleus obj"
  by (simp add: updateElectronTrails_def Let_def split: option.splits)

lemma nucleus_animateAtom: "nucleus (animateAtom objs bondingPairs st delta io) = nucleus (snd io)"
  by (simp add: animateAtom_def Let_def)

lemma animatedObjects_animate_Bohr:
  assumes "animatedObjects scene \<noteq> []"
  shows "animatedObjects (fst (animate eps Bohr bondingPairs st delta (scene, g)))
           = map updateElectronTrails
               (map (animateAtom (animatedObjects scene) bondingPairs st delta)
                    (enumerate 0 (animatedObjects scene)))"
  using assms by (simp add: animate_def Let_def)

lemma animated_object_after_tick:
  assumes "atomIndex < length (animatedObjects scene)"
  shows "animatedObjects (fst (animate eps Bohr bondingPairs st delta (scene, g))) ! atomIndex
           = updateElectronTrails
               (animateAtom (animatedObjects scene) bondingPairs st delta
                  (atomIndex, animatedObjects scene ! atomIndex))"
proof -
  from assms have "animatedObjects scene \<noteq> []" by auto
  then show ?thesis
    using assms by (simp add: animatedObjects_animate_Bohr nth_enumerate_eq)
qed

lemma bondPartnersPositions_spec:
  "bondPartnersPositions objs bondingPairs atomIndex = spec_partnerPositions objs bondingPairs atomIndex"
  unfolding bondPartnersPositions_def spec_partnerPositions_def spec_bondPartners_def
  by (induction bondingPairs) (auto simp: Let_def arrayAt_def)

lemma foldl_vadd:
  "foldl vadd acc ps
     = Vector3 (vx acc + sum_list (map vx ps)) (vy acc + sum_list (map vy ps))
               (vz acc + sum_list (map vz ps))"
  by (induction ps arbitrary: acc) (simp_all add: vadd_def add.assoc)

lemma centroid_spec:
  "divideScalar (foldl vadd zeroVector ps) (real (length ps)) = spec_centroid ps"
  by (simp add: foldl_vadd zeroVector_def divideScalar_def multiplyScalar_def spec_centroid_def)

lemma lerpVectors_same: "lerpVectors a a t = a"
  by (simp add: lerpVectors_def)

lemma position_updatePivot:
  "position (updatePivot nucleusPosition target bp sp delta ip) = lerpVectors nucleusPosition target bp"
  by (simp add: updatePivot_def Let_def)

text \<open>
  A tick of a loop that captured the Bohr mode places the pivots by the bond list that the
  loop captured: for every atom and every electron pivot of it, when the bonding progress
  is positive and the atom has at least one partner with a model in that list, the pivot
  is placed at the linear interpolation, by the bonding progress, between the atom's
  nucleus position and the centroid of the nucleus positions of those partners;
  otherwise it is placed at the atom's nucleus position. The tick leaves the nuclei where
  they are.
\<close>

lemma tick_pivot_position:
  assumes "atomIndex < length (animatedObjects scene)"
    and "i < length (electronPivots (animatedObjects scene ! atomIndex))"
  shows "nucleus (animatedObjects (fst (animate eps Bohr bondingPairs st delta (scene, g))) ! atomIndex)
           = nucleus (animatedObjects scene ! atomIndex)
       \<and> position (electronPivots
            (animatedObjects (fst (animate eps Bohr bondingPairs st delta (scene, g))) ! atomIndex) ! i)
           = (if bondingProgress st > 0
                 \<and> spec_partnerPositions (animatedObjects scene) bondingPairs atomIndex \<noteq> []
              then lerpVectors (position (nucleus (animatedObjects scene ! atomIndex)))
                     (spec_centroid (spec_partnerPositions (animatedObjects scene) bondingPairs atomIndex))
                     (bondingProgress st)
              else position (nucleus (animatedObjects scene ! atomIndex)))"
proof -
  let ?obj = "animatedObjects scene ! atomIndex"
  let ?obj' = "animatedObjects (fst (animate eps Bohr bondingPairs st delta (scene, g))) ! atomIndex"
  have obj': "?obj' = updateElectronTrails
               (animateAtom (animatedObjects scene) bondingPairs st delta (atomIndex, ?obj))"
    using assms(1) by (rule animated_object_after_tick)
  have nuc: "nucleus ?obj' = nucleus ?obj"
    by (simp add: obj' nucleus_updateElectronTrails nucleus_animateAtom)
  have "electronPivots ?obj'
          = map (updatePivot (position (nucleus ?obj))
                   (targetPositionOf (animatedObjects scene) bondingPairs (bondingProgress st) atomIndex ?obj)
                   (bondingProgress st) (speed st) delta)
                (enumerate 0 (electronPivots ?obj))"
    by (simp add: obj' electronPivots_updateElectronTrails animateAtom_def Let_def)
  then have "position (electronPivots ?obj' ! i)
          = lerpVectors (position (nucleus ?obj))
              (targetPositionOf (animatedObjects scene) bondingPairs (bondingProgress st) atomIndex ?obj)
              (bondingProgress st)"
    using assms(2) by (simp add: position_updatePivot)
  also have "\<dots> = (if bondingProgress st > 0
                 \<and> spec_partnerPositions (animatedObjects scene) bondingPairs atomIndex \<noteq> []
              then lerpVectors (position (nucleus ?obj))
                     (spec_centroid (spec_partnerPositions (animatedObjects scene) bondingPairs atomIndex))
                     (bondingProgress st)
              else position (nucleus ?obj))"
    by (simp add: targetPositionOf_def Let_def bondPartnersPositions_spec centroid_spec
        lerpVectors_same)
  finally show ?thesis using nuc by simp
qed

section \<open>The Quantum branch does not read the speed\<close>

text \<open>
  Claim C10. When the mode is not Bohr the animation state stores the speed 0, whatever
  the electron-speed control says, and a tick of the Quantum mode returns the same scene
  and random source for any two speed values: it never reads the speed. So two runs
  that differ only in the electron speed produce the same electron-cloud and bond
  updates.
\<close>

theorem quantum_tick_ignores_speed:
  "(visualizationMode \<noteq> Bohr \<longrightarrow>
      speed (updateAnimationState electronSpeed bp visualizationMode) = 0
      \<and> updateAnimationState electronSpeed bp visualizationMode
          = updateAnimationState electronSpeed' bp visualizationMode)
   \<and> animate eps Quantum bondingPairs (st\<lparr>speed := s\<rparr>) delta sg
       = animate eps Quantum bondingPairs (st\<lparr>speed := s'\<rparr>) delta sg
   \<and> (visualizationMode \<noteq> Bohr \<longrightarrow>
        animate eps Quantum bondingPairs (updateAnimationState electronSpeed bp visualizationMode) delta sg
        = animate eps Quantum bondingPairs (updateAnimationState electronSpeed' bp visualizationMode) delta sg)"
  by (simp add: updateAnimationState_def animate_def Let_def case_prod_beta)


section \<open>Bond poses\<close>

lemma lerp_half: "lerp a b (1 / 2) = spec_midpoint a b"
  by (simp add: lerp_def spec_midpoint_def field_simps)

lemma vlength_eq_0_iff: "vlength v = 0 \<longleftrightarrow> v = zeroVector"
proof -
  have "vx v * vx v + vy v * vy v + vz v * vz v = 0 \<longleftrightarrow> vx v = 0 \<and> vy v = 0 \<and> vz v = 0"
    by (smt (verit) mult_eq_0_iff zero_le_square add_nonneg_eq_0_iff add_nonneg_nonneg)
  then show ?thesis
    by (cases v) (simp add: vlength_def zeroVector_def)
qed

lemma subVectors_eq_zero_iff: "subVectors b a = zeroVector \<longleftrightarrow> a = b"
  by (cases a; cases b) (auto simp: subVectors_def zeroVector_def)

lemma normalize_unit:
  assumes "v \<noteq> zeroVector"
  shows "vx (normalize_v v) * vx (normalize_v v) + vy (normalize_v v) * vy (normalize_v v)
           + vz (normalize_v v) * vz (normalize_v v) = 1"
proof -
  define l where "l = vlength v"
  have l0: "l \<noteq> 0" using assms by (simp add: l_def vlength_eq_0_iff)
  have "0 \<le> vx v * vx v + vy v * vy v + vz v * vz v" by simp
  then have ll: "l * l = vx v * vx v + vy v * vy v + vz v * vz v"
    by (simp add: l_def vlength_def)
  have n: "normalize_v v = Vector3 (vx v / l) (vy v / l) (vz v / l)"
    using l0 by (simp add: normalize_v_def divideScalar_def multiplyScalar_def l_def)
  have "vx v / l * (vx v / l) + vy v / l * (vy v / l) + vz v / l * (vz v / l)
          = (vx v * vx v + vy v * vy v + vz v * vz v) / (l * l)"
    by (simp add: add_divide_distrib)
  also have "\<dots> = 1" unfolding ll [symmetric] using l0 by simp
  finally show ?thesis by (simp add: n)
qed

lemma rotation_to_direction:
  assumes unit: "vx d * vx d + vy d * vy d + vz d * vz d = 1"
    and eps: "0 < eps" "eps \<le> 1 + vy d"
  shows "applyRotation (setFromUnitVectors eps bondUpVector d) bondUpVector = d"
proof -
  define r where "r = 1 + vy d"
  define l where "l = sqrt (2 * r)"
  have r0: "0 < r" using eps by (simp add: r_def)
  have l0: "l \<noteq> 0" using r0 by (simp add: l_def)
  have ll: "l * l = 2 * r" using r0 by (simp add: l_def)
  have xz: "vx d * vx d + vz d * vz d = (1 - vy d) * r"
    using unit by (simp add: r_def algebra_simps)
  have "vz d * vz d + vx d * vx d + r * r = 2 * r"
    using xz by (simp add: r_def algebra_simps)
  then have len: "qlength (Quaternion (vz d) 0 (- vx d) r) = l"
    by (simp add: qlength_def l_def)
  have "\<not> dot bondUpVector d + 1 < eps"
    using eps by (simp add: dot_def bondUpVector_def)
  then have "setFromUnitVectors eps bondUpVector d = qnormalize (Quaternion (vz d) 0 (- vx d) r)"
    by (simp add: setFromUnitVectors_def Let_def dot_def bondUpVector_def r_def add.commute)
  then have q: "setFromUnitVectors eps bondUpVector d
             = Quaternion (vz d * (1 / l)) 0 (- vx d * (1 / l)) (r * (1 / l))"
    using l0 by (simp add: qnormalize_def Let_def len)
  define k where "k = 1 / l"
  have "2 * r * (k * k) = (2 * r) / (l * l)" by (simp add: k_def)
  also have "\<dots> = 1" unfolding ll using r0 by simp
  finally have kk: "2 * r * (k * k) = 1" .
  have cx: "r * k * (vx d * k + vx d * k) = vx d"
  proof -
    have "r * k * (vx d * k + vx d * k) = vx d * (2 * r * (k * k))" by algebra
    then show ?thesis unfolding kk by simp
  qed
  have cz: "r * k * (vz d * k + vz d * k) = vz d"
  proof -
    have "r * k * (vz d * k + vz d * k) = vz d * (2 * r * (k * k))" by algebra
    then show ?thesis unfolding kk by simp
  qed
  have cy: "1 - (vz d * k * (vz d * k + vz d * k) + vx d * k * (vx d * k + vx d * k)) = vy d"
  proof -
    have "vz d * k * (vz d * k + vz d * k) + vx d * k * (vx d * k + vx d * k)
          = (vx d * vx d + vz d * vz d) * (2 * (k * k))"
      by algebra
    also have "\<dots> = (1 - vy d) * (2 * r * (k * k))" unfolding xz by algebra
    also have "\<dots> = 1 - vy d" unfolding kk by simp
    finally show ?thesis by simp
  qed
  show ?thesis
    unfolding q k_def [symmetric] using cx cy cz
    by (cases d) (simp add: applyRotation_def localToParent_def bondUpVector_def zeroVector_def Let_def)
qed


lemma rotation_straight_down:
  assumes "0 < eps"
  shows "applyRotation (setFromUnitVectors eps bondUpVector (Vector3 0 (- 1) 0)) bondUpVector
           = Vector3 0 (- 1) 0"
  using assms
  by (simp add: setFromUnitVectors_def bondUpVector_def dot_def qnormalize_def qlength_def
      applyRotation_def localToParent_def zeroVector_def Let_def)

lemma qNucleus_animateQuantumObject: "qNucleus (fst (animateQuantumObject obj g)) = qNucleus obj"
  by (simp add: animateQuantumObject_def Let_def case_prod_beta split: option.splits)

lemma qNuclei_animateQuantumObjects:
  "map qNucleus (fst (animateQuantumObjects objs g)) = map qNucleus objs"
  by (induction objs arbitrary: g)
     (simp_all add: case_prod_beta Let_def qNucleus_animateQuantumObject)

lemma nuclei_after_Bohr_objects:
  "map (nucleus \<circ> (updateElectronTrails \<circ> animateAtom objs bondingPairs st delta)) (enumerate n xs)
     = map nucleus xs"
  by (induction xs arbitrary: n)
     (simp_all add: nucleus_updateElectronTrails nucleus_animateAtom)

lemma nucleiOf_animate:
  "nucleiOf visualizationMode (fst (animate eps visualizationMode bondingPairs st delta (scene, g)))
     = nucleiOf visualizationMode scene"
  by (simp add: animate_def nucleiOf_def Let_def case_prod_beta nuclei_after_Bohr_objects
      qNuclei_animateQuantumObjects)

lemma bonds_animate:
  assumes "1 < length (nucleiOf visualizationMode scene)"
  shows "bonds (fst (animate eps visualizationMode bondingPairs st delta (scene, g)))
           = map (updateBond eps (nucleiOf visualizationMode scene) (bondingProgress st)) (bonds scene)"
  using assms
  by (auto simp: animate_def nucleiOf_def Let_def case_prod_beta split: if_splits)

lemma updateBond_pair: "bondPair (updateBond eps nuclei bp grp) = bondPair grp"
  by (simp add: updateBond_def Let_def split: option.splits)

lemma updateBond_opacity:
  "map opacity (cylinders (updateBond eps nuclei bp grp)) = replicate (length (cylinders grp)) bp"
  by (simp add: updateBond_def Let_def o_def map_replicate_const split: option.splits)

lemma updateBond_pose:
  assumes "arrayAt nuclei (fst (bondPair grp)) = Some a"
    and "arrayAt nuclei (snd (bondPair grp)) = Some b"
  shows "position (updateBond eps nuclei bp grp) = spec_midpoint (position a) (position b)"
    and "scale (updateBond eps nuclei bp grp) = Vector3 1 (distanceTo (position a) (position b)) 1"
    and "visible (updateBond eps nuclei bp grp)"
    and "quaternion (updateBond eps nuclei bp grp)
           = setFromUnitVectors eps bondUpVector (normalize_v (subVectors (position b) (position a)))"
  using assms by (simp_all add: updateBond_def Let_def lerp_half)

lemma updateBond_skipped:
  assumes "arrayAt nuclei (fst (bondPair grp)) = None \<or> arrayAt nuclei (snd (bondPair grp)) = None"
  shows "position (updateBond eps nuclei bp grp) = position grp"
    and "quaternion (updateBond eps nuclei bp grp) = quaternion grp"
    and "scale (updateBond eps nuclei bp grp) = scale grp"
    and "visible (updateBond eps nuclei bp grp) = visible grp"
  using assms by (auto simp: updateBond_def Let_def split: option.splits)

lemma bond_orientation:
  assumes "a \<noteq> b" and "0 < eps"
    and "eps \<le> 1 + vy (normalize_v (subVectors b a))
         \<or> normalize_v (subVectors b a) = Vector3 0 (- 1) 0"
  shows "applyRotation (setFromUnitVectors eps bondUpVector (normalize_v (subVectors b a))) bondUpVector
           = normalize_v (subVectors b a)"
proof -
  have "subVectors b a \<noteq> zeroVector" using assms(1) by (simp add: subVectors_eq_zero_iff)
  then have unit: "vx (normalize_v (subVectors b a)) * vx (normalize_v (subVectors b a))
      + vy (normalize_v (subVectors b a)) * vy (normalize_v (subVectors b a))
      + vz (normalize_v (subVectors b a)) * vz (normalize_v (subVectors b a)) = 1"
    by (rule normalize_unit)
  from assms(3) show ?thesis
  proof
    assume "eps \<le> 1 + vy (normalize_v (subVectors b a))"
    with unit assms(2) show ?thesis by (rule rotation_to_direction)
  next
    assume "normalize_v (subVectors b a) = Vector3 0 (- 1) 0"
    with assms(2) show ?thesis by (simp add: rotation_straight_down)
  qed
qed

text \<open>
  Claim C1, as amended. A tick reads the nuclei of the models of the mode that its loop
  captured. In a tick that finds at least two nuclei there, every bond group has the
  opacity of its cylinders set to the bonding progress. A bond group whose two indices
  both point at a nucleus is placed at the midpoint of the two nucleus positions, scaled
  by the distance between them along its y axis and by 1 across, made visible, and
  oriented by \<open>setFromUnitVectors\<close> of the up axis and the normalized vector from the
  first to the second nucleus; that orientation maps the up axis to the normalized vector
  when the two positions differ and the vector is not within the library's threshold of
  pointing straight down (or points exactly straight down). A bond group with an index
  outside the list of nuclei keeps its pose and its visibility. Nothing is said of a
  tick whose loop captured another mode than the one of the models.
\<close>

theorem bond_pose_update:
  assumes "1 < length (nucleiOf visualizationMode scene)"
    and "j < length (bonds scene)"
  shows "nucleiOf visualizationMode (fst (animate eps visualizationMode bondingPairs st delta (scene, g)))
           = nucleiOf visualizationMode scene
    \<and> length (bonds (fst (animate eps visualizationMode bondingPairs st delta (scene, g))))
        = length (bonds scene)
    \<and> bondPair (bonds (fst (animate eps visualizationMode bondingPairs st delta (scene, g))) ! j)
        = bondPair (bonds scene ! j)
    \<and> map opacity (cylinders (bonds (fst (animate eps visualizationMode bondingPairs st delta (scene, g))) ! j))
        = replicate (length (cylinders (bonds scene ! j))) (bondingProgress st)
    \<and> (\<forall>a b. arrayAt (nucleiOf visualizationMode scene) (fst (bondPair (bonds scene ! j))) = Some a
             \<and> arrayAt (nucleiOf visualizationMode scene) (snd (bondPair (bonds scene ! j))) = Some b
         \<longrightarrow> position (bonds (fst (animate eps visualizationMode bondingPairs st delta (scene, g))) ! j)
               = spec_midpoint (position a) (position b)
             \<and> scale (bonds (fst (animate eps visualizationMode bondingPairs st delta (scene, g))) ! j)
               = Vector3 1 (distanceTo (position a) (position b)) 1
             \<and> visible (bonds (fst (animate eps visualizationMode bondingPairs st delta (scene, g))) ! j)
             \<and> quaternion (bonds (fst (animate eps visualizationMode bondingPairs st delta (scene, g))) ! j)
               = setFromUnitVectors eps bondUpVector (normalize_v (subVectors (position b) (position a)))
             \<and> (position a \<noteq> position b \<and> 0 < eps
                 \<and> (eps \<le> 1 + vy (normalize_v (subVectors (position b) (position a)))
                    \<or> normalize_v (subVectors (position b) (position a)) = Vector3 0 (- 1) 0)
                \<longrightarrow> applyRotation
                      (quaternion (bonds (fst (animate eps visualizationMode bondingPairs st delta (scene, g))) ! j))
                      bondUpVector
                    = normalize_v (subVectors (position b) (position a))))
    \<and> (arrayAt (nucleiOf visualizationMode scene) (fst (bondPair (bonds scene ! j))) = None
        \<or> arrayAt (nucleiOf visualizationMode scene) (snd (bondPair (bonds scene ! j))) = None
       \<longrightarrow> position (bonds (fst (animate eps visualizationMode bondingPairs st delta (scene, g))) ! j)
             = position (bonds scene ! j)
           \<and> quaternion (bonds (fst (animate eps visualizationMode bondingPairs st delta (scene, g))) ! j)
             = quaternion (bonds scene ! j)
           \<and> scale (bonds (fst (animate eps visualizationMode bondingPairs st delta (scene, g))) ! j)
             = scale (bonds scene ! j)
           \<and> visible (bonds (fst (animate eps visualizationMode bondingPairs st delta (scene, g))) ! j)
             = visible (bonds scene ! j))"
proof -
  let ?nuclei = "nucleiOf visualizationMode scene"
  let ?grp = "bonds scene ! j"
  let ?grp' = "bonds (fst (animate eps visualizationMode bondingPairs st delta (scene, g))) ! j"
  have bs: "bonds (fst (animate eps visualizationMode bondingPairs st delta (scene, g)))
           = map (updateBond eps ?nuclei (bondingProgress st)) (bonds scene)"
    using assms(1) by (rule bonds_animate)
  have grp': "?grp' = updateBond eps ?nuclei (bondingProgress st) ?grp"
    using assms(2) by (simp add: bs)
  have len: "length (bonds (fst (animate eps visualizationMode bondingPairs st delta (scene, g))))
        = length (bonds scene)"
    by (simp add: bs)
  have posed: "\<forall>a b. arrayAt ?nuclei (fst (bondPair ?grp)) = Some a
             \<and> arrayAt ?nuclei (snd (bondPair ?grp)) = Some b
         \<longrightarrow> position ?grp' = spec_midpoint (position a) (position b)
             \<and> scale ?grp' = Vector3 1 (distanceTo (position a) (position b)) 1
             \<and> visible ?grp'
             \<and> quaternion ?grp'
               = setFromUnitVectors eps bondUpVector (normalize_v (subVectors (position b) (position a)))
             \<and> (position a \<noteq> position b \<and> 0 < eps
                 \<and> (eps \<le> 1 + vy (normalize_v (subVectors (position b) (position a)))
                    \<or> normalize_v (subVectors (position b) (position a)) = Vector3 0 (- 1) 0)
                \<longrightarrow> applyRotation (quaternion ?grp') bondUpVector
                    = normalize_v (subVectors (position b) (position a)))"
    unfolding grp' by (auto simp: updateBond_pose bond_orientation)
  have skipped: "arrayAt ?nuclei (fst (bondPair ?grp)) = None
        \<or> arrayAt ?nuclei (snd (bondPair ?grp)) = None
       \<longrightarrow> position ?grp' = position ?grp \<and> quaternion ?grp' = quaternion ?grp
           \<and> scale ?grp' = scale ?grp \<and> visible ?grp' = visible ?grp"
    unfolding grp' using updateBond_skipped [of ?nuclei ?grp eps "bondingProgress st"] by blast
  have pair: "bondPair ?grp' = bondPair ?grp"
    by (simp add: grp' updateBond_pair)
  have faded: "map opacity (cylinders ?grp') = replicate (length (cylinders ?grp)) (bondingProgress st)"
    by (simp add: grp' updateBond_opacity)
  show ?thesis
    using nucleiOf_animate [of visualizationMode eps bondingPairs st delta scene g]
      len pair faded posed skipped
    by blast
qed


section \<open>Single-precision numbers\<close>

lemma roundTiesToEven_of_int: "roundTiesToEven (of_int n) = n"
  by (simp add: roundTiesToEven_def)

lemma roundTiesToEven_bounds:
  "\<lfloor>y\<rfloor> \<le> roundTiesToEven y \<and> roundTiesToEven y \<le> \<lfloor>y\<rfloor> + 1"
  by (simp add: roundTiesToEven_def Let_def)

lemma roundTiesToEven_abs_le:
  assumes "\<bar>y\<bar> < of_int N"
  shows "\<bar>roundTiesToEven y\<bar> \<le> N"
proof -
  have "y < of_int N" and "- of_int N < y" using assms by auto
  then have "\<lfloor>y\<rfloor> < N" and "- N \<le> \<lfloor>y\<rfloor>"
    by (simp_all add: floor_less_iff le_floor_iff)
  with roundTiesToEven_bounds [of y] show ?thesis by linarith
qed

lemma float32Exponent_ge: "- 126 \<le> float32Exponent x"
  by (simp add: float32Exponent_def)

lemma below_next_binade:
  assumes "x \<noteq> 0"
  shows "\<bar>x\<bar> < 2 powr (of_int (float32Exponent x) + 1)"
proof -
  have "log 2 \<bar>x\<bar> < of_int \<lfloor>log 2 \<bar>x\<bar>\<rfloor> + 1" by linarith
  also have "\<dots> \<le> of_int (float32Exponent x) + 1"
    by (simp add: float32Exponent_def)
  finally have "log 2 \<bar>x\<bar> < of_int (float32Exponent x) + 1" .
  then show ?thesis using assms by (simp add: log_less_iff)
qed

lemma float32Exponent_le:
  assumes "x \<noteq> 0" and "\<bar>x\<bar> < 2 powr of_int m" and "- 126 \<le> m - 1"
  shows "float32Exponent x \<le> m - 1"
proof -
  have "log 2 \<bar>x\<bar> < of_int m" using assms(1,2) by (simp add: log_less_iff)
  then have "\<lfloor>log 2 \<bar>x\<bar>\<rfloor> < m" by (simp add: floor_less_iff)
  with assms(3) show ?thesis by (simp add: float32Exponent_def)
qed

text \<open>
  A number with a significand below \<open>2^24\<close> and an exponent of at least \<open>-149\<close> is
  stored as it is.
\<close>

lemma fround_representable:
  assumes "x = of_int n * 2 powr of_int k" and "\<bar>n\<bar> < 2 ^ 24" and "- 149 \<le> k"
  shows "fround x = x"
proof (cases "x = 0")
  case True
  then show ?thesis by (simp add: fround_def)
next
  case False
  let ?E = "float32Exponent x"
  have "\<bar>x\<bar> = of_int \<bar>n\<bar> * 2 powr of_int k" by (simp add: assms(1) abs_mult)
  also have "\<dots> < 2 ^ 24 * 2 powr of_int k"
  proof -
    have "(of_int \<bar>n\<bar> :: real) < of_int (2 ^ 24)" using assms(2) by (simp only: of_int_less_iff)
    then show ?thesis by simp
  qed
  also have "\<dots> = 2 powr of_int (k + 24)"
    by (simp add: powr_add powr_realpow [symmetric])
  finally have "\<bar>x\<bar> < 2 powr of_int (k + 24)" .
  then have E: "?E \<le> k + 23"
    using float32Exponent_le [OF False, of "k + 24"] assms(3) by simp
  define j where "j = nat (k + 23 - ?E)"
  have j: "of_int k - (of_int ?E - 23) = real j" using E by (simp add: j_def)
  have "x / 2 powr (of_int ?E - 23) = of_int n * 2 powr (of_int k - (of_int ?E - 23))"
    by (simp add: assms(1) powr_diff)
  also have "\<dots> = of_int n * 2 ^ j"
    by (simp only: j powr_realpow [of 2 j, simplified])
  also have "\<dots> = of_int (n * 2 ^ j)" by simp
  finally have q: "x / 2 powr (of_int ?E - 23) = of_int (n * 2 ^ j)" .
  have "fround x = of_int (roundTiesToEven (x / 2 powr (of_int ?E - 23))) * 2 powr (of_int ?E - 23)"
    using False by (simp add: fround_def Let_def)
  also have "\<dots> = (x / 2 powr (of_int ?E - 23)) * 2 powr (of_int ?E - 23)"
    by (simp only: q roundTiesToEven_of_int)
  also have "\<dots> = x" by simp
  finally show ?thesis .
qed

text \<open>Storing a number that was read from the array changes nothing.\<close>

lemma fround_idempotent: "fround (fround x) = fround x"
proof (cases "x = 0")
  case True
  then show ?thesis by (simp add: fround_def)
next
  case False
  let ?E = "float32Exponent x"
  let ?ulp = "2 powr (of_int ?E - 23)"
  let ?n = "roundTiesToEven (x / ?ulp)"
  have fx: "fround x = of_int ?n * 2 powr of_int (?E - 23)"
    using False by (simp add: fround_def Let_def)
  have "\<bar>x / ?ulp\<bar> = \<bar>x\<bar> / ?ulp" by simp
  also have "\<dots> < 2 powr (of_int ?E + 1) / ?ulp"
    using below_next_binade [OF False] by (simp add: divide_strict_right_mono)
  also have "\<dots> = 2 powr 24" by (simp add: powr_diff [symmetric])
  also have "\<dots> = of_int (2 ^ 24)"
    using powr_realpow [of 2 24] by simp
  finally have "\<bar>?n\<bar> \<le> 2 ^ 24" by (rule roundTiesToEven_abs_le)
  then consider "\<bar>?n\<bar> < 2 ^ 24" | "?n = 2 ^ 24" | "?n = - (2 ^ 24)" by linarith
  then show ?thesis
  proof cases
    case 1
    show ?thesis
      by (rule fround_representable [OF fx 1]) (use float32Exponent_ge [of x] in simp)
  next
    case 2
    have "fround x = of_int (2 ^ 23) * 2 powr of_int (?E - 22)"
      unfolding fx 2
      by (simp add: powr_diff)
    then show ?thesis
      by (rule fround_representable) (use float32Exponent_ge [of x] in simp_all)
  next
    case 3
    have "fround x = of_int (- (2 ^ 23)) * 2 powr of_int (?E - 22)"
      unfolding fx 3
      by (simp add: powr_diff)
    then show ?thesis
      by (rule fround_representable) (use float32Exponent_ge [of x] in simp_all)
  qed
qed

lemma float32Exponent_eq:
  assumes "2 powr of_int e \<le> \<bar>x\<bar>" and "\<bar>x\<bar> < 2 powr (of_int e + 1)" and "- 126 \<le> e"
  shows "float32Exponent x = e"
proof -
  have "(0::real) < 2 powr of_int e" by simp
  with assms(1) have x: "0 < \<bar>x\<bar>" by linarith
  have "of_int e \<le> log 2 \<bar>x\<bar>" using assms(1) x by (simp add: le_log_iff)
  moreover have "log 2 \<bar>x\<bar> < of_int e + 1" using assms(2) x by (simp add: log_less_iff)
  ultimately have "\<lfloor>log 2 \<bar>x\<bar>\<rfloor> = e" by (simp add: floor_eq_iff)
  with assms(3) show ?thesis by (simp add: float32Exponent_def)
qed

text \<open>One tenth is stored as \<open>13421773 / 2^27\<close>.\<close>

lemma fround_tenth: "fround (1 / 10) = 13421773 / 134217728"
proof -
  have e: "float32Exponent (1 / 10) = - 4"
    by (rule float32Exponent_eq) (simp_all add: powr_minus_divide)
  have u: "2 powr (of_int (- 4) - 23) = (1 / 134217728 :: real)"
    using powr_realpow [of 2 27] by (simp add: powr_minus_divide)
  have r: "roundTiesToEven (1 / 10 / (1 / 134217728)) = 13421773"
  proof -
    have "\<lfloor>(134217728 / 10 :: real)\<rfloor> = 13421772" by (simp add: floor_eq_iff)
    then show ?thesis by (simp add: roundTiesToEven_def Let_def)
  qed
  have "fround (1 / 10)
          = of_int (roundTiesToEven (1 / 10 / 2 powr (of_int (float32Exponent (1 / 10)) - 23)))
              * 2 powr (of_int (float32Exponent (1 / 10)) - 23)"
    by (simp only: fround_def Let_def) simp
  also have "\<dots> = of_int 13421773 * (1 / 134217728)"
    by (simp only: e u r)
  finally show ?thesis by simp
qed

lemma fround_examples:
  "fround 0 = 0" "fround 2 = 2" "fround (5 / 4) = 5 / 4" "fround (5 / 8) = 5 / 8"
proof -
  show "fround 0 = 0" by (simp add: fround_def)
  show "fround 2 = 2"
    by (rule fround_representable [of _ 1 1]) simp_all
  show "fround (5 / 4) = 5 / 4"
    by (rule fround_representable [of _ 5 "- 2"]) (simp_all add: powr_minus_divide)
  show "fround (5 / 8) = 5 / 8"
    by (rule fround_representable [of _ 5 "- 3"]) (simp_all add: powr_minus_divide)
qed

lemma float32Vector_idempotent: "float32Vector (float32Vector p) = float32Vector p"
  by (simp add: float32Vector_def fround_idempotent)

lemma setXYZ_vector: "setXYZ ps index (vx p) (vy p) (vz p) = ps[index := float32Vector p]"
  by (simp add: setXYZ_def float32Vector_def)


section \<open>Trail buffers\<close>

lemma length_shiftTrail: "length (shiftTrail start j ps) = length ps"
  by (induction j arbitrary: ps) (simp_all add: setXYZ_def)

lemma shiftTrail_nth:
  assumes "start + j < length ps" and "k < length ps"
  shows "shiftTrail start j ps ! k
           = (if start < k \<and> k \<le> start + j then float32Vector (ps ! (k - 1)) else ps ! k)"
  using assms
proof (induction j arbitrary: ps)
  case 0
  then show ?case by auto
next
  case (Suc j)
  let ?ps = "ps[start + Suc j := float32Vector (ps ! (start + Suc j - 1))]"
  have "shiftTrail start (Suc j) ps ! k = shiftTrail start j ?ps ! k"
    by (simp add: setXYZ_vector)
  also have "\<dots> = (if start < k \<and> k \<le> start + j then float32Vector (?ps ! (k - 1)) else ?ps ! k)"
    using Suc.prems by (intro Suc.IH) simp_all
  also have "\<dots> = (if start < k \<and> k \<le> start + Suc j then float32Vector (ps ! (k - 1)) else ps ! k)"
    using Suc.prems by (auto simp: nth_list_update)
  finally show ?case .
qed

lemma length_pushSample: "length (pushSample len e p ps) = length ps"
  by (simp add: pushSample_def Let_def setXYZ_def length_shiftTrail)

lemma pushSample_nth:
  assumes "0 < len" and "e * len + len \<le> length ps" and "k < length ps"
  shows "pushSample len e p ps ! k
           = (if k = e * len then float32Vector p
              else if e * len < k \<and> k < e * len + len then float32Vector (ps ! (k - 1))
              else ps ! k)"
proof -
  have "e * len + (len - 1) < length ps" using assms(1,2) by simp
  then have "shiftTrail (e * len) (len - 1) ps ! k
               = (if e * len < k \<and> k \<le> e * len + (len - 1) then float32Vector (ps ! (k - 1))
                  else ps ! k)"
    using assms(3) by (rule shiftTrail_nth)
  then show ?thesis
    using assms
    by (auto simp: pushSample_def Let_def setXYZ_vector nth_list_update length_shiftTrail)
qed

lemma slot_below: "e < m \<Longrightarrow> i < len \<Longrightarrow> e * len + i < m * (len::nat)"
proof -
  assume "e < m" and "i < len"
  then have "Suc e * len \<le> m * len" by (intro mult_le_mono1) simp
  with \<open>i < len\<close> show ?thesis by simp
qed

lemma slot_above: "m < e \<Longrightarrow> m * len + len \<le> e * len + (i::nat)"
proof -
  assume "m < e"
  then have "Suc m * len \<le> e * len" by (intro mult_le_mono1) simp
  then show ?thesis by simp
qed

lemma length_trail_fold:
  "length (foldl (\<lambda>ps e. pushSample len e (w e) ps) ps es) = length ps"
  by (induction es arbitrary: ps) (simp_all add: length_pushSample)

lemma trail_fold_nth:
  assumes "0 < len" and "n * len \<le> length ps" and "m \<le> n" and "e < n" and "i < len"
  shows "foldl (\<lambda>ps e. pushSample len e (w e) ps) ps [0 ..< m] ! (e * len + i)
           = (if e < m then float32Vector (if i = 0 then w e else ps ! (e * len + i - 1))
              else ps ! (e * len + i))"
  using assms(3,4,5)
proof (induction m arbitrary: e i)
  case 0
  then show ?case by simp
next
  case (Suc m)
  let ?R = "foldl (\<lambda>ps e. pushSample len e (w e) ps) ps [0 ..< m]"
  have lenR: "length ?R = length ps" by (rule length_trail_fold)
  have mn: "m < n" using Suc.prems by simp
  then have "Suc m * len \<le> n * len" by (intro mult_le_mono1) simp
  then have room: "m * len + len \<le> length ?R" using assms(2) lenR by simp
  have k: "e * len + i < length ?R"
    using slot_below [of e n i len] Suc.prems assms(2) lenR by simp
  have step: "foldl (\<lambda>ps e. pushSample len e (w e) ps) ps [0 ..< Suc m] ! (e * len + i)
                = pushSample len m (w m) ?R ! (e * len + i)"
    by simp
  have nth: "pushSample len m (w m) ?R ! (e * len + i)
               = (if e * len + i = m * len then float32Vector (w m)
                  else if m * len < e * len + i \<and> e * len + i < m * len + len
                       then float32Vector (?R ! (e * len + i - 1))
                  else ?R ! (e * len + i))"
    using assms(1) room k by (rule pushSample_nth)
  consider "e < m" | "e = m" | "m < e" by linarith
  then show ?case
  proof cases
    case 1
    then have "e * len + i < m * len" using Suc.prems by (intro slot_below)
    moreover have "?R ! (e * len + i)
                     = float32Vector (if i = 0 then w e else ps ! (e * len + i - 1))"
      using Suc.IH [of e i] 1 mn Suc.prems by simp
    ultimately show ?thesis using 1 step nth by simp
  next
    case 2
    show ?thesis
    proof (cases "i = 0")
      case True
      with 2 step nth show ?thesis by simp
    next
      case False
      then obtain i' where i': "i = Suc i'" by (cases i) auto
      have "?R ! (m * len + i') = ps ! (m * len + i')"
        using Suc.IH [of m i'] mn Suc.prems i' by simp
      with 2 i' Suc.prems step nth show ?thesis by simp
    qed
  next
    case 3
    then have "m * len + len \<le> e * len + i" by (rule slot_above)
    moreover have "?R ! (e * len + i) = ps ! (e * len + i)"
      using Suc.IH [of e i] 3 mn Suc.prems by simp
    ultimately show ?thesis using 3 assms(1) step nth by simp
  qed
qed


subsection \<open>The Bohr model\<close>

lemma electrons_updateElectronTrails: "electrons (updateElectronTrails obj) = electrons obj"
  by (simp add: updateElectronTrails_def Let_def split: option.splits)

lemma electronWorldPosition_updateElectronTrails:
  "electronWorldPosition (updateElectronTrails obj) e = electronWorldPosition obj e"
  by (simp add: electronWorldPosition_def electronPivots_updateElectronTrails
      electrons_updateElectronTrails)

lemma updateElectronTrails_length:
  assumes "electronTrails obj = Some t"
  shows "\<exists>t'. electronTrails (updateElectronTrails obj) = Some t'
              \<and> length (positions t') = length (positions t)"
  using assms by (simp add: updateElectronTrails_def Let_def length_trail_fold)

lemma updateElectronTrails_samples:
  assumes "electronTrails obj = Some t"
    and "0 < len" and "length (positions t) = length (electrons obj) * len"
    and "e < length (electrons obj)" and "i < len"
  shows "\<exists>t'. electronTrails (updateElectronTrails obj) = Some t'
              \<and> positions t' ! (e * len + i)
                  = float32Vector (if i = 0 then electronWorldPosition obj e
                                   else positions t ! (e * len + i - 1))"
proof -
  let ?n = "length (electrons obj)"
  have n: "?n \<noteq> 0" using assms(4) by auto
  have q: "length (positions t) div ?n = len" using assms(3) n by simp
  have "foldl (\<lambda>ps e. pushSample len e (electronWorldPosition obj e) ps) (positions t) [0 ..< ?n]
          ! (e * len + i)
        = (if e < ?n then float32Vector (if i = 0 then electronWorldPosition obj e
                                         else positions t ! (e * len + i - 1))
           else positions t ! (e * len + i))"
    using assms(2) _ _ assms(4,5) by (rule trail_fold_nth) (simp_all add: assms(3))
  then show ?thesis
    using assms(1,4) n by (simp add: updateElectronTrails_def Let_def q)
qed

lemma electronTrails_animateAtom:
  "electronTrails (animateAtom objs bondingPairs st delta io) = electronTrails (snd io)"
  by (simp add: animateAtom_def Let_def)

lemma electrons_animateAtom:
  "electrons (animateAtom objs bondingPairs st delta io) = electrons (snd io)"
  by (simp add: animateAtom_def Let_def)

lemma length_electronPivots_animateAtom:
  "length (electronPivots (animateAtom objs bondingPairs st delta io))
     = length (electronPivots (snd io))"
  by (simp add: animateAtom_def Let_def)

lemma bohr_trail_after_tick:
  assumes "k < length (animatedObjects scene)"
    and "electronTrails (animatedObjects scene ! k) = Some t"
    and "0 < len"
    and "length (positions t) = length (electrons (animatedObjects scene ! k)) * len"
    and "\<forall>p \<in> set (positions t). float32Vector p = p"
  shows "\<exists>t'. electronTrails (animatedObjects (fst (animate eps Bohr bondingPairs st delta (scene, g))) ! k)
                = Some t'
           \<and> length (positions t') = length (positions t)
           \<and> electrons (animatedObjects (fst (animate eps Bohr bondingPairs st delta (scene, g))) ! k)
               = electrons (animatedObjects scene ! k)
           \<and> (\<forall>e < length (electrons (animatedObjects scene ! k)).
                positions t' ! (e * len)
                  = float32Vector
                      (electronWorldPosition
                         (animatedObjects (fst (animate eps Bohr bondingPairs st delta (scene, g))) ! k) e)
                \<and> (\<forall>i. 1 \<le> i \<and> i < len \<longrightarrow>
                      positions t' ! (e * len + i) = positions t ! (e * len + i - 1)))"
proof -
  let ?obj = "animatedObjects scene ! k"
  let ?mid = "animateAtom (animatedObjects scene) bondingPairs st delta (k, ?obj)"
  let ?obj' = "animatedObjects (fst (animate eps Bohr bondingPairs st delta (scene, g))) ! k"
  have obj': "?obj' = updateElectronTrails ?mid"
    using assms(1) by (rule animated_object_after_tick)
  have tr: "electronTrails ?mid = Some t"
    using assms(2) by (simp add: electronTrails_animateAtom)
  have el: "electrons ?mid = electrons ?obj"
    by (simp add: electrons_animateAtom)
  from updateElectronTrails_length [OF tr]
  obtain t' where t': "electronTrails (updateElectronTrails ?mid) = Some t'"
    and len': "length (positions t') = length (positions t)"
    by blast
  have samples: "positions t' ! (e * len + i)
                   = float32Vector (if i = 0 then electronWorldPosition ?mid e
                                    else positions t ! (e * len + i - 1))"
    if "e < length (electrons ?obj)" and "i < len" for e i
    using updateElectronTrails_samples [OF tr assms(3), of e i] assms(4) that t'
    by (simp add: el)
  have "\<forall>e < length (electrons ?obj).
          positions t' ! (e * len) = float32Vector (electronWorldPosition ?obj' e)
          \<and> (\<forall>i. 1 \<le> i \<and> i < len \<longrightarrow>
                positions t' ! (e * len + i) = positions t ! (e * len + i - 1))"
  proof (intro allI impI conjI)
    fix e assume e: "e < length (electrons ?obj)"
    show "positions t' ! (e * len) = float32Vector (electronWorldPosition ?obj' e)"
      using samples [OF e assms(3)]
      by (simp add: obj' electronWorldPosition_updateElectronTrails)
  next
    fix e i assume e: "e < length (electrons ?obj)" and i: "1 \<le> i \<and> i < len"
    have "e * len + i < length (electrons ?obj) * len"
      using e i by (intro slot_below) simp_all
    then have "e * len + i - 1 < length (positions t)" using assms(4) by simp
    then have "positions t ! (e * len + i - 1) \<in> set (positions t)" by (rule nth_mem)
    with assms(5) have "float32Vector (positions t ! (e * len + i - 1)) = positions t ! (e * len + i - 1)"
      by blast
    then show "positions t' ! (e * len + i) = positions t ! (e * len + i - 1)"
      using samples [OF e, of i] i by simp
  qed
  with t' len' show ?thesis
    by (simp add: obj' electrons_updateElectronTrails el)
qed

subsection \<open>The orbital model\<close>

lemma QUANTUM_TRAIL_LENGTH_pos: "0 < QUANTUM_TRAIL_LENGTH"
  by (simp add: QUANTUM_TRAIL_LENGTH_def)

lemma animateElectrons_lengths:
  "length (fst (animateElectrons sc e0 anims ps g)) = length anims
   \<and> length (fst (snd (animateElectrons sc e0 anims ps g))) = length ps"
  by (induction anims arbitrary: e0 ps g)
     (simp_all add: case_prod_beta Let_def length_pushSample)

lemma animateElectrons_samples:
  assumes "(e0 + length anims) * QUANTUM_TRAIL_LENGTH \<le> length ps"
  shows "(\<forall>j i. j < length anims \<longrightarrow> i < QUANTUM_TRAIL_LENGTH \<longrightarrow>
            fst (snd (animateElectrons sc e0 anims ps g)) ! ((e0 + j) * QUANTUM_TRAIL_LENGTH + i)
              = float32Vector
                  (if i = 0 then currentPosition (fst (animateElectrons sc e0 anims ps g) ! j)
                   else ps ! ((e0 + j) * QUANTUM_TRAIL_LENGTH + i - 1)))
       \<and> (\<forall>k < e0 * QUANTUM_TRAIL_LENGTH.
            fst (snd (animateElectrons sc e0 anims ps g)) ! k = ps ! k)"
  using assms
proof (induction anims arbitrary: e0 ps g)
  case Nil
  then show ?case by simp
next
  case (Cons anim rest)
  let ?L = QUANTUM_TRAIL_LENGTH
  let ?a1 = "fst (stepElectron sc anim g)"
  let ?g1 = "snd (stepElectron sc anim g)"
  let ?ps1 = "pushSample ?L e0 (currentPosition ?a1) ps"
  let ?R = "animateElectrons sc (Suc e0) rest ?ps1 ?g1"
  have unfold: "animateElectrons sc e0 (anim # rest) ps g
                  = (?a1 # fst ?R, fst (snd ?R), snd (snd ?R))"
    by (simp add: case_prod_beta Let_def)
  have L: "0 < ?L" by (rule QUANTUM_TRAIL_LENGTH_pos)
  have total: "(Suc e0 + length rest) * ?L \<le> length ?ps1"
    using Cons.prems by (simp add: length_pushSample)
  have room: "e0 * ?L + ?L \<le> length ps"
  proof -
    have "e0 * ?L + ?L = Suc e0 * ?L" by simp
    also have "\<dots> \<le> (e0 + length (anim # rest)) * ?L" by (intro mult_le_mono1) simp
    also have "\<dots> \<le> length ps" by (rule Cons.prems)
    finally show ?thesis .
  qed
  note IH = Cons.IH [OF total, of ?g1]
  have ps1: "?ps1 ! k = (if k = e0 * ?L then float32Vector (currentPosition ?a1)
                         else if e0 * ?L < k \<and> k < e0 * ?L + ?L then float32Vector (ps ! (k - 1))
                         else ps ! k)" if "k < length ps" for k
    using L room that by (rule pushSample_nth)
  have untouched: "?ps1 ! idx = ps ! idx" if "idx < length ps" and "e0 * ?L + ?L \<le> idx" for idx
    using ps1 [OF that(1)] that(2) L by simp
  have first: "fst (snd ?R) ! (e0 * ?L + i)
                 = float32Vector (if i = 0 then currentPosition ?a1 else ps ! (e0 * ?L + i - 1))"
    if "i < ?L" for i
  proof -
    have below: "e0 * ?L + i < Suc e0 * ?L" using that by simp
    then have "fst (snd ?R) ! (e0 * ?L + i) = ?ps1 ! (e0 * ?L + i)"
      using IH by blast
    moreover have "e0 * ?L + i < length ps" using room that by simp
    ultimately show ?thesis using ps1 [of "e0 * ?L + i"] that by simp
  qed
  have later: "fst (snd ?R) ! ((e0 + Suc j) * ?L + i)
                 = float32Vector (if i = 0 then currentPosition (fst ?R ! j)
                                  else ps ! ((e0 + Suc j) * ?L + i - 1))"
    if "j < length rest" and "i < ?L" for j i
  proof -
    have "fst (snd ?R) ! ((Suc e0 + j) * ?L + i)
            = float32Vector (if i = 0 then currentPosition (fst ?R ! j)
                             else ?ps1 ! ((Suc e0 + j) * ?L + i - 1))"
      using IH that by blast
    moreover have "?ps1 ! ((Suc e0 + j) * ?L + i - 1) = ps ! ((Suc e0 + j) * ?L + i - 1)"
      if "i \<noteq> 0"
    proof -
      have lo: "e0 * ?L + ?L \<le> (Suc e0 + j) * ?L + i - 1"
        using \<open>i \<noteq> 0\<close> by (simp add: algebra_simps)
      have "(Suc e0 + j) * ?L + i < (Suc e0 + length rest) * ?L"
        using slot_below [of "Suc e0 + j" "Suc e0 + length rest" i ?L] \<open>j < length rest\<close> \<open>i < ?L\<close>
        by simp
      then have hi: "(Suc e0 + j) * ?L + i - 1 < length ps"
        using Cons.prems by simp
      show ?thesis using hi lo by (rule untouched)
    qed
    ultimately show ?thesis by simp
  qed
  have before: "fst (snd ?R) ! k = ps ! k" if "k < e0 * ?L" for k
  proof -
    have "k < Suc e0 * ?L" using that by simp
    then have "fst (snd ?R) ! k = ?ps1 ! k" using IH by blast
    moreover have "k < length ps" using that room by simp
    ultimately show ?thesis using ps1 [of k] that by simp
  qed
  show ?case
  proof (intro conjI allI impI)
    fix j i assume j: "j < length (anim # rest)" and i: "i < ?L"
    show "fst (snd (animateElectrons sc e0 (anim # rest) ps g)) ! ((e0 + j) * ?L + i)
            = float32Vector
                (if i = 0 then currentPosition (fst (animateElectrons sc e0 (anim # rest) ps g) ! j)
                 else ps ! ((e0 + j) * ?L + i - 1))"
    proof (cases j)
      case 0
      then show ?thesis unfolding unfold using first [OF i] by simp
    next
      case (Suc j')
      then show ?thesis unfolding unfold using later [of j' i] j i by simp
    qed
  next
    fix k assume "k < e0 * ?L"
    then show "fst (snd (animateElectrons sc e0 (anim # rest) ps g)) ! k = ps ! k"
      unfolding unfold using before by simp
  qed
qed


lemma animateQuantumObject_cloud:
  assumes "electronCloud obj = Some c"
    and "length (positions c) = length (electronAnimations c) * QUANTUM_TRAIL_LENGTH"
    and "\<forall>p \<in> set (positions c). float32Vector p = p"
  shows "\<exists>c'. electronCloud (fst (animateQuantumObject obj g)) = Some c'
            \<and> position c' = position (qNucleus obj)
            \<and> length (electronAnimations c') = length (electronAnimations c)
            \<and> length (positions c') = length (positions c)
            \<and> (\<forall>e < length (electronAnimations c).
                  positions c' ! (e * QUANTUM_TRAIL_LENGTH)
                    = float32Vector (currentPosition (electronAnimations c' ! e))
                  \<and> (\<forall>i. 1 \<le> i \<and> i < QUANTUM_TRAIL_LENGTH \<longrightarrow>
                        positions c' ! (e * QUANTUM_TRAIL_LENGTH + i)
                          = positions c ! (e * QUANTUM_TRAIL_LENGTH + i - 1)))"
proof -
  let ?L = QUANTUM_TRAIL_LENGTH
  let ?R = "animateElectrons (vx (scale (qNucleus obj))) 0 (electronAnimations c) (positions c) g"
  let ?c' = "c\<lparr>position := position (qNucleus obj), positions := fst (snd ?R),
               electronAnimations := fst ?R\<rparr>"
  have cloud: "electronCloud (fst (animateQuantumObject obj g)) = Some ?c'"
    using assms(1) by (simp add: animateQuantumObject_def Let_def case_prod_beta)
  have room: "(0 + length (electronAnimations c)) * ?L \<le> length (positions c)"
    using assms(2) by simp
  note S = animateElectrons_samples [OF room, of "vx (scale (qNucleus obj))" g]
  note N = animateElectrons_lengths [of "vx (scale (qNucleus obj))" 0 "electronAnimations c" "positions c" g]
  have "\<forall>e < length (electronAnimations c).
          fst (snd ?R) ! (e * ?L) = float32Vector (currentPosition (fst ?R ! e))
          \<and> (\<forall>i. 1 \<le> i \<and> i < ?L \<longrightarrow> fst (snd ?R) ! (e * ?L + i) = positions c ! (e * ?L + i - 1))"
  proof (intro allI impI conjI)
    fix e assume e: "e < length (electronAnimations c)"
    from S e QUANTUM_TRAIL_LENGTH_pos
    have "fst (snd ?R) ! ((0 + e) * ?L + 0)
            = float32Vector (if (0::nat) = 0 then currentPosition (fst ?R ! e)
                             else positions c ! ((0 + e) * ?L + 0 - 1))"
      by blast
    then show "fst (snd ?R) ! (e * ?L) = float32Vector (currentPosition (fst ?R ! e))" by simp
  next
    fix e i assume e: "e < length (electronAnimations c)" and i: "1 \<le> i \<and> i < ?L"
    from S e i
    have "fst (snd ?R) ! ((0 + e) * ?L + i)
            = float32Vector (if i = 0 then currentPosition (fst ?R ! e)
                             else positions c ! ((0 + e) * ?L + i - 1))"
      by blast
    moreover have "float32Vector (positions c ! (e * ?L + i - 1)) = positions c ! (e * ?L + i - 1)"
    proof -
      have "e * ?L + i < length (electronAnimations c) * ?L"
        using e i by (intro slot_below) simp_all
      then have "e * ?L + i - 1 < length (positions c)" using assms(2) by simp
      then have "positions c ! (e * ?L + i - 1) \<in> set (positions c)" by (rule nth_mem)
      with assms(3) show ?thesis by blast
    qed
    ultimately show "fst (snd ?R) ! (e * ?L + i) = positions c ! (e * ?L + i - 1)"
      using i by simp
  qed
  with cloud N show ?thesis by simp
qed

lemma nth_animateQuantumObjects:
  assumes "k < length objs"
  shows "\<exists>g'. fst (animateQuantumObjects objs g) ! k = fst (animateQuantumObject (objs ! k) g')"
  using assms
proof (induction objs arbitrary: k g)
  case Nil
  then show ?case by simp
next
  case (Cons obj rest)
  show ?case
  proof (cases k)
    case 0
    then show ?thesis by (intro exI [of _ g]) (simp add: case_prod_beta Let_def)
  next
    case (Suc k')
    with Cons.prems have "k' < length rest" by simp
    from Cons.IH [OF this, of "snd (animateQuantumObject obj g)"] Suc
    show ?thesis by (simp add: case_prod_beta Let_def)
  qed
qed

lemma quantumObjects_animate_Quantum:
  assumes "quantumObjects scene \<noteq> []"
  shows "quantumObjects (fst (animate eps Quantum bondingPairs st delta (scene, g)))
           = fst (animateQuantumObjects (quantumObjects scene) g)"
  using assms by (simp add: animate_def Let_def case_prod_beta)

lemma quantum_trail_after_tick:
  assumes "k < length (quantumObjects scene)"
    and "electronCloud (quantumObjects scene ! k) = Some c"
    and "length (positions c) = length (electronAnimations c) * QUANTUM_TRAIL_LENGTH"
    and "\<forall>p \<in> set (positions c). float32Vector p = p"
  shows "\<exists>c'. electronCloud (quantumObjects (fst (animate eps Quantum bondingPairs st delta (scene, g))) ! k)
                = Some c'
            \<and> position c' = position (qNucleus (quantumObjects scene ! k))
            \<and> length (electronAnimations c') = length (electronAnimations c)
            \<and> length (positions c') = length (positions c)
            \<and> (\<forall>e < length (electronAnimations c).
                  positions c' ! (e * QUANTUM_TRAIL_LENGTH)
                    = float32Vector (currentPosition (electronAnimations c' ! e))
                  \<and> (\<forall>i. 1 \<le> i \<and> i < QUANTUM_TRAIL_LENGTH \<longrightarrow>
                        positions c' ! (e * QUANTUM_TRAIL_LENGTH + i)
                          = positions c ! (e * QUANTUM_TRAIL_LENGTH + i - 1)))"
proof -
  from assms(1) have ne: "quantumObjects scene \<noteq> []" by auto
  from nth_animateQuantumObjects [OF assms(1), of g]
  obtain g' where "fst (animateQuantumObjects (quantumObjects scene) g) ! k
                     = fst (animateQuantumObject (quantumObjects scene ! k) g')"
    by blast
  then show ?thesis
    using animateQuantumObject_cloud [OF assms(2,3,4), of g']
    by (simp add: quantumObjects_animate_Quantum [OF ne])
qed


subsection \<open>The buffers keep their size\<close>

lemma wellFormed_after_Bohr_object:
  assumes "length (electronPivots obj) = length (electrons obj)
           \<and> (\<forall>t. electronTrails obj = Some t \<longrightarrow> length (positions t) = length (electrons obj) * len)"
  shows "length (electronPivots (updateElectronTrails (animateAtom objs bondingPairs st delta (i, obj))))
           = length (electrons (updateElectronTrails (animateAtom objs bondingPairs st delta (i, obj))))
         \<and> (\<forall>t. electronTrails (updateElectronTrails (animateAtom objs bondingPairs st delta (i, obj))) = Some t
                \<longrightarrow> length (positions t)
                    = length (electrons (updateElectronTrails (animateAtom objs bondingPairs st delta (i, obj)))) * len)"
proof -
  let ?mid = "animateAtom objs bondingPairs st delta (i, obj)"
  have piv: "length (electronPivots (updateElectronTrails ?mid)) = length (electrons (updateElectronTrails ?mid))"
    using assms
    by (simp add: electronPivots_updateElectronTrails electrons_updateElectronTrails
        length_electronPivots_animateAtom electrons_animateAtom)
  have "length (positions t') = length (electrons (updateElectronTrails ?mid)) * len"
    if t': "electronTrails (updateElectronTrails ?mid) = Some t'" for t'
  proof (cases "electronTrails ?mid")
    case None
    with t' show ?thesis by (simp add: updateElectronTrails_def)
  next
    case (Some t)
    from updateElectronTrails_length [OF Some] t'
    have "length (positions t') = length (positions t)" by auto
    moreover have "length (positions t) = length (electrons obj) * len"
      using Some assms by (simp add: electronTrails_animateAtom)
    ultimately show ?thesis
      by (simp add: electrons_updateElectronTrails electrons_animateAtom)
  qed
  with piv show ?thesis by blast
qed

lemma animateQuantumObject_lengths:
  assumes "electronCloud obj = Some c"
  shows "\<exists>c'. electronCloud (fst (animateQuantumObject obj g)) = Some c'
            \<and> length (electronAnimations c') = length (electronAnimations c)
            \<and> length (positions c') = length (positions c)"
  using assms
    animateElectrons_lengths [of "vx (scale (qNucleus obj))" 0 "electronAnimations c" "positions c" g]
  by (simp add: animateQuantumObject_def Let_def case_prod_beta)

lemma wellFormed_after_Quantum_object:
  assumes "\<forall>c. electronCloud obj = Some c \<longrightarrow>
             length (positions c) = length (electronAnimations c) * QUANTUM_TRAIL_LENGTH"
  shows "\<forall>c. electronCloud (fst (animateQuantumObject obj g)) = Some c \<longrightarrow>
             length (positions c) = length (electronAnimations c) * QUANTUM_TRAIL_LENGTH"
proof (cases "electronCloud obj")
  case None
  then show ?thesis by (simp add: animateQuantumObject_def Let_def)
next
  case (Some c)
  with assms have len: "length (positions c) = length (electronAnimations c) * QUANTUM_TRAIL_LENGTH"
    by simp
  from animateQuantumObject_lengths [OF Some, of g] len show ?thesis by auto
qed

lemma set_animateQuantumObjects:
  assumes "obj' \<in> set (fst (animateQuantumObjects objs g))"
  shows "\<exists>obj \<in> set objs. \<exists>g'. obj' = fst (animateQuantumObject obj g')"
proof -
  from assms obtain k where k: "k < length (fst (animateQuantumObjects objs g))"
    and obj': "obj' = fst (animateQuantumObjects objs g) ! k"
    by (auto simp: in_set_conv_nth)
  have "length (fst (animateQuantumObjects objs g)) = length objs"
    using arg_cong [OF qNuclei_animateQuantumObjects [of objs g], of length] by simp
  with k have k': "k < length objs" by simp
  from nth_animateQuantumObjects [OF k', of g]
  obtain g' where "obj' = fst (animateQuantumObject (objs ! k) g')"
    using obj' by auto
  moreover have "objs ! k \<in> set objs" using k' by (rule nth_mem)
  ultimately show ?thesis by blast
qed


lemma animate_without_nuclei:
  assumes "nucleiOf visualizationMode (fst sg) = []"
  shows "fst (animate eps visualizationMode bondingPairs st delta sg) = fst sg"
  using assms by (simp add: animate_def nucleiOf_def Let_def)

lemma animate_Bohr_objects:
  assumes "animatedObjects (fst sg) \<noteq> []"
  shows "animatedObjects (fst (animate eps Bohr bondingPairs st delta sg))
             = map updateElectronTrails
                 (map (animateAtom (animatedObjects (fst sg)) bondingPairs st delta)
                      (enumerate 0 (animatedObjects (fst sg))))"
    and "quantumObjects (fst (animate eps Bohr bondingPairs st delta sg)) = quantumObjects (fst sg)"
  using assms by (simp_all add: animate_def Let_def)

lemma animate_Quantum_objects:
  assumes "quantumObjects (fst sg) \<noteq> []"
  shows "quantumObjects (fst (animate eps Quantum bondingPairs st delta sg))
             = fst (animateQuantumObjects (quantumObjects (fst sg)) (snd sg))"
    and "animatedObjects (fst (animate eps Quantum bondingPairs st delta sg)) = animatedObjects (fst sg)"
  using assms by (simp_all add: animate_def Let_def case_prod_beta)


lemma in_enumerate_snd:
  assumes "x \<in> set (enumerate 0 xs)"
  shows "snd x \<in> set xs"
proof -
  from assms have a: "fst x < length xs" and b: "snd x = xs ! fst x"
    by (simp_all add: in_set_enumerate_eq)
  show ?thesis unfolding b using a by (rule nth_mem)
qed

lemma wellFormed_Bohr_objects:
  assumes "\<forall>obj \<in> set objs.
             length (electronPivots obj) = length (electrons obj)
             \<and> (\<forall>t. electronTrails obj = Some t \<longrightarrow> length (positions t) = length (electrons obj) * len)"
  shows "\<forall>obj' \<in> set (map updateElectronTrails
                          (map (animateAtom objs bondingPairs st delta) (enumerate 0 objs))).
           length (electronPivots obj') = length (electrons obj')
           \<and> (\<forall>t. electronTrails obj' = Some t \<longrightarrow> length (positions t) = length (electrons obj') * len)"
proof
  fix obj'
  assume "obj' \<in> set (map updateElectronTrails
                          (map (animateAtom objs bondingPairs st delta) (enumerate 0 objs)))"
  then obtain x where x: "x \<in> set (enumerate 0 objs)"
    and obj': "obj' = updateElectronTrails (animateAtom objs bondingPairs st delta x)"
    by auto
  have "snd x \<in> set objs" using x by (rule in_enumerate_snd)
  with assms have wf: "length (electronPivots (snd x)) = length (electrons (snd x))
             \<and> (\<forall>t. electronTrails (snd x) = Some t \<longrightarrow> length (positions t) = length (electrons (snd x)) * len)"
    by blast
  have "x = (fst x, snd x)" by simp
  then have "obj' = updateElectronTrails (animateAtom objs bondingPairs st delta (fst x, snd x))"
    using obj' by simp
  then show "length (electronPivots obj') = length (electrons obj')
           \<and> (\<forall>t. electronTrails obj' = Some t \<longrightarrow> length (positions t) = length (electrons obj') * len)"
    using wellFormed_after_Bohr_object [OF wf, of objs bondingPairs st delta "fst x"] by simp
qed

lemma wellFormed_Quantum_objects:
  assumes "\<forall>obj \<in> set objs. \<forall>c. electronCloud obj = Some c \<longrightarrow>
             length (positions c) = length (electronAnimations c) * QUANTUM_TRAIL_LENGTH"
  shows "\<forall>obj' \<in> set (fst (animateQuantumObjects objs g)). \<forall>c. electronCloud obj' = Some c \<longrightarrow>
             length (positions c) = length (electronAnimations c) * QUANTUM_TRAIL_LENGTH"
proof
  fix obj'
  assume "obj' \<in> set (fst (animateQuantumObjects objs g))"
  from set_animateQuantumObjects [OF this]
  obtain obj g' where obj: "obj \<in> set objs" and obj': "obj' = fst (animateQuantumObject obj g')"
    by blast
  from assms obj have "\<forall>c. electronCloud obj = Some c \<longrightarrow>
             length (positions c) = length (electronAnimations c) * QUANTUM_TRAIL_LENGTH"
    by blast
  then show "\<forall>c. electronCloud obj' = Some c \<longrightarrow>
             length (positions c) = length (electronAnimations c) * QUANTUM_TRAIL_LENGTH"
    unfolding obj' by (rule wellFormed_after_Quantum_object)
qed


lemma trailsWellFormed_animate:
  assumes "trailsWellFormed len (fst sg)"
  shows "trailsWellFormed len (fst (animate eps visualizationMode bondingPairs st delta sg))"
proof (cases "nucleiOf visualizationMode (fst sg) = []")
  case True
  then show ?thesis using assms by (simp add: animate_without_nuclei)
next
  case False
  from assms have A: "\<forall>obj \<in> set (animatedObjects (fst sg)).
         length (electronPivots obj) = length (electrons obj)
         \<and> (\<forall>t. electronTrails obj = Some t \<longrightarrow>
               length (positions t) = length (electrons obj) * len)"
    and Q: "\<forall>obj \<in> set (quantumObjects (fst sg)).
           \<forall>c. electronCloud obj = Some c \<longrightarrow>
             length (positions c) = length (electronAnimations c) * QUANTUM_TRAIL_LENGTH"
    unfolding trailsWellFormed_def by blast+
  show ?thesis
  proof (cases visualizationMode)
    case Bohr
    with False have ne: "animatedObjects (fst sg) \<noteq> []" by (simp add: nucleiOf_def)
    show ?thesis
      unfolding Bohr trailsWellFormed_def animate_Bohr_objects [OF ne]
      using wellFormed_Bohr_objects [OF A] Q by (intro conjI)
  next
    case Quantum
    with False have ne: "quantumObjects (fst sg) \<noteq> []" by (simp add: nucleiOf_def)
    show ?thesis
      unfolding Quantum trailsWellFormed_def animate_Quantum_objects [OF ne]
      using wellFormed_Quantum_objects [OF Q] A by (intro conjI)
  qed
qed

lemma trailsWellFormed_runTicks:
  assumes "trailsWellFormed len (fst sg)"
  shows "trailsWellFormed len (fst (runTicks eps ticks sg))"
  using assms
proof (induction ticks arbitrary: sg)
  case Nil
  then show ?case by simp
next
  case (Cons tick rest)
  have "trailsWellFormed len
          (fst (animate eps (loopMode (fst tick)) (loopBondingPairs (fst tick))
                  (fst (snd tick)) (snd (snd tick)) sg))"
    using Cons.prems by (rule trailsWellFormed_animate)
  then show ?case using Cons.IH by simp
qed


subsection \<open>The buffers hold single-precision numbers\<close>

lemma float32_setXYZ:
  assumes "\<forall>p \<in> set ps. float32Vector p = p"
  shows "\<forall>p \<in> set (setXYZ ps index (vx q) (vy q) (vz q)). float32Vector p = p"
proof
  fix p assume "p \<in> set (setXYZ ps index (vx q) (vy q) (vz q))"
  then have "p \<in> insert (float32Vector q) (set ps)"
    using set_update_subset_insert [of ps index "float32Vector q"]
    by (auto simp: setXYZ_vector)
  with assms show "float32Vector p = p"
    by (auto simp: float32Vector_idempotent)
qed

lemma float32_shiftTrail:
  assumes "\<forall>p \<in> set ps. float32Vector p = p"
  shows "\<forall>p \<in> set (shiftTrail start j ps). float32Vector p = p"
  using assms
proof (induction j arbitrary: ps)
  case 0
  then show ?case by simp
next
  case (Suc j)
  have "\<forall>p \<in> set (setXYZ ps (start + Suc j)
                      (vx (ps ! (start + Suc j - 1))) (vy (ps ! (start + Suc j - 1)))
                      (vz (ps ! (start + Suc j - 1)))). float32Vector p = p"
    using Suc.prems by (rule float32_setXYZ)
  then show ?case using Suc.IH by simp
qed

lemma float32_pushSample:
  assumes "\<forall>p \<in> set ps. float32Vector p = p"
  shows "\<forall>p \<in> set (pushSample len e q ps). float32Vector p = p"
  unfolding pushSample_def Let_def
  using assms by (intro float32_setXYZ float32_shiftTrail)

lemma float32_trail_fold:
  assumes "\<forall>p \<in> set ps. float32Vector p = p"
  shows "\<forall>p \<in> set (foldl (\<lambda>ps e. pushSample len e (w e) ps) ps es). float32Vector p = p"
  using assms
proof (induction es arbitrary: ps)
  case Nil
  then show ?case by simp
next
  case (Cons e es)
  have "\<forall>p \<in> set (pushSample len e (w e) ps). float32Vector p = p"
    using Cons.prems by (rule float32_pushSample)
  then show ?case using Cons.IH by simp
qed

lemma float32_updateElectronTrails:
  assumes "\<forall>t. electronTrails obj = Some t \<longrightarrow> (\<forall>p \<in> set (positions t). float32Vector p = p)"
  shows "\<forall>t. electronTrails (updateElectronTrails obj) = Some t \<longrightarrow>
           (\<forall>p \<in> set (positions t). float32Vector p = p)"
proof (cases "electronTrails obj")
  case None
  then show ?thesis by (simp add: updateElectronTrails_def)
next
  case (Some t)
  with assms have "\<forall>p \<in> set (positions t). float32Vector p = p" by simp
  then have "\<forall>p \<in> set (foldl (\<lambda>ps e. pushSample (length (positions t) div length (electrons obj)) e
                                   (electronWorldPosition obj e) ps)
                           (positions t) [0 ..< length (electrons obj)]). float32Vector p = p"
    by (rule float32_trail_fold)
  with Some assms show ?thesis
    by (simp add: updateElectronTrails_def Let_def)
qed

lemma float32_animateElectrons:
  assumes "\<forall>p \<in> set ps. float32Vector p = p"
  shows "\<forall>p \<in> set (fst (snd (animateElectrons sc e0 anims ps g))). float32Vector p = p"
  using assms
proof (induction anims arbitrary: e0 ps g)
  case Nil
  then show ?case by simp
next
  case (Cons anim rest)
  have "\<forall>p \<in> set (pushSample QUANTUM_TRAIL_LENGTH e0
                      (currentPosition (fst (stepElectron sc anim g))) ps). float32Vector p = p"
    using Cons.prems by (rule float32_pushSample)
  from Cons.IH [OF this] show ?case
    by (simp add: case_prod_beta Let_def)
qed

lemma float32_animateQuantumObject:
  assumes "\<forall>c. electronCloud obj = Some c \<longrightarrow> (\<forall>p \<in> set (positions c). float32Vector p = p)"
  shows "\<forall>c. electronCloud (fst (animateQuantumObject obj g)) = Some c \<longrightarrow>
           (\<forall>p \<in> set (positions c). float32Vector p = p)"
proof (cases "electronCloud obj")
  case None
  then show ?thesis by (simp add: animateQuantumObject_def Let_def)
next
  case (Some c)
  with assms have "\<forall>p \<in> set (positions c). float32Vector p = p" by simp
  then have "\<forall>p \<in> set (fst (snd (animateElectrons (vx (scale (qNucleus obj))) 0
                                      (electronAnimations c) (positions c) g))). float32Vector p = p"
    by (rule float32_animateElectrons)
  with Some show ?thesis
    by (simp add: animateQuantumObject_def Let_def case_prod_beta)
qed

lemma float32_Bohr_objects:
  assumes "\<forall>obj \<in> set objs.
             \<forall>t. electronTrails obj = Some t \<longrightarrow> (\<forall>p \<in> set (positions t). float32Vector p = p)"
  shows "\<forall>obj' \<in> set (map updateElectronTrails
                          (map (animateAtom objs bondingPairs st delta) (enumerate 0 objs))).
           \<forall>t. electronTrails obj' = Some t \<longrightarrow> (\<forall>p \<in> set (positions t). float32Vector p = p)"
proof
  fix obj'
  assume "obj' \<in> set (map updateElectronTrails
                          (map (animateAtom objs bondingPairs st delta) (enumerate 0 objs)))"
  then obtain x where x: "x \<in> set (enumerate 0 objs)"
    and obj': "obj' = updateElectronTrails (animateAtom objs bondingPairs st delta x)"
    by auto
  have "snd x \<in> set objs" using x by (rule in_enumerate_snd)
  with assms have "\<forall>t. electronTrails (snd x) = Some t \<longrightarrow>
                     (\<forall>p \<in> set (positions t). float32Vector p = p)"
    by blast
  then have "\<forall>t. electronTrails (animateAtom objs bondingPairs st delta x) = Some t \<longrightarrow>
                     (\<forall>p \<in> set (positions t). float32Vector p = p)"
    by (simp add: electronTrails_animateAtom)
  then show "\<forall>t. electronTrails obj' = Some t \<longrightarrow> (\<forall>p \<in> set (positions t). float32Vector p = p)"
    unfolding obj' by (rule float32_updateElectronTrails)
qed

lemma float32_Quantum_objects:
  assumes "\<forall>obj \<in> set objs.
             \<forall>c. electronCloud obj = Some c \<longrightarrow> (\<forall>p \<in> set (positions c). float32Vector p = p)"
  shows "\<forall>obj' \<in> set (fst (animateQuantumObjects objs g)).
           \<forall>c. electronCloud obj' = Some c \<longrightarrow> (\<forall>p \<in> set (positions c). float32Vector p = p)"
proof
  fix obj'
  assume "obj' \<in> set (fst (animateQuantumObjects objs g))"
  from set_animateQuantumObjects [OF this]
  obtain obj g' where obj: "obj \<in> set objs" and obj': "obj' = fst (animateQuantumObject obj g')"
    by blast
  from assms obj have "\<forall>c. electronCloud obj = Some c \<longrightarrow>
                         (\<forall>p \<in> set (positions c). float32Vector p = p)"
    by blast
  then show "\<forall>c. electronCloud obj' = Some c \<longrightarrow> (\<forall>p \<in> set (positions c). float32Vector p = p)"
    unfolding obj' by (rule float32_animateQuantumObject)
qed

lemma samplesAreFloat32_animate:
  assumes "samplesAreFloat32 (fst sg)"
  shows "samplesAreFloat32 (fst (animate eps visualizationMode bondingPairs st delta sg))"
proof (cases "nucleiOf visualizationMode (fst sg) = []")
  case True
  then show ?thesis using assms by (simp add: animate_without_nuclei)
next
  case False
  from assms have A: "\<forall>obj \<in> set (animatedObjects (fst sg)).
         \<forall>t. electronTrails obj = Some t \<longrightarrow> (\<forall>p \<in> set (positions t). float32Vector p = p)"
    and Q: "\<forall>obj \<in> set (quantumObjects (fst sg)).
         \<forall>c. electronCloud obj = Some c \<longrightarrow> (\<forall>p \<in> set (positions c). float32Vector p = p)"
    unfolding samplesAreFloat32_def by blast+
  show ?thesis
  proof (cases visualizationMode)
    case Bohr
    with False have ne: "animatedObjects (fst sg) \<noteq> []" by (simp add: nucleiOf_def)
    show ?thesis
      unfolding Bohr samplesAreFloat32_def animate_Bohr_objects [OF ne]
      using float32_Bohr_objects [OF A] Q by (intro conjI)
  next
    case Quantum
    with False have ne: "quantumObjects (fst sg) \<noteq> []" by (simp add: nucleiOf_def)
    show ?thesis
      unfolding Quantum samplesAreFloat32_def animate_Quantum_objects [OF ne]
      using float32_Quantum_objects [OF Q] A by (intro conjI)
  qed
qed

lemma samplesAreFloat32_runTicks:
  assumes "samplesAreFloat32 (fst sg)"
  shows "samplesAreFloat32 (fst (runTicks eps ticks sg))"
  using assms
proof (induction ticks arbitrary: sg)
  case Nil
  then show ?case by simp
next
  case (Cons tick rest)
  have "samplesAreFloat32
          (fst (animate eps (loopMode (fst tick)) (loopBondingPairs (fst tick))
                  (fst (snd tick)) (snd (snd tick)) sg))"
    using Cons.prems by (rule samplesAreFloat32_animate)
  then show ?case using Cons.IH by simp
qed


subsection \<open>The buffers that the builders allocate\<close>

lemma length_initial_samples:
  "length (concat (map (\<lambda>(electronIndex, electron). replicate len (f electronIndex electron))
                       (enumerate k els)))
     = length els * len"
  by (induction els arbitrary: k) simp_all

lemma createAtomModel_wellFormed:
  "length (electronPivots (createAtomModel atom pos trailLength trailOpacity))
     = length (electrons (createAtomModel atom pos trailLength trailOpacity))
   \<and> (\<forall>t. electronTrails (createAtomModel atom pos trailLength trailOpacity) = Some t \<longrightarrow>
         length (positions t)
           = length (electrons (createAtomModel atom pos trailLength trailOpacity)) * nat trailLength)"
  by (simp add: createAtomModel_def Let_def initialTrail_def length_initial_samples)

lemma length_newElectronAnimations:
  "length (fst (newElectronAnimations atomScale ks g)) = length ks"
  by (induction ks arbitrary: g) (simp_all add: case_prod_beta Let_def)

lemma length_cloud_samples:
  "length (concat (map (\<lambda>anim. replicate len (f anim)) anims)) = length anims * len"
  by (induction anims) simp_all

lemma createQuantumAtomModel_wellFormed:
  "\<forall>c. electronCloud (fst (createQuantumAtomModel atom pos g)) = Some c \<longrightarrow>
         length (positions c) = length (electronAnimations c) * QUANTUM_TRAIL_LENGTH"
  by (simp add: createQuantumAtomModel_def Let_def case_prod_beta length_cloud_samples)

lemma createQuantumAtomModels_wellFormed:
  "\<forall>obj \<in> set (fst (createQuantumAtomModels atomPositions ias g)).
     \<forall>c. electronCloud obj = Some c \<longrightarrow>
         length (positions c) = length (electronAnimations c) * QUANTUM_TRAIL_LENGTH"
proof (induction ias arbitrary: g)
  case Nil
  then show ?case by simp
next
  case (Cons ia rest)
  show ?case
    using createQuantumAtomModel_wellFormed [of "snd ia" "positionOfAtom atomPositions (fst ia)" g]
      Cons.IH [of "snd (createQuantumAtomModel (snd ia) (positionOfAtom atomPositions (fst ia)) g)"]
    by (simp add: case_prod_beta Let_def)
qed

lemma trailsWellFormed_rebuild:
  "trailsWellFormed (nat trailLength)
     (fst (rebuild atoms atomPositions bondingPairs visualizationMode trailLength trailOpacity g))"
proof (cases visualizationMode)
  case Bohr
  show ?thesis
    unfolding Bohr trailsWellFormed_def
    using createAtomModel_wellFormed
    by (auto simp: rebuild_def)
next
  case Quantum
  show ?thesis
    unfolding Quantum trailsWellFormed_def
    using createQuantumAtomModels_wellFormed [of atomPositions "enumerate 0 atoms" g]
    by (simp add: rebuild_def case_prod_beta Let_def)
qed

lemma createAtomModel_float32:
  "\<forall>t. electronTrails (createAtomModel atom pos trailLength trailOpacity) = Some t \<longrightarrow>
         (\<forall>p \<in> set (positions t). float32Vector p = p)"
  by (auto simp: createAtomModel_def Let_def initialTrail_def float32Vector_idempotent)

lemma createQuantumAtomModel_float32:
  "\<forall>c. electronCloud (fst (createQuantumAtomModel atom pos g)) = Some c \<longrightarrow>
         (\<forall>p \<in> set (positions c). float32Vector p = p)"
  by (auto simp: createQuantumAtomModel_def Let_def case_prod_beta float32Vector_idempotent)

lemma createQuantumAtomModels_float32:
  "\<forall>obj \<in> set (fst (createQuantumAtomModels atomPositions ias g)).
     \<forall>c. electronCloud obj = Some c \<longrightarrow> (\<forall>p \<in> set (positions c). float32Vector p = p)"
proof (induction ias arbitrary: g)
  case Nil
  then show ?case by simp
next
  case (Cons ia rest)
  show ?case
    using createQuantumAtomModel_float32 [of "snd ia" "positionOfAtom atomPositions (fst ia)" g]
      Cons.IH [of "snd (createQuantumAtomModel (snd ia) (positionOfAtom atomPositions (fst ia)) g)"]
    by (simp add: case_prod_beta Let_def)
qed

lemma samplesAreFloat32_rebuild:
  "samplesAreFloat32
     (fst (rebuild atoms atomPositions bondingPairs visualizationMode trailLength trailOpacity g))"
proof (cases visualizationMode)
  case Bohr
  show ?thesis
    unfolding Bohr samplesAreFloat32_def
    using createAtomModel_float32
    by (auto simp: rebuild_def)
next
  case Quantum
  show ?thesis
    unfolding Quantum samplesAreFloat32_def
    using createQuantumAtomModels_float32 [of atomPositions "enumerate 0 atoms" g]
    by (simp add: rebuild_def case_prod_beta Let_def)
qed

text \<open>
  Claim C2, as amended. After a rebuild and any number of ticks of any loops, every trail
  buffer holds exactly its fixed number of samples per electron (the trail length in the
  Bohr model, the constant 15 in the orbital model), each of them a triple of
  single-precision numbers; a tick keeps that. In a tick of a loop that captured the
  Bohr mode, for every electron of the Bohr model with a trail buffer, slot 0 then holds
  the electron's world position as the array stores it, rounded to single precision, and
  every later slot \<open>i\<close> holds the sample that slot \<open>i - 1\<close> held before the tick, whether
  or not the electron moved. In a tick of a loop that captured the Quantum mode the slots
  of the orbital model shift in the same way and slot 0 holds, rounded to single
  precision, the electron's current position relative to its nucleus: the cloud object is
  placed on the nucleus, and its samples are positions inside it. Nothing is said of the
  contents of a buffer after a tick of a loop that captured the other mode.
\<close>

theorem trail_buffers_shift:
  "trailsWellFormed (nat trailLength)
     (fst (runTicks eps ticks
             (rebuild atoms atomPositions bondingPairs' visualizationMode' trailLength trailOpacity g0)))
   \<and> samplesAreFloat32
     (fst (runTicks eps ticks
             (rebuild atoms atomPositions bondingPairs' visualizationMode' trailLength trailOpacity g0)))
   \<and> (trailsWellFormed len scene \<longrightarrow>
        trailsWellFormed len (fst (animate eps visualizationMode bondingPairs st delta (scene, g))))
   \<and> (samplesAreFloat32 scene \<longrightarrow>
        samplesAreFloat32 (fst (animate eps visualizationMode bondingPairs st delta (scene, g))))
   \<and> (\<forall>k t. k < length (animatedObjects scene)
         \<and> electronTrails (animatedObjects scene ! k) = Some t
         \<and> 0 < len
         \<and> length (positions t) = length (electrons (animatedObjects scene ! k)) * len
         \<and> (\<forall>p \<in> set (positions t). float32Vector p = p)
        \<longrightarrow> (\<exists>t'. electronTrails (animatedObjects (fst (animate eps Bohr bondingPairs st delta (scene, g))) ! k)
                     = Some t'
                \<and> length (positions t') = length (positions t)
                \<and> electrons (animatedObjects (fst (animate eps Bohr bondingPairs st delta (scene, g))) ! k)
                    = electrons (animatedObjects scene ! k)
                \<and> (\<forall>e < length (electrons (animatedObjects scene ! k)).
                      positions t' ! (e * len)
                        = float32Vector
                            (electronWorldPosition
                               (animatedObjects (fst (animate eps Bohr bondingPairs st delta (scene, g))) ! k) e)
                      \<and> (\<forall>i. 1 \<le> i \<and> i < len \<longrightarrow>
                            positions t' ! (e * len + i) = positions t ! (e * len + i - 1)))))
   \<and> (\<forall>k c. k < length (quantumObjects scene)
         \<and> electronCloud (quantumObjects scene ! k) = Some c
         \<and> length (positions c) = length (electronAnimations c) * QUANTUM_TRAIL_LENGTH
         \<and> (\<forall>p \<in> set (positions c). float32Vector p = p)
        \<longrightarrow> (\<exists>c'. electronCloud (quantumObjects (fst (animate eps Quantum bondingPairs st delta (scene, g))) ! k)
                     = Some c'
                \<and> position c' = position (qNucleus (quantumObjects scene ! k))
                \<and> length (electronAnimations c') = length (electronAnimations c)
                \<and> length (positions c') = length (positions c)
                \<and> (\<forall>e < length (electronAnimations c).
                      positions c' ! (e * QUANTUM_TRAIL_LENGTH)
                        = float32Vector (currentPosition (electronAnimations c' ! e))
                      \<and> (\<forall>i. 1 \<le> i \<and> i < QUANTUM_TRAIL_LENGTH \<longrightarrow>
                            positions c' ! (e * QUANTUM_TRAIL_LENGTH + i)
                              = positions c ! (e * QUANTUM_TRAIL_LENGTH + i - 1)))))"
proof (intro conjI allI impI)
  show "trailsWellFormed (nat trailLength)
     (fst (runTicks eps ticks
             (rebuild atoms atomPositions bondingPairs' visualizationMode' trailLength trailOpacity g0)))"
    by (intro trailsWellFormed_runTicks trailsWellFormed_rebuild)
next
  show "samplesAreFloat32
     (fst (runTicks eps ticks
             (rebuild atoms atomPositions bondingPairs' visualizationMode' trailLength trailOpacity g0)))"
    by (intro samplesAreFloat32_runTicks samplesAreFloat32_rebuild)
next
  assume "trailsWellFormed len scene"
  then have "trailsWellFormed len (fst (scene, g))" by simp
  then show "trailsWellFormed len (fst (animate eps visualizationMode bondingPairs st delta (scene, g)))"
    by (rule trailsWellFormed_animate)
next
  assume "samplesAreFloat32 scene"
  then have "samplesAreFloat32 (fst (scene, g))" by simp
  then show "samplesAreFloat32 (fst (animate eps visualizationMode bondingPairs st delta (scene, g)))"
    by (rule samplesAreFloat32_animate)
next
  fix k t
  assume "k < length (animatedObjects scene)
         \<and> electronTrails (animatedObjects scene ! k) = Some t
         \<and> 0 < len
         \<and> length (positions t) = length (electrons (animatedObjects scene ! k)) * len
         \<and> (\<forall>p \<in> set (positions t). float32Vector p = p)"
  then show "\<exists>t'. electronTrails (animatedObjects (fst (animate eps Bohr bondingPairs st delta (scene, g))) ! k)
                     = Some t'
                \<and> length (positions t') = length (positions t)
                \<and> electrons (animatedObjects (fst (animate eps Bohr bondingPairs st delta (scene, g))) ! k)
                    = electrons (animatedObjects scene ! k)
                \<and> (\<forall>e < length (electrons (animatedObjects scene ! k)).
                      positions t' ! (e * len)
                        = float32Vector
                            (electronWorldPosition
                               (animatedObjects (fst (animate eps Bohr bondingPairs st delta (scene, g))) ! k) e)
                      \<and> (\<forall>i. 1 \<le> i \<and> i < len \<longrightarrow>
                            positions t' ! (e * len + i) = positions t ! (e * len + i - 1)))"
    by (intro bohr_trail_after_tick) simp_all
next
  fix k c
  assume "k < length (quantumObjects scene)
         \<and> electronCloud (quantumObjects scene ! k) = Some c
         \<and> length (positions c) = length (electronAnimations c) * QUANTUM_TRAIL_LENGTH
         \<and> (\<forall>p \<in> set (positions c). float32Vector p = p)"
  then show "\<exists>c'. electronCloud (quantumObjects (fst (animate eps Quantum bondingPairs st delta (scene, g))) ! k)
                     = Some c'
                \<and> position c' = position (qNucleus (quantumObjects scene ! k))
                \<and> length (electronAnimations c') = length (electronAnimations c)
                \<and> length (positions c') = length (positions c)
                \<and> (\<forall>e < length (electronAnimations c).
                      positions c' ! (e * QUANTUM_TRAIL_LENGTH)
                        = float32Vector (currentPosition (electronAnimations c' ! e))
                      \<and> (\<forall>i. 1 \<le> i \<and> i < QUANTUM_TRAIL_LENGTH \<longrightarrow>
                            positions c' ! (e * QUANTUM_TRAIL_LENGTH + i)
                              = positions c ! (e * QUANTUM_TRAIL_LENGTH + i - 1)))"
    by (intro quantum_trail_after_tick) simp_all
qed


section \<open>The example scenes\<close>

lemma nucleus_createAtomModel:
  "nucleus (createAtomModel atom pos trailLength trailOpacity) = newNucleus (atomScaleOf atom) pos"
  by (simp add: createAtomModel_def Let_def)

lemma position_newNucleus: "position (newNucleus atomScale pos) = pos"
  by (simp add: newNucleus_def)

lemma hydrogen_model:
  "length (electrons (createAtomModel hydrogen pos 2 1)) = 1"
  "length (electronPivots (createAtomModel hydrogen pos 2 1)) = 1"
  "electronTrails (createAtomModel hydrogen pos 2 1) \<noteq> None"
  by (simp_all add: createAtomModel_def Let_def hydrogen_def shellElectrons_def)

lemma twoHydrogens_Bohr:
  "animatedObjects (fst (twoHydrogens Bohr))
     = [createAtomModel hydrogen (Vector3 0 0 0) 2 1, createAtomModel hydrogen (Vector3 2 0 0) 2 1]"
  "bonds (fst (twoHydrogens Bohr)) = [newBondGroup (mkBond 0 1 1)]"
  by (simp_all add: twoHydrogens_def rebuild_def positionOfAtom_def arrayAt_def
      createBondGroups_def mkBond_def)

lemma danglingBond_scene:
  "animatedObjects (fst danglingBond)
     = [createAtomModel hydrogen (Vector3 0 0 0) 2 1, createAtomModel hydrogen (Vector3 2 0 0) 2 1]"
  "bonds (fst danglingBond) = [newBondGroup (mkBond (- 1) 0 1)]"
  by (simp_all add: danglingBond_def rebuild_def positionOfAtom_def arrayAt_def
      createBondGroups_def mkBond_def)

lemma twoHydrogens_Quantum:
  "length (quantumObjects (fst (twoHydrogens Quantum))) = 2"
  "electronCloud (quantumObjects (fst (twoHydrogens Quantum)) ! 0) \<noteq> None"
proof -
  have c: "parseElectronConfiguration ''1s1'' = [(''1s'', 1)]" by code_simp
  show "length (quantumObjects (fst (twoHydrogens Quantum))) = 2"
    by (simp add: twoHydrogens_def rebuild_def case_prod_beta Let_def)
  show "electronCloud (quantumObjects (fst (twoHydrogens Quantum)) ! 0) \<noteq> None"
    by (simp add: twoHydrogens_def rebuild_def case_prod_beta Let_def
        createQuantumAtomModel_def hydrogen_def c)
qed

lemma twoHydrogens_Quantum_cloud:
  "length (electronAnimations (the (electronCloud (quantumObjects (fst (twoHydrogens Quantum)) ! 0)))) = 1"
proof -
  have c: "parseElectronConfiguration ''1s1'' = [(''1s'', 1)]" by code_simp
  show ?thesis
    by (simp add: twoHydrogens_def rebuild_def case_prod_beta Let_def
        createQuantumAtomModel_def hydrogen_def c length_newElectronAnimations)
qed

theorem bond_pose_update_witness:
  "map opacity (cylinders (bonds (fst (animate (1 / 1000000) Bohr [mkBond 0 1 1]
        \<lparr>speed = 1, bondingProgress = 1 / 2\<rparr> (1 / 60) (twoHydrogens Bohr))) ! 0)) = [1 / 2]
   \<and> position (bonds (fst (animate (1 / 1000000) Bohr [mkBond 0 1 1]
        \<lparr>speed = 1, bondingProgress = 1 / 2\<rparr> (1 / 60) (twoHydrogens Bohr))) ! 0) = Vector3 1 0 0
   \<and> scale (bonds (fst (animate (1 / 1000000) Bohr [mkBond 0 1 1]
        \<lparr>speed = 1, bondingProgress = 1 / 2\<rparr> (1 / 60) (twoHydrogens Bohr))) ! 0) = Vector3 1 2 1
   \<and> visible (bonds (fst (animate (1 / 1000000) Bohr [mkBond 0 1 1]
        \<lparr>speed = 1, bondingProgress = 1 / 2\<rparr> (1 / 60) (twoHydrogens Bohr))) ! 0)
   \<and> applyRotation (quaternion (bonds (fst (animate (1 / 1000000) Bohr [mkBond 0 1 1]
        \<lparr>speed = 1, bondingProgress = 1 / 2\<rparr> (1 / 60) (twoHydrogens Bohr))) ! 0)) bondUpVector
       = Vector3 1 0 0"
proof -
  let ?scene = "fst (twoHydrogens Bohr)"
  let ?a = "newNucleus (atomScaleOf hydrogen) (Vector3 0 0 0)"
  let ?b = "newNucleus (atomScaleOf hydrogen) (Vector3 2 0 0)"
  have nuclei: "nucleiOf Bohr ?scene = [?a, ?b]"
    by (simp add: nucleiOf_def twoHydrogens_Bohr nucleus_createAtomModel)
  have two: "1 < length (nucleiOf Bohr ?scene)" by (simp add: nuclei)
  have j: "0 < length (bonds ?scene)" by (simp add: twoHydrogens_Bohr)
  have pair: "bondPair (bonds ?scene ! 0) = (0, 1)"
    by (simp add: twoHydrogens_Bohr newBondGroup_def mkBond_def)
  have a: "arrayAt (nucleiOf Bohr ?scene) (fst (bondPair (bonds ?scene ! 0))) = Some ?a"
    and b: "arrayAt (nucleiOf Bohr ?scene) (snd (bondPair (bonds ?scene ! 0))) = Some ?b"
    by (simp_all add: pair nuclei arrayAt_def)
  have len: "vlength (Vector3 2 0 0) = 2" by (simp add: vlength_def)
  have dir: "normalize_v (subVectors (Vector3 2 0 0) (Vector3 0 0 0)) = Vector3 1 0 0"
    by (simp add: subVectors_def normalize_v_def divideScalar_def multiplyScalar_def len)
  have dist: "distanceTo (Vector3 0 0 0) (Vector3 2 0 0) = 2"
    by (simp add: distanceTo_def subVectors_def vlength_def)
  have cyl: "length (cylinders (bonds ?scene ! 0)) = 1"
    by (simp add: twoHydrogens_Bohr newBondGroup_def mkBond_def)
  from bond_pose_update [OF two j, of "1 / 1000000" "[mkBond 0 1 1]"
      "\<lparr>speed = 1, bondingProgress = 1 / 2\<rparr>" "1 / 60" "snd (twoHydrogens Bohr)"] a b
  show ?thesis
    by (auto simp add: position_newNucleus dir dist cyl spec_midpoint_def)
qed

text \<open>
  A bond whose first index is \<open>-1\<close> gets a bond group in the rebuild, and the tick
  leaves that group invisible.
\<close>

lemma dangling_bond_tick:
  "length (bonds (fst danglingBond)) = 1
   \<and> length (nucleiOf Bohr (fst danglingBond)) = 2
   \<and> \<not> visible (bonds (fst (animate (1 / 1000000) Bohr [mkBond (- 1) 0 1]
          \<lparr>speed = 1, bondingProgress = 1\<rparr> (1 / 60) danglingBond)) ! 0)"
proof -
  let ?scene = "fst danglingBond"
  have nuclei: "length (nucleiOf Bohr ?scene) = 2"
    by (simp add: nucleiOf_def danglingBond_scene)
  then have two: "1 < length (nucleiOf Bohr ?scene)" by simp
  have "bonds (fst (animate (1 / 1000000) Bohr [mkBond (- 1) 0 1]
          \<lparr>speed = 1, bondingProgress = 1\<rparr> (1 / 60) (?scene, snd danglingBond)))
        = map (updateBond (1 / 1000000) (nucleiOf Bohr ?scene) 1) (bonds ?scene)"
    using bonds_animate [OF two, of "1 / 1000000" "[mkBond (- 1) 0 1]"
        "\<lparr>speed = 1, bondingProgress = 1\<rparr>" "1 / 60" "snd danglingBond"]
    by simp
  then have "\<not> visible (bonds (fst (animate (1 / 1000000) Bohr [mkBond (- 1) 0 1]
          \<lparr>speed = 1, bondingProgress = 1\<rparr> (1 / 60) danglingBond)) ! 0)"
    by (simp add: danglingBond_scene updateBond_def newBondGroup_def mkBond_def arrayAt_def Let_def)
  with nuclei show ?thesis by (simp add: danglingBond_scene)
qed

theorem quantum_tick_ignores_speed_witness:
  "speed (updateAnimationState 5 (1 / 2) Quantum) = 0
   \<and> animate (1 / 1000000) Quantum [mkBond 0 1 1] \<lparr>speed = 3, bondingProgress = 1 / 2\<rparr> (1 / 60)
        (twoHydrogens Quantum)
     = animate (1 / 1000000) Quantum [mkBond 0 1 1] \<lparr>speed = 7, bondingProgress = 1 / 2\<rparr> (1 / 60)
        (twoHydrogens Quantum)"
  using quantum_tick_ignores_speed [where visualizationMode = Quantum and electronSpeed = 5
      and bp = "1 / 2" and eps = "1 / 1000000" and bondingPairs = "[mkBond 0 1 1]"
      and st = "\<lparr>speed = 1, bondingProgress = 1 / 2\<rparr>" and s = 3 and s' = 7
      and delta = "1 / 60" and sg = "twoHydrogens Quantum"]
  by simp

theorem trail_buffers_shift_witness:
  "trailsWellFormed 2 (fst (twoHydrogens Bohr))
   \<and> samplesAreFloat32 (fst (twoHydrogens Bohr))
   \<and> length (positions (the (electronTrails (animatedObjects (fst (animate (1 / 1000000) Bohr [mkBond 0 1 1]
        \<lparr>speed = 1, bondingProgress = 1 / 2\<rparr> (1 / 60) (twoHydrogens Bohr))) ! 0)))) = 2
   \<and> positions (the (electronTrails (animatedObjects (fst (animate (1 / 1000000) Bohr [mkBond 0 1 1]
        \<lparr>speed = 1, bondingProgress = 1 / 2\<rparr> (1 / 60) (twoHydrogens Bohr))) ! 0))) ! 0
       = float32Vector (electronWorldPosition (animatedObjects (fst (animate (1 / 1000000) Bohr [mkBond 0 1 1]
        \<lparr>speed = 1, bondingProgress = 1 / 2\<rparr> (1 / 60) (twoHydrogens Bohr))) ! 0) 0)
   \<and> positions (the (electronTrails (animatedObjects (fst (animate (1 / 1000000) Bohr [mkBond 0 1 1]
        \<lparr>speed = 1, bondingProgress = 1 / 2\<rparr> (1 / 60) (twoHydrogens Bohr))) ! 0))) ! 1
       = positions (the (electronTrails (animatedObjects (fst (twoHydrogens Bohr)) ! 0))) ! 0
   \<and> positions (the (electronCloud (quantumObjects (fst (animate (1 / 1000000) Quantum [mkBond 0 1 1]
        \<lparr>speed = 0, bondingProgress = 1 / 2\<rparr> (1 / 60) (twoHydrogens Quantum))) ! 0))) ! 0
       = float32Vector (currentPosition (electronAnimations (the (electronCloud (quantumObjects
           (fst (animate (1 / 1000000) Quantum [mkBond 0 1 1] \<lparr>speed = 0, bondingProgress = 1 / 2\<rparr>
              (1 / 60) (twoHydrogens Quantum))) ! 0))) ! 0))
   \<and> positions (the (electronCloud (quantumObjects (fst (animate (1 / 1000000) Quantum [mkBond 0 1 1]
        \<lparr>speed = 0, bondingProgress = 1 / 2\<rparr> (1 / 60) (twoHydrogens Quantum))) ! 0))) ! 1
       = positions (the (electronCloud (quantumObjects (fst (twoHydrogens Quantum)) ! 0))) ! 0"
proof -
  let ?B = "fst (twoHydrogens Bohr)" and ?Q = "fst (twoHydrogens Quantum)"
  let ?st = "\<lparr>speed = 1, bondingProgress = 1 / 2\<rparr>" and ?rest = "\<lparr>speed = 0, bondingProgress = 1 / 2\<rparr>"
  let ?B' = "fst (animate (1 / 1000000) Bohr [mkBond 0 1 1] ?st (1 / 60) (twoHydrogens Bohr))"
  let ?Q' = "fst (animate (1 / 1000000) Quantum [mkBond 0 1 1] ?rest (1 / 60) (twoHydrogens Quantum))"
  note T = trail_buffers_shift [where eps = "1 / 1000000" and bondingPairs = "[mkBond 0 1 1]"
      and delta = "1 / 60" and ticks = "[]" and atoms = "[hydrogen, hydrogen]"
      and atomPositions = "[Vector3 0 0 0, Vector3 2 0 0]" and bondingPairs' = "[mkBond 0 1 1]"
      and trailLength = 2 and trailOpacity = 1 and ?g0.0 = zeroDraws and len = 2]
  note TB = T [where visualizationMode' = Bohr and scene = ?B and g = "snd (twoHydrogens Bohr)"
      and st = ?st]
  note TQ = T [where visualizationMode' = Quantum and scene = ?Q and g = "snd (twoHydrogens Quantum)"
      and st = ?rest]
  have wfB: "trailsWellFormed 2 ?B" and fB: "samplesAreFloat32 ?B"
    using TB by (simp_all add: twoHydrogens_def)
  have wfQ: "trailsWellFormed 2 ?Q" and fQ: "samplesAreFloat32 ?Q"
    using TQ by (simp_all add: twoHydrogens_def)
  obtain t where t: "electronTrails (animatedObjects ?B ! 0) = Some t"
    using hydrogen_model(3) by (auto simp: twoHydrogens_Bohr)
  have kB: "0 < length (animatedObjects ?B)" by (simp add: twoHydrogens_Bohr)
  have nB: "length (electrons (animatedObjects ?B ! 0)) = 1"
    by (simp add: twoHydrogens_Bohr hydrogen_model)
  have inB: "animatedObjects ?B ! 0 \<in> set (animatedObjects ?B)" using kB by (rule nth_mem)
  with wfB t have lt: "length (positions t) = length (electrons (animatedObjects ?B ! 0)) * 2"
    unfolding trailsWellFormed_def by blast
  from inB fB t have ft: "\<forall>p \<in> set (positions t). float32Vector p = p"
    unfolding samplesAreFloat32_def by blast
  obtain c where c: "electronCloud (quantumObjects ?Q ! 0) = Some c"
    using twoHydrogens_Quantum(2) by auto
  have kQ: "0 < length (quantumObjects ?Q)" by (simp add: twoHydrogens_Quantum)
  have inQ: "quantumObjects ?Q ! 0 \<in> set (quantumObjects ?Q)" using kQ by (rule nth_mem)
  with wfQ c have lc: "length (positions c) = length (electronAnimations c) * QUANTUM_TRAIL_LENGTH"
    unfolding trailsWellFormed_def by blast
  from inQ fQ c have fc: "\<forall>p \<in> set (positions c). float32Vector p = p"
    unfolding samplesAreFloat32_def by blast
  have nQ: "length (electronAnimations c) = 1"
    using twoHydrogens_Quantum_cloud c by simp
  from TB have "\<forall>k t. k < length (animatedObjects ?B)
         \<and> electronTrails (animatedObjects ?B ! k) = Some t
         \<and> 0 < (2::nat)
         \<and> length (positions t) = length (electrons (animatedObjects ?B ! k)) * 2
         \<and> (\<forall>p \<in> set (positions t). float32Vector p = p)
        \<longrightarrow> (\<exists>t'. electronTrails (animatedObjects ?B' ! k) = Some t'
                \<and> length (positions t') = length (positions t)
                \<and> electrons (animatedObjects ?B' ! k) = electrons (animatedObjects ?B ! k)
                \<and> (\<forall>e < length (electrons (animatedObjects ?B ! k)).
                      positions t' ! (e * 2)
                        = float32Vector (electronWorldPosition (animatedObjects ?B' ! k) e)
                      \<and> (\<forall>i. 1 \<le> i \<and> i < 2 \<longrightarrow>
                            positions t' ! (e * 2 + i) = positions t ! (e * 2 + i - 1))))"
    by simp
  with kB t lt ft obtain t' where t': "electronTrails (animatedObjects ?B' ! 0) = Some t'"
    and lt': "length (positions t') = length (positions t)"
    and sB: "\<forall>e < length (electrons (animatedObjects ?B ! 0)).
                      positions t' ! (e * 2)
                        = float32Vector (electronWorldPosition (animatedObjects ?B' ! 0) e)
                      \<and> (\<forall>i. 1 \<le> i \<and> i < 2 \<longrightarrow>
                            positions t' ! (e * 2 + i) = positions t ! (e * 2 + i - 1))"
    by (metis zero_less_numeral)
  from sB nB have b0: "positions t' ! 0 = float32Vector (electronWorldPosition (animatedObjects ?B' ! 0) 0)"
    and b1: "positions t' ! 1 = positions t ! 0"
    by force+
  from TQ have "\<forall>k c. k < length (quantumObjects ?Q)
         \<and> electronCloud (quantumObjects ?Q ! k) = Some c
         \<and> length (positions c) = length (electronAnimations c) * QUANTUM_TRAIL_LENGTH
         \<and> (\<forall>p \<in> set (positions c). float32Vector p = p)
        \<longrightarrow> (\<exists>c'. electronCloud (quantumObjects ?Q' ! k) = Some c'
                \<and> position c' = position (qNucleus (quantumObjects ?Q ! k))
                \<and> length (electronAnimations c') = length (electronAnimations c)
                \<and> length (positions c') = length (positions c)
                \<and> (\<forall>e < length (electronAnimations c).
                      positions c' ! (e * QUANTUM_TRAIL_LENGTH)
                        = float32Vector (currentPosition (electronAnimations c' ! e))
                      \<and> (\<forall>i. 1 \<le> i \<and> i < QUANTUM_TRAIL_LENGTH \<longrightarrow>
                            positions c' ! (e * QUANTUM_TRAIL_LENGTH + i)
                              = positions c ! (e * QUANTUM_TRAIL_LENGTH + i - 1))))"
    by simp
  with kQ c lc fc obtain c' where c': "electronCloud (quantumObjects ?Q' ! 0) = Some c'"
    and sQ: "\<forall>e < length (electronAnimations c).
                      positions c' ! (e * QUANTUM_TRAIL_LENGTH)
                        = float32Vector (currentPosition (electronAnimations c' ! e))
                      \<and> (\<forall>i. 1 \<le> i \<and> i < QUANTUM_TRAIL_LENGTH \<longrightarrow>
                            positions c' ! (e * QUANTUM_TRAIL_LENGTH + i)
                              = positions c ! (e * QUANTUM_TRAIL_LENGTH + i - 1))"
    by metis
  have "(1::nat) \<le> 1 \<and> 1 < QUANTUM_TRAIL_LENGTH" by (simp add: QUANTUM_TRAIL_LENGTH_def)
  with sQ nQ have q0: "positions c' ! 0 = float32Vector (currentPosition (electronAnimations c' ! 0))"
    and q1: "positions c' ! 1 = positions c ! 0"
    by force+
  from wfB fB t t' lt lt' nB b0 b1 c c' q0 q1 show ?thesis by simp
qed

section \<open>Renders, loops and frames\<close>

lemma animate_emptyScene: "animate eps m bs st delta (emptyScene, g) = (emptyScene, g)"
  by (simp add: animate_def emptyScene_def Let_def)

lemma applyTrailOpacity_emptyScene: "applyTrailOpacity m op emptyScene = emptyScene"
  by (simp add: applyTrailOpacity_def emptyScene_def)

lemma mount_eq:
  "mount eps r g =
     \<lparr>loops = [\<lparr>loopMode = visualizationModeProp (props r), loopBondingPairs = bondingPairsValue r\<rparr>],
      animationState =
        updateAnimationState (electronSpeedProp (props r)) (bondingProgressProp (props r))
          (visualizationModeProp (props r)),
      sceneAndSource =
        rebuild (atomsValue r) (atomPositionsValue r) (bondingPairsValue r)
          (visualizationModeProp (props r)) (trailLengthProp (props r))
          (trailOpacityProp (props r)) g\<rparr>"
  by (simp add: mount_def rebuildEffect_def trailOpacityEffect_def startLoop_def
      animationStateEffect_def animate_emptyScene applyTrailOpacity_emptyScene)

lemma loops_rerender:
  "loops (rerender eps before after v)
     = (if initRuns (props before) (props after)
        then loops v @ [\<lparr>loopMode = visualizationModeProp (props after),
                         loopBondingPairs = bondingPairsValue after\<rparr>]
        else loops v)"
  by (simp add: rerender_def Let_def rebuildEffect_def trailOpacityEffect_def startLoop_def
      animationStateEffect_def)

lemma animationState_rerender:
  "animationState (rerender eps before after v)
     = (if animationStateDeps (props before) \<noteq> animationStateDeps (props after)
        then updateAnimationState (electronSpeedProp (props after))
               (bondingProgressProp (props after)) (visualizationModeProp (props after))
        else animationState v)"
  by (simp add: rerender_def Let_def rebuildEffect_def trailOpacityEffect_def startLoop_def
      animationStateEffect_def)

lemma scene_rerender:
  assumes "rebuildRuns (props before) (props after)"
  shows "\<exists>g. sceneAndSource (rerender eps before after v)
           = rebuild (atomsValue after) (atomPositionsValue after) (bondingPairsValue after)
               (visualizationModeProp (props after)) (trailLengthProp (props after))
               (trailOpacityProp (props after)) g"
  using assms
  by (simp add: rerender_def Let_def rebuildEffect_def del: split_paired_Ex split del: if_split)
     (rule exI, rule refl)

lemma rebuild_Bohr_scene:
  "fst (rebuild atoms atomPositions bondingPairs Bohr trailLength trailOpacity g)
     = fst (rebuild atoms atomPositions bondingPairs Bohr trailLength trailOpacity g0)"
  by (simp add: rebuild_def)

lemma rebuild_Bohr_source:
  "snd (rebuild atoms atomPositions bondingPairs Bohr trailLength trailOpacity g) = g"
  by (simp add: rebuild_def)

lemma animatedObjects_rebuild_Quantum:
  "animatedObjects (fst (rebuild atoms atomPositions bondingPairs Quantum trailLength trailOpacity g)) = []"
  by (simp add: rebuild_def case_prod_beta Let_def)

lemma frame_one_loop:
  assumes "loops v = [l]"
  shows "sceneAndSource (frame eps deltas v)
           = animate eps (loopMode l) (loopBondingPairs l) (animationState v) (deltas 0)
               (sceneAndSource v)"
  using assms by (simp add: frame_def)

lemma frame_two_loops:
  assumes "loops v = [l, m]"
  shows "sceneAndSource (frame eps deltas v)
           = animate eps (loopMode m) (loopBondingPairs m) (animationState v) (deltas 1)
               (animate eps (loopMode l) (loopBondingPairs l) (animationState v) (deltas 0)
                  (sceneAndSource v))"
  using assms by (simp add: frame_def)

subsection \<open>The example viewers\<close>

lemma example_props:
  "props unbondedInBohr
     = \<lparr>atomsRef = 0, atomPositionsRef = 0, onAtomPositionChangeRef = 0,
        bondingPairsRef = 0, bondingProgressProp = 1, electronSpeedProp = 0,
        setIsLoadingRef = 0, onAtomRightClickRef = 0, visualizationModeProp = Bohr,
        trailLengthProp = 2, trailOpacityProp = 1\<rparr>"
  "props unbondedInQuantum = (props unbondedInBohr)\<lparr>visualizationModeProp := Quantum\<rparr>"
  "props bondedInQuantum = (props unbondedInBohr)\<lparr>visualizationModeProp := Quantum, bondingPairsRef := 1\<rparr>"
  "props bondedInBohr = (props unbondedInBohr)\<lparr>bondingPairsRef := 1\<rparr>"
  by (simp_all add: unbondedInBohr_def unbondedInQuantum_def bondedInQuantum_def bondedInBohr_def)

lemma example_values:
  "atomsValue bondedInBohr = [hydrogen, hydrogen]"
  "atomPositionsValue bondedInBohr = [Vector3 0 0 0, Vector3 2 0 0]"
  "bondingPairsValue bondedInBohr = [mkBond 0 1 1]"
  "atomsValue bondedInQuantum = [hydrogen, hydrogen]"
  "atomPositionsValue bondedInQuantum = [Vector3 0 0 0, Vector3 2 0 0]"
  "bondingPairsValue bondedInQuantum = [mkBond 0 1 1]"
  "bondingPairsValue unbondedInBohr = []"
  "bondingPairsValue unbondedInQuantum = []"
  by (simp_all add: unbondedInBohr_def unbondedInQuantum_def bondedInQuantum_def bondedInBohr_def)

lemma bondAddedInQuantum_loops:
  "loops bondAddedInQuantum
     = [\<lparr>loopMode = Bohr, loopBondingPairs = []\<rparr>,
        \<lparr>loopMode = Quantum, loopBondingPairs = [mkBond 0 1 1]\<rparr>]"
  by (simp add: bondAddedInQuantum_def loops_rerender mount_eq initRuns_def initDeps_def
      example_props example_values)

lemma bondAddedInQuantum_state:
  "animationState bondAddedInQuantum = \<lparr>speed = 0, bondingProgress = 1\<rparr>"
  by (simp add: bondAddedInQuantum_def animationState_rerender animationStateDeps_def
      example_props updateAnimationState_def)

lemma bondAddedInQuantum_scene:
  "fst (sceneAndSource bondAddedInQuantum) = fst (twoHydrogens Bohr)"
proof -
  have "rebuildRuns (props bondedInQuantum) (props bondedInBohr)"
    by (simp add: rebuildRuns_def rebuildDeps_def example_props)
  from scene_rerender [OF this]
  obtain g where "sceneAndSource bondAddedInQuantum
           = rebuild (atomsValue bondedInBohr) (atomPositionsValue bondedInBohr)
               (bondingPairsValue bondedInBohr) (visualizationModeProp (props bondedInBohr))
               (trailLengthProp (props bondedInBohr)) (trailOpacityProp (props bondedInBohr)) g"
    unfolding bondAddedInQuantum_def by blast
  then show ?thesis
    using rebuild_Bohr_scene [of "[hydrogen, hydrogen]" "[Vector3 0 0 0, Vector3 2 0 0]"
        "[mkBond 0 1 1]" 2 1 g zeroDraws]
    by (simp add: example_props example_values twoHydrogens_def)
qed

lemma switchedToQuantum_loops:
  "loops switchedToQuantum = [\<lparr>loopMode = Bohr, loopBondingPairs = [mkBond 0 1 1]\<rparr>]"
  by (simp add: switchedToQuantum_def loops_rerender mount_eq initRuns_def initDeps_def
      example_props example_values)

lemma switchedToQuantum_state:
  "animationState switchedToQuantum = \<lparr>speed = 0, bondingProgress = 1\<rparr>"
  by (simp add: switchedToQuantum_def animationState_rerender animationStateDeps_def
      example_props updateAnimationState_def)

lemma switchedToQuantum_scene:
  "sceneAndSource switchedToQuantum = twoHydrogens Quantum"
  by (simp add: switchedToQuantum_def rerender_def Let_def mount_eq rebuildEffect_def
      trailOpacityEffect_def animationStateEffect_def initRuns_def initDeps_def
      animationStateDeps_def trailOpacityDeps_def rebuildRuns_def rebuildDeps_def
      example_props example_values twoHydrogens_def rebuild_Bohr_source
      applyTrailOpacity_def)

lemma quantumObjects_twoHydrogens_Bohr: "quantumObjects (fst (twoHydrogens Bohr)) = []"
  by (simp add: twoHydrogens_def rebuild_def)

lemma animatedObjects_twoHydrogens_Quantum: "animatedObjects (fst (twoHydrogens Quantum)) = []"
  by (simp add: twoHydrogens_def animatedObjects_rebuild_Quantum)

text \<open>
  Claim C4 holds of a tick only for the bond list that the loop of the tick captured, and
  the loops of the viewer capture the mode and the bond list of the render that started
  them. In the viewer that got its bond while it was in the Quantum mode and is back in
  the Bohr mode, the loop that captured the Bohr mode still holds the empty bond list of
  the first render, and the loop that holds the bond captured the Quantum mode and finds
  no nucleus. With the bonding progress at 1 the claim places the pivot of the first atom
  on the nucleus of its partner, at \<open>(2, 0, 0)\<close>; after a frame it is on the atom's own
  nucleus, at the origin.
\<close>

theorem stale_loop_pivot_position:
  "visualizationModeProp (props bondedInBohr) = Bohr
   \<and> bondingPairsValue bondedInBohr = [mkBond 0 1 1]
   \<and> loops bondAddedInQuantum
       = [\<lparr>loopMode = Bohr, loopBondingPairs = []\<rparr>,
          \<lparr>loopMode = Quantum, loopBondingPairs = [mkBond 0 1 1]\<rparr>]
   \<and> bondingProgress (animationState bondAddedInQuantum) = 1
   \<and> map (\<lambda>obj. position (nucleus obj)) (animatedObjects (fst (sceneAndSource bondAddedInQuantum)))
       = [Vector3 0 0 0, Vector3 2 0 0]
   \<and> spec_partnerPositions (animatedObjects (fst (sceneAndSource bondAddedInQuantum)))
         (bondingPairsValue bondedInBohr) 0
       = [Vector3 2 0 0]
   \<and> lerpVectors (Vector3 0 0 0) (spec_centroid [Vector3 2 0 0]) 1 = Vector3 2 0 0
   \<and> position (electronPivots (animatedObjects (fst (sceneAndSource
          (frame (1 / 1000000) (\<lambda>i. 1 / 60) bondAddedInQuantum))) ! 0) ! 0)
       = Vector3 0 0 0"
proof -
  let ?v = bondAddedInQuantum
  let ?B = "fst (twoHydrogens Bohr)"
  let ?st = "\<lparr>speed = 0, bondingProgress = 1\<rparr>"
  let ?S1 = "animate (1 / 1000000) Bohr [] ?st (1 / 60) (sceneAndSource ?v)"
  have scene: "fst (sceneAndSource ?v) = ?B" by (rule bondAddedInQuantum_scene)
  have objs: "animatedObjects ?B
     = [createAtomModel hydrogen (Vector3 0 0 0) 2 1, createAtomModel hydrogen (Vector3 2 0 0) 2 1]"
    by (rule twoHydrogens_Bohr)
  have nuclei: "map (\<lambda>obj. position (nucleus obj)) (animatedObjects ?B)
       = [Vector3 0 0 0, Vector3 2 0 0]"
    by (simp add: objs nucleus_createAtomModel position_newNucleus)
  have partners: "spec_partnerPositions (animatedObjects ?B) [mkBond 0 1 1] 0 = [Vector3 2 0 0]"
    by (simp add: spec_partnerPositions_def spec_bondPartners_def mkBond_def objs
        nucleus_createAtomModel position_newNucleus)
  have none: "spec_partnerPositions (animatedObjects ?B) [] 0 = []"
    by (simp add: spec_partnerPositions_def spec_bondPartners_def)
  have demanded: "lerpVectors (Vector3 0 0 0) (spec_centroid [Vector3 2 0 0]) 1 = Vector3 2 0 0"
    by (simp add: lerpVectors_def spec_centroid_def)
  have ne: "animatedObjects (fst (sceneAndSource ?v)) \<noteq> []"
    by (simp add: scene objs)
  have "quantumObjects (fst ?S1) = quantumObjects (fst (sceneAndSource ?v))"
    using ne by (rule animate_Bohr_objects(2))
  then have "nucleiOf Quantum (fst ?S1) = []"
    by (simp add: nucleiOf_def scene quantumObjects_twoHydrogens_Bohr)
  then have second: "fst (animate (1 / 1000000) Quantum [mkBond 0 1 1] ?st (1 / 60) ?S1) = fst ?S1"
    by (rule animate_without_nuclei)
  have after: "fst (sceneAndSource (frame (1 / 1000000) (\<lambda>i. 1 / 60) ?v)) = fst ?S1"
    using frame_two_loops [OF bondAddedInQuantum_loops, of "1 / 1000000" "\<lambda>i. 1 / 60"] second
    by (simp add: bondAddedInQuantum_state)
  have k: "0 < length (animatedObjects ?B)" by (simp add: objs)
  have i: "0 < length (electronPivots (animatedObjects ?B ! 0))"
    by (simp add: objs hydrogen_model)
  have "sceneAndSource ?v = (?B, snd (sceneAndSource ?v))"
    using scene by (simp add: prod_eq_iff)
  then have S1: "?S1 = animate (1 / 1000000) Bohr [] ?st (1 / 60) (?B, snd (sceneAndSource ?v))"
    by simp
  have own: "position (nucleus (animatedObjects ?B ! 0)) = Vector3 0 0 0"
    by (simp add: objs nucleus_createAtomModel position_newNucleus)
  have "position (electronPivots (animatedObjects (fst ?S1) ! 0) ! 0)
          = position (nucleus (animatedObjects ?B ! 0))"
    unfolding S1
    using tick_pivot_position [OF k i, of "1 / 1000000" "[]" ?st "1 / 60" "snd (sceneAndSource ?v)"]
      none
    by simp
  then have "position (electronPivots (animatedObjects (fst ?S1) ! 0) ! 0) = Vector3 0 0 0"
    by (simp only: own)
  with after nuclei partners demanded show ?thesis
    by (simp add: scene bondAddedInQuantum_loops bondAddedInQuantum_state example_props
        example_values)
qed

text \<open>
  In the viewer that was switched from the Bohr mode to the Quantum mode, the only loop
  captured the Bohr mode: its tick finds no nucleus and returns, although the scene holds
  two nuclei and a bond group. The group stays invisible and its cylinder keeps the
  opacity 0 while the bonding progress is 1.
\<close>

lemma stale_mode_bond:
  "visualizationModeProp (props bondedInQuantum) = Quantum
   \<and> loops switchedToQuantum = [\<lparr>loopMode = Bohr, loopBondingPairs = [mkBond 0 1 1]\<rparr>]
   \<and> length (nucleiOf Quantum (fst (sceneAndSource switchedToQuantum))) = 2
   \<and> length (bonds (fst (sceneAndSource switchedToQuantum))) = 1
   \<and> bondingProgress (animationState switchedToQuantum) = 1
   \<and> \<not> visible (bonds (fst (sceneAndSource
            (frame (1 / 1000000) (\<lambda>i. 1 / 60) switchedToQuantum))) ! 0)
   \<and> map opacity (cylinders (bonds (fst (sceneAndSource
            (frame (1 / 1000000) (\<lambda>i. 1 / 60) switchedToQuantum))) ! 0)) = [0]"
proof -
  let ?v = switchedToQuantum
  let ?Q = "fst (twoHydrogens Quantum)"
  have scene: "sceneAndSource ?v = twoHydrogens Quantum" by (rule switchedToQuantum_scene)
  have bonds: "bonds ?Q = [newBondGroup (mkBond 0 1 1)]"
    by (simp add: twoHydrogens_def bonds_rebuild createBondGroups_def mkBond_def)
  have "nucleiOf Bohr (fst (sceneAndSource ?v)) = []"
    by (simp add: nucleiOf_def scene animatedObjects_twoHydrogens_Quantum)
  then have "fst (animate (1 / 1000000) Bohr [mkBond 0 1 1] \<lparr>speed = 0, bondingProgress = 1\<rparr>
                    (1 / 60) (sceneAndSource ?v)) = fst (sceneAndSource ?v)"
    by (rule animate_without_nuclei)
  then have after: "fst (sceneAndSource (frame (1 / 1000000) (\<lambda>i. 1 / 60) ?v)) = ?Q"
    using frame_one_loop [OF switchedToQuantum_loops, of "1 / 1000000" "\<lambda>i. 1 / 60"]
    by (simp add: switchedToQuantum_state scene)
  show ?thesis
    by (simp add: after scene bonds nucleiOf_def twoHydrogens_Quantum switchedToQuantum_loops
        switchedToQuantum_state example_props newBondGroup_def mkBond_def newMesh_def)
qed

text \<open>
  Claim C1 as it is written fails in both ways: for the bond with the index \<open>-1\<close>, and
  in the viewer whose loop captured another mode.
\<close>

theorem bond_pose_update_counterexample:
  "(length (bonds (fst danglingBond)) = 1
    \<and> length (nucleiOf Bohr (fst danglingBond)) = 2
    \<and> \<not> visible (bonds (fst (animate (1 / 1000000) Bohr [mkBond (- 1) 0 1]
           \<lparr>speed = 1, bondingProgress = 1\<rparr> (1 / 60) danglingBond)) ! 0))
   \<and> (visualizationModeProp (props bondedInQuantum) = Quantum
      \<and> loops switchedToQuantum = [\<lparr>loopMode = Bohr, loopBondingPairs = [mkBond 0 1 1]\<rparr>]
      \<and> length (nucleiOf Quantum (fst (sceneAndSource switchedToQuantum))) = 2
      \<and> length (bonds (fst (sceneAndSource switchedToQuantum))) = 1
      \<and> bondingProgress (animationState switchedToQuantum) = 1
      \<and> \<not> visible (bonds (fst (sceneAndSource
               (frame (1 / 1000000) (\<lambda>i. 1 / 60) switchedToQuantum))) ! 0)
      \<and> map opacity (cylinders (bonds (fst (sceneAndSource
               (frame (1 / 1000000) (\<lambda>i. 1 / 60) switchedToQuantum))) ! 0)) = [0])"
  using dangling_bond_tick stale_mode_bond by blast


section \<open>The trail samples of the example scenes\<close>

lemma atomScaleOf_hydrogen: "atomScaleOf hydrogen = 1 / 2"
  by (simp add: atomScaleOf_def hydrogen_def NUCLEUS_SCALE_FACTOR_def)

lemma hydrogen_fields:
  "shells hydrogen = [1]" "electronConfigurationSemantic hydrogen = ''1s1''"
  by (simp_all add: hydrogen_def)

lemma hydrogen_shell: "shellElectrons (1 / 2) (0, 1) = [newMesh (Vector3 0 (5 / 4) 0) 1]"
  by (simp add: shellElectrons_def getSpherePoints_def shellRadiusOf_def SHELL_BASE_RADIUS_def)

lemma hydrogen_parts:
  "electrons (createAtomModel hydrogen pos len op) = [newMesh (Vector3 0 (5 / 4) 0) 1]"
  "electronPivots (createAtomModel hydrogen pos len op) = [newObject3D]"
  "nucleus (createAtomModel hydrogen pos len op) = newNucleus (1 / 2) pos"
  by (simp_all add: createAtomModel_def Let_def atomScaleOf_hydrogen hydrogen_fields hydrogen_shell)

lemma hydrogen_trail:
  "electronTrails (createAtomModel hydrogen pos 2 op)
     = Some \<lparr>position = zeroVector, quaternion = identityQuaternion, scale = Vector3 1 1 1,
             visible = True,
             positions = replicate 2 (float32Vector (Vector3 (vx pos) (5 / 8 + vy pos) (vz pos))),
             pointsOpacity = op\<rparr>"
  by (simp add: createAtomModel_def Let_def atomScaleOf_hydrogen hydrogen_fields hydrogen_shell
      initialTrail_def localToParent_def newNucleus_def newObject3D_def newMesh_def
      identityQuaternion_def zeroVector_def numeral_2_eq_2)

lemma rotate_by_zero: "rotateX (rotateY q 0) 0 = q"
  by (cases q) (simp add: rotateX_def rotateY_def rotateOnAxis_def setFromAxisAngle_def
      multiplyQuaternions_def)

lemma updatePivot_at_rest:
  "updatePivot nucleusPosition target bp 0 delta ip
     = (snd ip)\<lparr>position := lerpVectors nucleusPosition target bp\<rparr>"
  by (simp add: updatePivot_def Let_def rotate_by_zero)

lemma parse_1s1: "parseElectronConfiguration ''1s1'' = [(''1s'', 1)]" by code_simp

lemma sphereSample_zero: "sphereSample r 0 0 0 = zeroVector"
  by (simp add: sphereSample_def zeroVector_def)

lemma orbital_zero:
  "getRandomPointInOrbital ''1s'' sc (\<lambda>i. 0, n) = (zeroVector, (\<lambda>i. 0, Suc (Suc (Suc n))))"
  by (simp add: getRandomPointInOrbital_def getRandomPointInSphere_def random_def
      sphereSample_zero charAt_def Let_def)

lemma second_cloud:
  "electronCloud (quantumObjects (fst (twoHydrogens Quantum)) ! 1)
     = Some \<lparr>position = zeroVector, quaternion = identityQuaternion, scale = Vector3 1 1 1,
             visible = True,
             positions = replicate 15 (float32Vector zeroVector),
             pointsOpacity = 1,
             electronAnimations =
               [\<lparr>orbitalKey = ''1s'', currentPosition = zeroVector, targetPosition = zeroVector\<rparr>]\<rparr>"
  by (simp add: twoHydrogens_def rebuild_def case_prod_beta Let_def createQuantumAtomModel_def
      hydrogen_fields parse_1s1 orbital_zero zeroDraws_def QUANTUM_TRAIL_LENGTH_def)

lemma hydrogen_resting_tick:
  assumes "k < length (animatedObjects scene)"
    and "animatedObjects scene ! k = createAtomModel hydrogen pos 2 op"
  shows "electronWorldPosition
           (animatedObjects (fst (animate eps Bohr [] \<lparr>speed = 0, bondingProgress = bp\<rparr> delta (scene, g))) ! k) 0
         = Vector3 (vx pos) (5 / 4 + vy pos) (vz pos)"
    and "\<exists>t. electronTrails (animatedObjects
                   (fst (animate eps Bohr [] \<lparr>speed = 0, bondingProgress = bp\<rparr> delta (scene, g))) ! k)
               = Some t
             \<and> positions t = [float32Vector (Vector3 (vx pos) (5 / 4 + vy pos) (vz pos)),
                              float32Vector (Vector3 (vx pos) (5 / 8 + vy pos) (vz pos))]"
proof -
  let ?st = "\<lparr>speed = 0, bondingProgress = bp\<rparr>"
  let ?obj = "createAtomModel hydrogen pos 2 op"
  let ?mid = "animateAtom (animatedObjects scene) [] ?st delta (k, ?obj)"
  have obj': "animatedObjects (fst (animate eps Bohr [] ?st delta (scene, g))) ! k
                = updateElectronTrails ?mid"
    using animated_object_after_tick [OF assms(1), of eps "[]" ?st delta g] assms(2) by simp
  have target: "targetPositionOf (animatedObjects scene) [] bp k ?obj = pos"
    by (simp add: targetPositionOf_def bondPartnersPositions_def hydrogen_parts position_newNucleus)
  have pivots: "electronPivots ?mid = [newObject3D\<lparr>position := pos\<rparr>]"
    by (simp add: animateAtom_def Let_def hydrogen_parts target updatePivot_at_rest
        position_newNucleus lerpVectors_same)
  have els: "electrons ?mid = [newMesh (Vector3 0 (5 / 4) 0) 1]"
    by (simp add: electrons_animateAtom hydrogen_parts)
  have wp: "electronWorldPosition ?mid 0 = Vector3 (vx pos) (5 / 4 + vy pos) (vz pos)"
    by (simp add: electronWorldPosition_def pivots els localToParent_def newObject3D_def
        newMesh_def identityQuaternion_def)
  show "electronWorldPosition
           (animatedObjects (fst (animate eps Bohr [] ?st delta (scene, g))) ! k) 0
         = Vector3 (vx pos) (5 / 4 + vy pos) (vz pos)"
    by (simp add: obj' electronWorldPosition_updateElectronTrails wp)
  have tr: "electronTrails ?mid
     = Some \<lparr>position = zeroVector, quaternion = identityQuaternion, scale = Vector3 1 1 1,
             visible = True,
             positions = replicate 2 (float32Vector (Vector3 (vx pos) (5 / 8 + vy pos) (vz pos))),
             pointsOpacity = op\<rparr>"
    by (simp add: electronTrails_animateAtom hydrogen_trail)
  have one: "[0 ..< length (electrons ?mid)] = [0]" by (simp add: els)
  show "\<exists>t. electronTrails (animatedObjects
                   (fst (animate eps Bohr [] ?st delta (scene, g))) ! k)
               = Some t
             \<and> positions t = [float32Vector (Vector3 (vx pos) (5 / 4 + vy pos) (vz pos)),
                              float32Vector (Vector3 (vx pos) (5 / 8 + vy pos) (vz pos))]"
    unfolding obj'
    by (simp add: updateElectronTrails_def tr one Let_def wp els pushSample_def setXYZ_vector
        float32Vector_idempotent numeral_2_eq_2)
qed

subsection \<open>A position that is not a single-precision number\<close>

lemma offGrid_objects:
  "animatedObjects (fst offGridHydrogen) = [createAtomModel hydrogen (Vector3 (1 / 10) 0 0) 2 1]"
  by (simp add: offGridHydrogen_def rebuild_def positionOfAtom_def arrayAt_def)

lemma off_grid_head:
  "positions (the (electronTrails (animatedObjects (fst (animate (1 / 1000000) Bohr []
        \<lparr>speed = 0, bondingProgress = 0\<rparr> (1 / 60) offGridHydrogen)) ! 0))) ! 0
   \<noteq> electronWorldPosition (animatedObjects (fst (animate (1 / 1000000) Bohr []
        \<lparr>speed = 0, bondingProgress = 0\<rparr> (1 / 60) offGridHydrogen)) ! 0) 0"
proof -
  let ?T = "fst (animate (1 / 1000000) Bohr [] \<lparr>speed = 0, bondingProgress = 0\<rparr> (1 / 60)
                   (fst offGridHydrogen, snd offGridHydrogen))"
  have k: "0 < length (animatedObjects (fst offGridHydrogen))" by (simp add: offGrid_objects)
  have obj: "animatedObjects (fst offGridHydrogen) ! 0 = createAtomModel hydrogen (Vector3 (1 / 10) 0 0) 2 1"
    by (simp add: offGrid_objects)
  from hydrogen_resting_tick [OF k obj, of "1 / 1000000" 0 "1 / 60" "snd offGridHydrogen"]
  obtain t where wp: "electronWorldPosition (animatedObjects ?T ! 0) 0 = Vector3 (1 / 10) (5 / 4) 0"
    and t: "electronTrails (animatedObjects ?T ! 0) = Some t"
    and head: "positions t ! 0 = float32Vector (Vector3 (1 / 10) (5 / 4) 0)"
    by auto
  have "vx (positions t ! 0) = 13421773 / 134217728"
    by (simp add: head float32Vector_def fround_tenth)
  then have "positions t ! 0 \<noteq> Vector3 (1 / 10) (5 / 4) 0" by auto
  with wp t show ?thesis by simp
qed

subsection \<open>The cloud of the second atom\<close>

lemma animateElectrons_independent:
  "fst (animateElectrons sc e0 anims ps g) = fst (animateElectrons sc 0 anims [] g)
   \<and> snd (snd (animateElectrons sc e0 anims ps g)) = snd (snd (animateElectrons sc 0 anims [] g))"
proof (induction anims arbitrary: e0 ps g)
  case Nil
  then show ?case by simp
next
  case (Cons anim rest)
  let ?g1 = "snd (stepElectron sc anim g)"
  let ?p = "currentPosition (fst (stepElectron sc anim g))"
  from Cons.IH [of "Suc e0" "pushSample QUANTUM_TRAIL_LENGTH e0 ?p ps" ?g1]
    Cons.IH [of "Suc 0" "pushSample QUANTUM_TRAIL_LENGTH 0 ?p []" ?g1]
  show ?case by (simp add: case_prod_beta Let_def)
qed

lemma resting_electron:
  "stepElectron sc \<lparr>orbitalKey = ''1s'', currentPosition = zeroVector, targetPosition = zeroVector\<rparr>
     (\<lambda>i. 0, n)
   = (\<lparr>orbitalKey = ''1s'', currentPosition = zeroVector, targetPosition = zeroVector\<rparr>,
      (\<lambda>i. 0, Suc (Suc (Suc n))))"
proof -
  have d: "distanceTo zeroVector zeroVector = 0"
    by (simp add: distanceTo_def subVectors_def vlength_def zeroVector_def)
  have l: "lerp zeroVector zeroVector t = zeroVector" for t
    by (simp add: lerp_def zeroVector_def)
  show ?thesis
    by (simp add: stepElectron_def d l orbital_zero ELECTRON_TARGET_THRESHOLD_def)
qed

lemma resting_cloud:
  assumes "electronCloud obj = Some c"
    and "electronAnimations c
           = [\<lparr>orbitalKey = ''1s'', currentPosition = zeroVector, targetPosition = zeroVector\<rparr>]"
    and "positions c = replicate 15 (float32Vector zeroVector)"
  shows "\<exists>c'. electronCloud (fst (animateQuantumObject obj (\<lambda>i. 0, n))) = Some c'
            \<and> position c' = position (qNucleus obj)
            \<and> quaternion c' = quaternion c \<and> scale c' = scale c
            \<and> currentPosition (electronAnimations c' ! 0) = zeroVector
            \<and> length (electronAnimations c') = 1
            \<and> length (positions c') = 15
            \<and> positions c' ! 0 = zeroVector"
    and "snd (animateQuantumObject obj (\<lambda>i. 0, n)) = (\<lambda>i. 0, Suc (Suc (Suc n)))"
proof -
  let ?z = "\<lparr>orbitalKey = ''1s'', currentPosition = zeroVector, targetPosition = zeroVector\<rparr>"
  let ?sc = "vx (scale (qNucleus obj))"
  let ?R = "animateElectrons ?sc 0 (electronAnimations c) (positions c) (\<lambda>i. 0, n)"
  have base: "animateElectrons ?sc 0 [?z] [] (\<lambda>i. 0, n)
                = ([?z], pushSample QUANTUM_TRAIL_LENGTH 0 zeroVector [], (\<lambda>i. 0, Suc (Suc (Suc n))))"
    by (simp add: resting_electron)
  have ind: "fst ?R = fst (animateElectrons ?sc 0 [?z] [] (\<lambda>i. 0, n))"
    "snd (snd ?R) = snd (snd (animateElectrons ?sc 0 [?z] [] (\<lambda>i. 0, n)))"
    unfolding assms(2)
    using animateElectrons_independent [of ?sc 0 "[?z]" "positions c" "(\<lambda>i. 0, n)"]
    by blast+
  have anims: "fst ?R = [?z]" and src: "snd (snd ?R) = (\<lambda>i. 0, Suc (Suc (Suc n)))"
    by (simp_all only: ind base fst_conv snd_conv)
  have len: "length (positions c) = length (electronAnimations c) * QUANTUM_TRAIL_LENGTH"
    by (simp add: assms(2,3) QUANTUM_TRAIL_LENGTH_def)
  have f32: "\<forall>p \<in> set (positions c). float32Vector p = p"
    by (simp add: assms(3) float32Vector_idempotent)
  have cloud: "electronCloud (fst (animateQuantumObject obj (\<lambda>i. 0, n)))
                 = Some (c\<lparr>position := position (qNucleus obj), positions := fst (snd ?R),
                           electronAnimations := fst ?R\<rparr>)"
    using assms(1) by (simp add: animateQuantumObject_def Let_def case_prod_beta)
  from animateQuantumObject_cloud [OF assms(1) len f32, of "(\<lambda>i. 0, n)"] cloud
  have head: "fst (snd ?R) ! 0 = float32Vector (currentPosition (fst ?R ! 0))"
    and l: "length (fst (snd ?R)) = length (positions c)"
    by (auto simp: assms(2))
  have z: "float32Vector zeroVector = zeroVector"
    by (simp add: float32Vector_def zeroVector_def fround_examples)
  have h: "fst (snd ?R) ! 0 = zeroVector"
    unfolding head anims by (simp add: z)
  have l15: "length (fst (snd ?R)) = 15"
    unfolding l by (simp add: assms(3))
  show "\<exists>c'. electronCloud (fst (animateQuantumObject obj (\<lambda>i. 0, n))) = Some c'
            \<and> position c' = position (qNucleus obj)
            \<and> quaternion c' = quaternion c \<and> scale c' = scale c
            \<and> currentPosition (electronAnimations c' ! 0) = zeroVector
            \<and> length (electronAnimations c') = 1
            \<and> length (positions c') = 15
            \<and> positions c' ! 0 = zeroVector"
    by (intro exI conjI, rule cloud) (simp_all add: anims h l15)
  show "snd (animateQuantumObject obj (\<lambda>i. 0, n)) = (\<lambda>i. 0, Suc (Suc (Suc n)))"
    using assms(1) src by (simp add: animateQuantumObject_def Let_def case_prod_beta)
qed

lemma first_cloud:
  "electronCloud (quantumObjects (fst (twoHydrogens Quantum)) ! 0)
     = Some \<lparr>position = zeroVector, quaternion = identityQuaternion, scale = Vector3 1 1 1,
             visible = True,
             positions = replicate 15 (float32Vector zeroVector),
             pointsOpacity = 1,
             electronAnimations =
               [\<lparr>orbitalKey = ''1s'', currentPosition = zeroVector, targetPosition = zeroVector\<rparr>]\<rparr>"
  by (simp add: twoHydrogens_def rebuild_def case_prod_beta Let_def createQuantumAtomModel_def
      hydrogen_fields parse_1s1 orbital_zero zeroDraws_def QUANTUM_TRAIL_LENGTH_def)

lemma twoHydrogens_Quantum_source: "snd (twoHydrogens Quantum) = (\<lambda>i. 0, 12)"
  by (simp add: twoHydrogens_def rebuild_def case_prod_beta Let_def createQuantumAtomModel_def
      hydrogen_fields parse_1s1 orbital_zero zeroDraws_def)

lemma second_nucleus:
  "position (qNucleus (quantumObjects (fst (twoHydrogens Quantum)) ! 1)) = Vector3 2 0 0"
  by (simp add: twoHydrogens_def rebuild_def case_prod_beta Let_def
      createQuantumAtomModel_def hydrogen_fields parse_1s1 position_newNucleus positionOfAtom_def
      arrayAt_def)

lemma quantum_head:
  "length (electronAnimations (the (electronCloud (quantumObjects (fst (animate (1 / 1000000) Quantum
        [mkBond 0 1 1] \<lparr>speed = 0, bondingProgress = 1 / 2\<rparr> (1 / 60) (twoHydrogens Quantum))) ! 1)))) = 1
   \<and> length (positions (the (electronCloud (quantumObjects (fst (animate (1 / 1000000) Quantum
        [mkBond 0 1 1] \<lparr>speed = 0, bondingProgress = 1 / 2\<rparr> (1 / 60) (twoHydrogens Quantum))) ! 1)))) = 15
   \<and> positions (the (electronCloud (quantumObjects (fst (animate (1 / 1000000) Quantum [mkBond 0 1 1]
        \<lparr>speed = 0, bondingProgress = 1 / 2\<rparr> (1 / 60) (twoHydrogens Quantum))) ! 1))) ! 0
      \<noteq> localToParent
        (the (electronCloud (quantumObjects (fst (animate (1 / 1000000) Quantum [mkBond 0 1 1]
           \<lparr>speed = 0, bondingProgress = 1 / 2\<rparr> (1 / 60) (twoHydrogens Quantum))) ! 1)))
        (currentPosition (electronAnimations
           (the (electronCloud (quantumObjects (fst (animate (1 / 1000000) Quantum [mkBond 0 1 1]
              \<lparr>speed = 0, bondingProgress = 1 / 2\<rparr> (1 / 60) (twoHydrogens Quantum))) ! 1))) ! 0))"
proof -
  let ?Q = "fst (twoHydrogens Quantum)"
  let ?Q' = "fst (animate (1 / 1000000) Quantum [mkBond 0 1 1]
        \<lparr>speed = 0, bondingProgress = 1 / 2\<rparr> (1 / 60) (?Q, snd (twoHydrogens Quantum)))"
  obtain a b where ab: "quantumObjects ?Q = [a, b]"
    using twoHydrogens_Quantum(1) by (auto simp: length_Suc_conv numeral_2_eq_2)
  have a: "quantumObjects ?Q ! 0 = a" and b: "quantumObjects ?Q ! 1 = b"
    by (simp_all add: ab)
  have ne: "quantumObjects ?Q \<noteq> []" by (simp add: ab)
  have eq: "quantumObjects ?Q'
              = fst (animateQuantumObjects (quantumObjects ?Q) (snd (twoHydrogens Quantum)))"
    using ne by (rule quantumObjects_animate_Quantum)
  have "quantumObjects ?Q' ! 1
          = fst (animateQuantumObject b (snd (animateQuantumObject a (\<lambda>i. 0, 12))))"
    unfolding eq by (simp add: twoHydrogens_Quantum_source ab case_prod_beta Let_def)
  also have "\<dots> = fst (animateQuantumObject b (\<lambda>i. 0, 15))"
    using resting_cloud(2) [OF first_cloud [unfolded a], of 12] by simp
  finally have obj': "quantumObjects ?Q' ! 1 = fst (animateQuantumObject (quantumObjects ?Q ! 1) (\<lambda>i. 0, 15))"
    by (simp only: b)
  from resting_cloud(1) [OF second_cloud, of 15]
  obtain c' where c': "electronCloud (quantumObjects ?Q' ! 1) = Some c'"
    and p: "position c' = position (qNucleus (quantumObjects ?Q ! 1))"
    and q': "quaternion c' = identityQuaternion" and s': "scale c' = Vector3 1 1 1"
    and cur: "currentPosition (electronAnimations c' ! 0) = zeroVector"
    and n: "length (electronAnimations c') = 1"
    and l: "length (positions c') = 15"
    and head: "positions c' ! 0 = zeroVector"
    unfolding obj' by auto
  have p': "position c' = Vector3 2 0 0"
    unfolding p by (rule second_nucleus)
  have "localToParent c' zeroVector = Vector3 2 0 0"
    by (simp add: localToParent_def p' q' s' identityQuaternion_def zeroVector_def Let_def)
  then have "positions c' ! 0 \<noteq> localToParent c' (currentPosition (electronAnimations c' ! 0))"
    by (simp add: head cur zeroVector_def)
  with c' n l show ?thesis by simp
qed

subsection \<open>A tick of a loop that captured the other mode\<close>

lemma stale_loop_trail:
  "loops bondAddedInQuantum
     = [\<lparr>loopMode = Bohr, loopBondingPairs = []\<rparr>,
        \<lparr>loopMode = Quantum, loopBondingPairs = [mkBond 0 1 1]\<rparr>]
   \<and> animationState bondAddedInQuantum = \<lparr>speed = 0, bondingProgress = 1\<rparr>
   \<and> positions (the (electronTrails (animatedObjects (fst
         (animate (1 / 1000000) Quantum [mkBond 0 1 1] \<lparr>speed = 0, bondingProgress = 1\<rparr> (1 / 60)
            (animate (1 / 1000000) Bohr [] \<lparr>speed = 0, bondingProgress = 1\<rparr> (1 / 60)
               (sceneAndSource bondAddedInQuantum)))) ! 0))) ! 1
     \<noteq> positions (the (electronTrails (animatedObjects (fst
         (animate (1 / 1000000) Bohr [] \<lparr>speed = 0, bondingProgress = 1\<rparr> (1 / 60)
            (sceneAndSource bondAddedInQuantum))) ! 0))) ! 0"
proof -
  let ?v = bondAddedInQuantum
  let ?B = "fst (twoHydrogens Bohr)"
  let ?st = "\<lparr>speed = 0, bondingProgress = 1\<rparr>"
  let ?S1 = "animate (1 / 1000000) Bohr [] ?st (1 / 60) (sceneAndSource ?v)"
  have scene: "fst (sceneAndSource ?v) = ?B" by (rule bondAddedInQuantum_scene)
  have pair: "sceneAndSource ?v = (?B, snd (sceneAndSource ?v))"
    using scene by (simp add: prod_eq_iff)
  have k: "0 < length (animatedObjects ?B)" by (simp add: twoHydrogens_Bohr)
  have obj: "animatedObjects ?B ! 0 = createAtomModel hydrogen (Vector3 0 0 0) 2 1"
    by (simp add: twoHydrogens_Bohr)
  from hydrogen_resting_tick(2) [OF k obj, of "1 / 1000000" 1 "1 / 60" "snd (sceneAndSource ?v)"]
  obtain t where t: "electronTrails (animatedObjects (fst ?S1) ! 0) = Some t"
    and samples: "positions t = [float32Vector (Vector3 0 (5 / 4) 0), float32Vector (Vector3 0 (5 / 8) 0)]"
    unfolding pair [symmetric] by auto
  have ne: "animatedObjects (fst (sceneAndSource ?v)) \<noteq> []"
    by (simp add: scene twoHydrogens_Bohr)
  have "quantumObjects (fst ?S1) = quantumObjects (fst (sceneAndSource ?v))"
    using ne by (rule animate_Bohr_objects(2))
  then have "nucleiOf Quantum (fst ?S1) = []"
    by (simp add: nucleiOf_def scene quantumObjects_twoHydrogens_Bohr)
  then have second: "fst (animate (1 / 1000000) Quantum [mkBond 0 1 1] ?st (1 / 60) ?S1) = fst ?S1"
    by (rule animate_without_nuclei)
  have "positions t ! 1 \<noteq> positions t ! 0"
    by (simp add: samples float32Vector_def fround_examples)
  then show ?thesis
    by (simp add: second t bondAddedInQuantum_loops bondAddedInQuantum_state)
qed

text \<open>
  Claim C2 as it is written fails in three ways. The buffer is an array of
  single-precision numbers: for the atom at \<open>(0.1, 0, 0)\<close> the sample at slot 0 after a
  tick is not the world position of the electron, whose first coordinate is one tenth.
  In the orbital model the buffer of an electron has 15 slots although the trail length
  is 2, and the sample at slot 0 is a position inside the cloud object: for the second
  atom, whose nucleus is at \<open>(2, 0, 0)\<close>, it is not the position at which the cloud object
  shows it. And in the viewer that got its bond in the Quantum mode and is back in the
  Bohr mode, the second loop captured the Quantum mode: its tick leaves the buffer as the
  tick of the first loop left it, so that slot 1 does not hold what slot 0 held before.
\<close>

theorem trail_buffers_shift_counterexample:
  "(positions (the (electronTrails (animatedObjects (fst (animate (1 / 1000000) Bohr []
         \<lparr>speed = 0, bondingProgress = 0\<rparr> (1 / 60) offGridHydrogen)) ! 0))) ! 0
    \<noteq> electronWorldPosition (animatedObjects (fst (animate (1 / 1000000) Bohr []
         \<lparr>speed = 0, bondingProgress = 0\<rparr> (1 / 60) offGridHydrogen)) ! 0) 0)
   \<and> (length (electronAnimations (the (electronCloud (quantumObjects (fst (animate (1 / 1000000) Quantum
            [mkBond 0 1 1] \<lparr>speed = 0, bondingProgress = 1 / 2\<rparr> (1 / 60) (twoHydrogens Quantum))) ! 1)))) = 1
       \<and> length (positions (the (electronCloud (quantumObjects (fst (animate (1 / 1000000) Quantum
            [mkBond 0 1 1] \<lparr>speed = 0, bondingProgress = 1 / 2\<rparr> (1 / 60) (twoHydrogens Quantum))) ! 1)))) = 15
       \<and> positions (the (electronCloud (quantumObjects (fst (animate (1 / 1000000) Quantum [mkBond 0 1 1]
            \<lparr>speed = 0, bondingProgress = 1 / 2\<rparr> (1 / 60) (twoHydrogens Quantum))) ! 1))) ! 0
          \<noteq> localToParent
            (the (electronCloud (quantumObjects (fst (animate (1 / 1000000) Quantum [mkBond 0 1 1]
               \<lparr>speed = 0, bondingProgress = 1 / 2\<rparr> (1 / 60) (twoHydrogens Quantum))) ! 1)))
            (currentPosition (electronAnimations
               (the (electronCloud (quantumObjects (fst (animate (1 / 1000000) Quantum [mkBond 0 1 1]
                  \<lparr>speed = 0, bondingProgress = 1 / 2\<rparr> (1 / 60) (twoHydrogens Quantum))) ! 1))) ! 0)))
   \<and> (loops bondAddedInQuantum
         = [\<lparr>loopMode = Bohr, loopBondingPairs = []\<rparr>,
            \<lparr>loopMode = Quantum, loopBondingPairs = [mkBond 0 1 1]\<rparr>]
       \<and> animationState bondAddedInQuantum = \<lparr>speed = 0, bondingProgress = 1\<rparr>
       \<and> positions (the (electronTrails (animatedObjects (fst
             (animate (1 / 1000000) Quantum [mkBond 0 1 1] \<lparr>speed = 0, bondingProgress = 1\<rparr> (1 / 60)
                (animate (1 / 1000000) Bohr [] \<lparr>speed = 0, bondingProgress = 1\<rparr> (1 / 60)
                   (sceneAndSource bondAddedInQuantum)))) ! 0))) ! 1
         \<noteq> positions (the (electronTrails (animatedObjects (fst
             (animate (1 / 1000000) Bohr [] \<lparr>speed = 0, bondingProgress = 1\<rparr> (1 / 60)
                (sceneAndSource bondAddedInQuantum))) ! 0))) ! 0)"
  using off_grid_head quantum_head stale_loop_trail by blast

end
